theory Spec2Isabelle
  imports Complex_Main
begin


section \<open>Data model (src/types.ts)\<close>

text \<open>
  JavaScript numbers are modelled as real numbers: every arithmetic expression of the
  source is read as the exact operation it denotes. The record fields of the source
  named \<^verbatim>\<open>x\<close>, \<^verbatim>\<open>y\<close>, \<^verbatim>\<open>z\<close> carry a prefix here
  (\<open>lm_x\<close> for a landmark), so that they do not capture the variable names of the theory.
  An optional property (\<^verbatim>\<open>visibility?: number\<close>) is an \<open>option\<close>.
\<close>

record Landmark3D =
  lm_x :: real
  lm_y :: real
  lm_z :: real
  visibility :: "real option"

record MocapFrame =
  timestamp :: real
  landmarks :: "Landmark3D list"

text \<open>
  What a JavaScript function can raise here: the \<^verbatim>\<open>Error\<close> thrown by the source itself
  (with its message), the \<^verbatim>\<open>TypeError\<close> of reading a property of \<^verbatim>\<open>undefined\<close>,
  and a failure of the external serialization backend.
\<close>

datatype error = Error string | TypeError | BackendFailure

section \<open>Landmark smoother (smoothFrames)\<close>

text \<open>
  The inner loop over \<^verbatim>\<open>j\<close>: \<^verbatim>\<open>curr = currentFrame.landmarks[j]\<close>,
  \<^verbatim>\<open>prev = previousLandmarks[j]\<close>. When the current frame has more landmarks than
  the previous smoothed one, \<^verbatim>\<open>prev\<close> is \<^verbatim>\<open>undefined\<close> and \<^verbatim>\<open>prev.x\<close> raises.

  Numbers are the reals here, and \<open>*\<close>, \<open>+\<close>, \<open>-\<close> are exact. The source evaluates the
  same expression in binary64, rounding \<open>1 - alpha\<close>, each product and the sum: with
  \<open>alpha = 0.6\<close> and \<open>prev = cur = 0.029\<close> it yields \<open>0.028999999999999998\<close>. The
  definition gives the expression the code evaluates, not its rounded value; nothing
  that depends on the rounding (an order between the result and its operands, for one)
  is stated from it.
\<close>

definition smoothLandmark :: "real \<Rightarrow> Landmark3D \<Rightarrow> Landmark3D \<Rightarrow> Landmark3D" where
  "smoothLandmark alpha cur prev =
     \<lparr> lm_x = alpha * lm_x cur + (1 - alpha) * lm_x prev,
       lm_y = alpha * lm_y cur + (1 - alpha) * lm_y prev,
       lm_z = alpha * lm_z cur + (1 - alpha) * lm_z prev,
       visibility = visibility cur \<rparr>"

fun smoothedLandmarks :: "real \<Rightarrow> Landmark3D list \<Rightarrow> Landmark3D list \<Rightarrow> error + Landmark3D list" where
  "smoothedLandmarks alpha [] prevs = Inr []"
| "smoothedLandmarks alpha (cur # cs) [] = Inl TypeError"
| "smoothedLandmarks alpha (cur # cs) (prev # ps) =
     (case smoothedLandmarks alpha cs ps of
        Inl e \<Rightarrow> Inl e
      | Inr rest \<Rightarrow> Inr (smoothLandmark alpha cur prev # rest))"

text \<open>The outer loop over \<^verbatim>\<open>i = 1 ..< frames.length\<close>, carrying \<^verbatim>\<open>previousLandmarks\<close>.\<close>

fun smoothLoop :: "real \<Rightarrow> Landmark3D list \<Rightarrow> MocapFrame list \<Rightarrow> error + MocapFrame list" where
  "smoothLoop alpha previousLandmarks [] = Inr []"
| "smoothLoop alpha previousLandmarks (currentFrame # fs) =
     (case smoothedLandmarks alpha (landmarks currentFrame) previousLandmarks of
        Inl e \<Rightarrow> Inl e
      | Inr sl \<Rightarrow>
          (case smoothLoop alpha sl fs of
             Inl e \<Rightarrow> Inl e
           | Inr rest \<Rightarrow> Inr (\<lparr> timestamp = timestamp currentFrame, landmarks = sl \<rparr> # rest)))"

text \<open>
  \<^verbatim>\<open>frames[0].landmarks.map(l => ({ ...l }))\<close> builds a new array of new objects with
  the same property values: as a value, the same list.
\<close>

definition smoothFrames :: "MocapFrame list \<Rightarrow> real \<Rightarrow> error + MocapFrame list" where
  "smoothFrames frames alpha =
     (case frames of
        [] \<Rightarrow> Inr []
      | f0 # fs \<Rightarrow>
          (let previousLandmarks = map (\<lambda>l. l) (landmarks f0) in
           case smoothLoop alpha previousLandmarks fs of
             Inl e \<Rightarrow> Inl e
           | Inr rest \<Rightarrow> Inr (\<lparr> timestamp = timestamp f0, landmarks = previousLandmarks \<rparr> # rest)))"

section \<open>Errors as values\<close>

definition bindE :: "error + 'a \<Rightarrow> ('a \<Rightarrow> error + 'b) \<Rightarrow> error + 'b" where
  "bindE m f = (case m of Inl e \<Rightarrow> Inl e | Inr v \<Rightarrow> f v)"

text \<open>\<^verbatim>\<open>xs.forEach(x => ...)\<close> over a state, stopping at the first exception.\<close>

fun forEachE :: "('a \<Rightarrow> 's \<Rightarrow> error + 's) \<Rightarrow> 'a list \<Rightarrow> 's \<Rightarrow> error + 's" where
  "forEachE f [] s = Inr s"
| "forEachE f (x # xs) s = (case f x s of Inl e \<Rightarrow> Inl e | Inr s' \<Rightarrow> forEachE f xs s')"

text \<open>A property read of a \<^verbatim>\<open>Record<string, T>\<close> whose result is dereferenced at once.\<close>

definition lookupE :: "(string \<rightharpoonup> 'a) \<Rightarrow> string \<Rightarrow> error + 'a" where
  "lookupE m k = (case m k of None \<Rightarrow> Inl TypeError | Some v \<Rightarrow> Inr v)"

section \<open>Landmark indices (MP_POSE, src/types.ts)\<close>

definition NOSE :: int where "NOSE = 0"
definition LEFT_SHOULDER :: int where "LEFT_SHOULDER = 11"
definition RIGHT_SHOULDER :: int where "RIGHT_SHOULDER = 12"
definition LEFT_ELBOW :: int where "LEFT_ELBOW = 13"
definition RIGHT_ELBOW :: int where "RIGHT_ELBOW = 14"
definition LEFT_WRIST :: int where "LEFT_WRIST = 15"
definition RIGHT_WRIST :: int where "RIGHT_WRIST = 16"
definition LEFT_HIP :: int where "LEFT_HIP = 23"
definition RIGHT_HIP :: int where "RIGHT_HIP = 24"
definition LEFT_KNEE :: int where "LEFT_KNEE = 25"
definition RIGHT_KNEE :: int where "RIGHT_KNEE = 26"
definition LEFT_ANKLE :: int where "LEFT_ANKLE = 27"
definition RIGHT_ANKLE :: int where "RIGHT_ANKLE = 28"

lemmas MP_POSE_defs =
  NOSE_def LEFT_SHOULDER_def RIGHT_SHOULDER_def LEFT_ELBOW_def RIGHT_ELBOW_def
  LEFT_WRIST_def RIGHT_WRIST_def LEFT_HIP_def RIGHT_HIP_def LEFT_KNEE_def RIGHT_KNEE_def
  LEFT_ANKLE_def RIGHT_ANKLE_def

section \<open>Vectors and quaternions of the three.js library\<close>

text \<open>
  The rotation exporter computes with \<^verbatim>\<open>THREE.Vector3\<close> and \<^verbatim>\<open>THREE.Quaternion\<close>.
  The methods it calls are written out here as three.js defines them
  (\<^verbatim>\<open>src/math/Vector3.js\<close>, \<^verbatim>\<open>src/math/Quaternion.js\<close>), over the reals. The
  threshold below which \<^verbatim>\<open>setFromUnitVectors\<close> treats its arguments as opposite
  (\<^verbatim>\<open>Number.EPSILON\<close> or \<^verbatim>\<open>1e-8\<close>, by release) is the parameter \<open>eps\<close>.
\<close>

record Vector3 =
  vx :: real
  vy :: real
  vz :: real

record Quaternion =
  qx :: real
  qy :: real
  qz :: real
  qw :: real

definition vec3 :: "real \<Rightarrow> real \<Rightarrow> real \<Rightarrow> Vector3" where
  "vec3 a b c = \<lparr> vx = a, vy = b, vz = c \<rparr>"

definition addVectors :: "Vector3 \<Rightarrow> Vector3 \<Rightarrow> Vector3" where
  "addVectors a b = vec3 (vx a + vx b) (vy a + vy b) (vz a + vz b)"

definition subVectors :: "Vector3 \<Rightarrow> Vector3 \<Rightarrow> Vector3" where
  "subVectors a b = vec3 (vx a - vx b) (vy a - vy b) (vz a - vz b)"

definition multiplyScalar :: "Vector3 \<Rightarrow> real \<Rightarrow> Vector3" where
  "multiplyScalar v s = vec3 (vx v * s) (vy v * s) (vz v * s)"

definition divideScalar :: "Vector3 \<Rightarrow> real \<Rightarrow> Vector3" where
  "divideScalar v s = multiplyScalar v (1 / s)"

definition lerpVectors :: "Vector3 \<Rightarrow> Vector3 \<Rightarrow> real \<Rightarrow> Vector3" where
  "lerpVectors v1 v2 alpha =
     vec3 (vx v1 + (vx v2 - vx v1) * alpha)
          (vy v1 + (vy v2 - vy v1) * alpha)
          (vz v1 + (vz v2 - vz v1) * alpha)"

definition dot_v3 :: "Vector3 \<Rightarrow> Vector3 \<Rightarrow> real" where
  "dot_v3 a b = vx a * vx b + vy a * vy b + vz a * vz b"

definition length_v3 :: "Vector3 \<Rightarrow> real" where
  "length_v3 v = sqrt (vx v * vx v + vy v * vy v + vz v * vz v)"

text \<open>\<^verbatim>\<open>normalize() { return this.divideScalar( this.length() || 1 ); }\<close>\<close>

definition normalize_v3 :: "Vector3 \<Rightarrow> Vector3" where
  "normalize_v3 v = divideScalar v (if length_v3 v = 0 then 1 else length_v3 v)"

definition quat :: "real \<Rightarrow> real \<Rightarrow> real \<Rightarrow> real \<Rightarrow> Quaternion" where
  "quat a b c d = \<lparr> qx = a, qy = b, qz = c, qw = d \<rparr>"

text \<open>\<^verbatim>\<open>new THREE.Quaternion()\<close>\<close>

definition identity_q :: Quaternion where
  "identity_q = quat 0 0 0 1"

definition length_q :: "Quaternion \<Rightarrow> real" where
  "length_q q = sqrt (qx q * qx q + qy q * qy q + qz q * qz q + qw q * qw q)"

definition normalize_q :: "Quaternion \<Rightarrow> Quaternion" where
  "normalize_q q =
     (let l = length_q q in
      if l = 0 then quat 0 0 0 1
      else (let l' = 1 / l in quat (qx q * l') (qy q * l') (qz q * l') (qw q * l')))"

definition setFromUnitVectors :: "real \<Rightarrow> Vector3 \<Rightarrow> Vector3 \<Rightarrow> Quaternion" where
  "setFromUnitVectors eps vFrom vTo =
     (let r = dot_v3 vFrom vTo + 1 in
      if r < eps then
        (if \<bar>vx vFrom\<bar> > \<bar>vz vFrom\<bar>
         then normalize_q (quat (- vy vFrom) (vx vFrom) 0 0)
         else normalize_q (quat 0 (- vz vFrom) (vy vFrom) 0))
      else
        normalize_q (quat (vy vFrom * vz vTo - vz vFrom * vy vTo)
                          (vz vFrom * vx vTo - vx vFrom * vz vTo)
                          (vx vFrom * vy vTo - vy vFrom * vx vTo)
                          r))"

text \<open>\<^verbatim>\<open>invert()\<close>: "quaternion is assumed to have unit length", so the conjugate.\<close>

definition invert :: "Quaternion \<Rightarrow> Quaternion" where
  "invert q = quat (- qx q) (- qy q) (- qz q) (qw q)"

definition multiplyQuaternions :: "Quaternion \<Rightarrow> Quaternion \<Rightarrow> Quaternion" where
  "multiplyQuaternions a b =
     quat (qx a * qw b + qw a * qx b + qy a * qz b - qz a * qy b)
          (qy a * qw b + qw a * qy b + qz a * qx b - qx a * qz b)
          (qz a * qw b + qw a * qz b + qx a * qy b - qy a * qx b)
          (qw a * qw b - qx a * qx b - qy a * qy b - qz a * qz b)"

text \<open>\<^verbatim>\<open>this.premultiply(q)\<close> sets \<^verbatim>\<open>this\<close> to \<^verbatim>\<open>q * this\<close>.\<close>

definition premultiply :: "Quaternion \<Rightarrow> Quaternion \<Rightarrow> Quaternion" where
  "premultiply this q = multiplyQuaternions q this"

section \<open>Rotation exporter (generateFBX)\<close>

subsection \<open>Bone hierarchy, scene and rest directions\<close>

record BoneSpec =
  bone_name :: string
  bone_parent :: "string option"
  bone_ref :: string

definition bone :: "string \<Rightarrow> string option \<Rightarrow> string \<Rightarrow> BoneSpec" where
  "bone n p r = \<lparr> bone_name = n, bone_parent = p, bone_ref = r \<rparr>"

definition boneMap :: "BoneSpec list" where
  "boneMap =
    [ bone ''mixamorig:Hips'' None ''Hips'',
      bone ''mixamorig:Spine'' (Some ''mixamorig:Hips'') ''Spine'',
      bone ''mixamorig:Spine1'' (Some ''mixamorig:Spine'') ''Spine1'',
      bone ''mixamorig:Spine2'' (Some ''mixamorig:Spine1'') ''Spine2'',
      bone ''mixamorig:Neck'' (Some ''mixamorig:Spine2'') ''Neck'',
      bone ''mixamorig:Head'' (Some ''mixamorig:Neck'') ''Head'',
      bone ''mixamorig:LeftShoulder'' (Some ''mixamorig:Spine2'') ''LeftShoulder'',
      bone ''mixamorig:LeftArm'' (Some ''mixamorig:LeftShoulder'') ''LeftArm'',
      bone ''mixamorig:LeftForeArm'' (Some ''mixamorig:LeftArm'') ''LeftForeArm'',
      bone ''mixamorig:LeftHand'' (Some ''mixamorig:LeftForeArm'') ''LeftHand'',
      bone ''mixamorig:RightShoulder'' (Some ''mixamorig:Spine2'') ''RightShoulder'',
      bone ''mixamorig:RightArm'' (Some ''mixamorig:RightShoulder'') ''RightArm'',
      bone ''mixamorig:RightForeArm'' (Some ''mixamorig:RightArm'') ''RightForeArm'',
      bone ''mixamorig:RightHand'' (Some ''mixamorig:RightForeArm'') ''RightHand'',
      bone ''mixamorig:LeftUpLeg'' (Some ''mixamorig:Hips'') ''LeftUpLeg'',
      bone ''mixamorig:LeftLeg'' (Some ''mixamorig:LeftUpLeg'') ''LeftLeg'',
      bone ''mixamorig:LeftFoot'' (Some ''mixamorig:LeftLeg'') ''LeftFoot'',
      bone ''mixamorig:RightUpLeg'' (Some ''mixamorig:Hips'') ''RightUpLeg'',
      bone ''mixamorig:RightLeg'' (Some ''mixamorig:RightUpLeg'') ''RightLeg'',
      bone ''mixamorig:RightFoot'' (Some ''mixamorig:RightLeg'') ''RightFoot'' ]"

text \<open>
  The scene handed to the backend: the bone objects in creation order, each with the
  object it was added to (\<open>None\<close> is the scene itself). \<^verbatim>\<open>bones[b.parent].add(bone)\<close>
  raises when no bone of that name has been created yet.
\<close>

type_synonym Scene = "(string \<times> string option) list"

definition addBone :: "BoneSpec \<Rightarrow> Scene \<Rightarrow> error + Scene" where
  "addBone b scene =
     (case bone_parent b of
        Some p \<Rightarrow>
          (if p \<in> fst ` set scene then Inr (scene @ [(bone_name b, Some p)]) else Inl TypeError)
      | None \<Rightarrow> Inr (scene @ [(bone_name b, None)]))"

definition buildScene :: "error + Scene" where
  "buildScene = forEachE addBone boneMap []"

definition tPoseDirections :: "string \<rightharpoonup> Vector3" where
  "tPoseDirections = map_of
    [ (''mixamorig:Spine'', vec3 0 1 0),
      (''mixamorig:Spine1'', vec3 0 1 0),
      (''mixamorig:Spine2'', vec3 0 1 0),
      (''mixamorig:Neck'', vec3 0 1 0),
      (''mixamorig:Head'', vec3 0 1 0),
      (''mixamorig:LeftShoulder'', normalize_v3 (vec3 1 1 0)),
      (''mixamorig:LeftArm'', vec3 1 0 0),
      (''mixamorig:LeftForeArm'', vec3 1 0 0),
      (''mixamorig:LeftHand'', vec3 1 0 0),
      (''mixamorig:RightShoulder'', normalize_v3 (vec3 (-1) 1 0)),
      (''mixamorig:RightArm'', vec3 (-1) 0 0),
      (''mixamorig:RightForeArm'', vec3 (-1) 0 0),
      (''mixamorig:RightHand'', vec3 (-1) 0 0),
      (''mixamorig:LeftUpLeg'', normalize_v3 (vec3 1 (-1) 0)),
      (''mixamorig:LeftLeg'', vec3 0 (-1) 0),
      (''mixamorig:LeftFoot'', vec3 0 0 1),
      (''mixamorig:RightUpLeg'', normalize_v3 (vec3 (-1) (-1) 0)),
      (''mixamorig:RightLeg'', vec3 0 (-1) 0),
      (''mixamorig:RightFoot'', vec3 0 0 1) ]"

subsection \<open>Per-frame track data\<close>

record track_data =
  td_pos :: "real list"
  td_rot :: "real list"

type_synonym tracks_data = "string \<rightharpoonup> track_data"

definition initTracksData :: tracks_data where
  "initTracksData =
     fold (\<lambda>b td. td(bone_name b \<mapsto> \<lparr> td_pos = [], td_rot = [] \<rparr>)) boneMap Map.empty"

definition scale :: real where
  "scale = 100"

text \<open>\<^verbatim>\<open>getVec\<close> has no range check: \<^verbatim>\<open>lm[idx].x\<close> raises when \<^verbatim>\<open>lm[idx]\<close> is undefined.\<close>

definition getVec :: "Landmark3D list \<Rightarrow> int \<Rightarrow> error + Vector3" where
  "getVec lm idx =
     (if 0 \<le> idx \<and> idx < int (length lm)
      then Inr (vec3 (- lm_x (lm ! nat idx) * scale)
                     (- lm_y (lm ! nat idx) * scale)
                     (lm_z (lm ! nat idx) * scale))
      else Inl TypeError)"

text \<open>The virtual joints and the table \<^verbatim>\<open>positions\<close> of one frame.\<close>

definition framePositions :: "Landmark3D list \<Rightarrow> error + (string \<rightharpoonup> Vector3)" where
  "framePositions lm =
     bindE (getVec lm LEFT_SHOULDER) (\<lambda>lShoulder.
     bindE (getVec lm RIGHT_SHOULDER) (\<lambda>rShoulder.
     bindE (getVec lm LEFT_HIP) (\<lambda>lHip.
     bindE (getVec lm RIGHT_HIP) (\<lambda>rHip.
     let hipsPos = multiplyScalar (addVectors lHip rHip) 0.5;
         neckPos = multiplyScalar (addVectors lShoulder rShoulder) 0.5;
         spinePos = lerpVectors hipsPos neckPos 0.3;
         spine1Pos = lerpVectors hipsPos neckPos 0.6;
         spine2Pos = lerpVectors hipsPos neckPos 0.9
     in
     bindE (getVec lm NOSE) (\<lambda>headPos.
     bindE (getVec lm LEFT_ELBOW) (\<lambda>leftArm.
     bindE (getVec lm LEFT_WRIST) (\<lambda>leftForeArm.
     bindE (getVec lm LEFT_WRIST) (\<lambda>leftWrist.
     bindE (getVec lm RIGHT_ELBOW) (\<lambda>rightArm.
     bindE (getVec lm RIGHT_WRIST) (\<lambda>rightForeArm.
     bindE (getVec lm RIGHT_WRIST) (\<lambda>rightWrist.
     bindE (getVec lm LEFT_KNEE) (\<lambda>leftLeg.
     bindE (getVec lm LEFT_ANKLE) (\<lambda>leftFoot.
     bindE (getVec lm RIGHT_KNEE) (\<lambda>rightLeg.
     bindE (getVec lm RIGHT_ANKLE) (\<lambda>rightFoot.
     Inr (map_of
       [ (''mixamorig:Hips'', hipsPos),
         (''mixamorig:Spine'', spinePos),
         (''mixamorig:Spine1'', spine1Pos),
         (''mixamorig:Spine2'', spine2Pos),
         (''mixamorig:Neck'', neckPos),
         (''mixamorig:Head'', headPos),
         (''mixamorig:LeftShoulder'', lShoulder),
         (''mixamorig:LeftArm'', leftArm),
         (''mixamorig:LeftForeArm'', leftForeArm),
         (''mixamorig:LeftHand'', addVectors leftWrist (vec3 5 0 0)),
         (''mixamorig:RightShoulder'', rShoulder),
         (''mixamorig:RightArm'', rightArm),
         (''mixamorig:RightForeArm'', rightForeArm),
         (''mixamorig:RightHand'', addVectors rightWrist (vec3 (-5) 0 0)),
         (''mixamorig:LeftUpLeg'', lHip),
         (''mixamorig:LeftLeg'', leftLeg),
         (''mixamorig:LeftFoot'', leftFoot),
         (''mixamorig:RightUpLeg'', rHip),
         (''mixamorig:RightLeg'', rightLeg),
         (''mixamorig:RightFoot'', rightFoot) ]))))))))))))))))"

text \<open>\<^verbatim>\<open>boneMap.find(child => child.parent === boneName)\<close>: the primary child.\<close>

definition primaryChild :: "string \<Rightarrow> BoneSpec option" where
  "primaryChild boneName = find (\<lambda>child. bone_parent child = Some boneName) boneMap"

text \<open>
  The first loop over the bones pushes the root position. It also computes a target
  vector and a quaternion that it then drops; what remains of that is the two table
  reads, which raise on a name missing from \<^verbatim>\<open>positions\<close>.
\<close>

definition rootPositionStep ::
  "(string \<rightharpoonup> Vector3) \<Rightarrow> BoneSpec \<Rightarrow> tracks_data \<Rightarrow> error + tracks_data" where
  "rootPositionStep positions b td =
     (let boneName = bone_name b in
      bindE (if boneName = ''mixamorig:Hips''
             then bindE (lookupE positions boneName) (\<lambda>p.
                  bindE (lookupE td boneName) (\<lambda>d.
                  Inr (td(boneName \<mapsto> d\<lparr> td_pos := td_pos d @ [vx p, vy p + 100, vz p] \<rparr>))))
             else Inr td) (\<lambda>td'.
      case primaryChild boneName of
        Some childBone \<Rightarrow>
          bindE (lookupE positions boneName) (\<lambda>parentPos.
          bindE (lookupE positions (bone_name childBone)) (\<lambda>childPos. Inr td'))
      | None \<Rightarrow> Inr td'))"

text \<open>The global orientation of one bone (the body of the second loop).\<close>

definition globalQuat :: "real \<Rightarrow> (string \<rightharpoonup> Vector3) \<Rightarrow> string \<Rightarrow> error + Quaternion" where
  "globalQuat eps positions boneName =
     (case primaryChild boneName of
        Some childBone \<Rightarrow>
          bindE (lookupE positions (bone_name childBone)) (\<lambda>childPos.
          bindE (lookupE positions boneName) (\<lambda>bonePos.
          let vCurrent = normalize_v3 (subVectors childPos bonePos);
              vRest = (case tPoseDirections boneName of Some v \<Rightarrow> v | None \<Rightarrow> vec3 0 1 0)
          in Inr (setFromUnitVectors eps vRest vCurrent)))
      | None \<Rightarrow> Inr identity_q)"

definition globalQuatStep ::
  "real \<Rightarrow> (string \<rightharpoonup> Vector3) \<Rightarrow> BoneSpec \<Rightarrow> (string \<rightharpoonup> Quaternion)
     \<Rightarrow> error + (string \<rightharpoonup> Quaternion)" where
  "globalQuatStep eps positions b globalQuats =
     bindE (globalQuat eps positions (bone_name b)) (\<lambda>q. Inr (globalQuats(bone_name b \<mapsto> q)))"

definition frameGlobalQuats ::
  "real \<Rightarrow> (string \<rightharpoonup> Vector3) \<Rightarrow> error + (string \<rightharpoonup> Quaternion)" where
  "frameGlobalQuats eps positions = forEachE (globalQuatStep eps positions) boneMap Map.empty"

text \<open>The local orientation of one bone (the body of the third loop).\<close>

definition localQuat :: "(string \<rightharpoonup> Quaternion) \<Rightarrow> BoneSpec \<Rightarrow> error + Quaternion" where
  "localQuat globalQuats b =
     bindE (lookupE globalQuats (bone_name b)) (\<lambda>qLocal.
     case bone_parent b of
       Some parent \<Rightarrow>
         bindE (lookupE globalQuats parent) (\<lambda>qParentGlobal.
         let qParentInv = invert qParentGlobal in Inr (premultiply qLocal qParentInv))
     | None \<Rightarrow> Inr qLocal)"

definition localRotationStep ::
  "(string \<rightharpoonup> Quaternion) \<Rightarrow> BoneSpec \<Rightarrow> tracks_data \<Rightarrow> error + tracks_data" where
  "localRotationStep globalQuats b td =
     bindE (localQuat globalQuats b) (\<lambda>qLocal.
     bindE (lookupE td (bone_name b)) (\<lambda>d.
     Inr (td(bone_name b \<mapsto>
            d\<lparr> td_rot := td_rot d @ [qx qLocal, qy qLocal, qz qLocal, qw qLocal] \<rparr>))))"

definition processFrame :: "real \<Rightarrow> MocapFrame \<Rightarrow> tracks_data \<Rightarrow> error + tracks_data" where
  "processFrame eps frame td =
     bindE (framePositions (landmarks frame)) (\<lambda>positions.
     bindE (forEachE (rootPositionStep positions) boneMap td) (\<lambda>td1.
     bindE (frameGlobalQuats eps positions) (\<lambda>globalQuats.
     forEachE (localRotationStep globalQuats) boneMap td1)))"

subsection \<open>The animation clip and the export\<close>

text \<open>
  A three.js keyframe track does not keep the number arrays it is given: its constructor
  stores \<^verbatim>\<open>times\<close> and \<^verbatim>\<open>values\<close> converted to \<^verbatim>\<open>Float32Array\<close>, so an element of
  the stored array is the single-precision rounding of the number passed (0.1 is stored as
  0.10000000149011612). The model does not compute that rounding: a \<open>Float32Array\<close> is
  kept as the number array it was converted from, behind a constructor, and only its
  length is read off. The stored elements are not claimed to equal the numbers passed.
\<close>

datatype Float32Array = Float32Array_from "real list"

fun length_f32 :: "Float32Array \<Rightarrow> nat" where
  "length_f32 (Float32Array_from xs) = length xs"

datatype KeyframeTrack =
  QuaternionKeyframeTrack string Float32Array Float32Array
| VectorKeyframeTrack string Float32Array Float32Array

fun track_name :: "KeyframeTrack \<Rightarrow> string" where
  "track_name (QuaternionKeyframeTrack n ts vs) = n"
| "track_name (VectorKeyframeTrack n ts vs) = n"

fun track_times :: "KeyframeTrack \<Rightarrow> Float32Array" where
  "track_times (QuaternionKeyframeTrack n ts vs) = ts"
| "track_times (VectorKeyframeTrack n ts vs) = ts"

fun track_values :: "KeyframeTrack \<Rightarrow> Float32Array" where
  "track_values (QuaternionKeyframeTrack n ts vs) = vs"
| "track_values (VectorKeyframeTrack n ts vs) = vs"

record AnimationClip =
  clip_name :: string
  clip_duration :: real
  clip_tracks :: "KeyframeTrack list"

text \<open>
  The constructor of a three.js keyframe track refuses an empty \<^verbatim>\<open>times\<close> array, and
  converts both arrays (\<^verbatim>\<open>convertArray(times, Float32Array)\<close>, the same for the values).
\<close>

definition newTrack ::
  "(string \<Rightarrow> Float32Array \<Rightarrow> Float32Array \<Rightarrow> KeyframeTrack) \<Rightarrow> string \<Rightarrow> real list
     \<Rightarrow> real list \<Rightarrow> error + KeyframeTrack" where
  "newTrack mk n tms vals =
     (if tms = [] then Inl (Error ''THREE.KeyframeTrack: no keyframes in track'')
      else Inr (mk n (Float32Array_from tms) (Float32Array_from vals)))"

definition trackStep ::
  "real list \<Rightarrow> tracks_data \<Rightarrow> BoneSpec \<Rightarrow> KeyframeTrack list \<Rightarrow> error + KeyframeTrack list" where
  "trackStep tms td b tracks =
     bindE (lookupE td (bone_name b)) (\<lambda>d.
     bindE (if td_rot d \<noteq> []
            then bindE (newTrack QuaternionKeyframeTrack (bone_name b @ ''.quaternion'')
                          tms (td_rot d))
                   (\<lambda>track. Inr (tracks @ [track]))
            else Inr tracks) (\<lambda>tracks1.
     if td_pos d \<noteq> []
     then bindE (newTrack VectorKeyframeTrack (bone_name b @ ''.position'') tms (td_pos d))
            (\<lambda>track. Inr (tracks1 @ [track]))
     else Inr tracks1))"

text \<open>Everything \<^verbatim>\<open>generateFBX\<close> does before it calls the backend.\<close>

definition exportRequest :: "real \<Rightarrow> MocapFrame list \<Rightarrow> error + (Scene \<times> AnimationClip)" where
  "exportRequest eps frames =
     (if frames = [] then Inl (Error ''No frames to export'')
      else
        bindE buildScene (\<lambda>scene.
        let tms = map timestamp frames in
        bindE (forEachE (processFrame eps) frames initTracksData) (\<lambda>tracksData.
        bindE (forEachE (trackStep tms tracksData) boneMap []) (\<lambda>tracks.
        Inr (scene, \<lparr> clip_name = ''MixamoMotion'', clip_duration = - 1,
                      clip_tracks = tracks \<rparr>)))))"

text \<open>
  The backend (\<^verbatim>\<open>FBXExporter.parse\<close>) is a parameter: it returns a buffer or raises.
\<close>

definition generateFBX ::
  "real \<Rightarrow> (Scene \<Rightarrow> AnimationClip \<Rightarrow> error + 'buf) \<Rightarrow> MocapFrame list \<Rightarrow> error + 'buf" where
  "generateFBX eps parse frames =
     bindE (exportRequest eps frames) (\<lambda>(scene, clip). parse scene clip)"

section \<open>Number formatting\<close>

text \<open>The decimal digits of a natural number, as \<^verbatim>\<open>String(n)\<close> writes an array length.\<close>

definition digitChar :: "nat \<Rightarrow> char" where
  "digitChar d = ''0123456789'' ! d"

fun digits :: "nat \<Rightarrow> string" where
  "digits n = (if n < 10 then [digitChar n] else digits (n div 10) @ [digitChar (n mod 10)])"

declare digits.simps [simp del]

text \<open>
  \<^verbatim>\<open>Number.prototype.toFixed(f)\<close> as ECMAScript defines it, on a real \<open>x\<close>: the sign
  when \<open>x < 0\<close>, then the integer \<open>n\<close> nearest to \<open>\<bar>x\<bar> * 10^f\<close> (the larger one of two)
  written in decimal, padded with zeros to at least \<open>f + 1\<close> digits, with a point before
  the last \<open>f\<close> digits. From \<open>10^21\<close> on, \<^verbatim>\<open>toFixed\<close> returns what \<^verbatim>\<open>Number::toString\<close>
  returns (an exponent notation); that function is the parameter \<open>numToString\<close>.
\<close>

definition toFixed :: "(real \<Rightarrow> string) \<Rightarrow> nat \<Rightarrow> real \<Rightarrow> string" where
  "toFixed numToString f x =
     (let s = (if x < 0 then ''-'' else '''');
          a = \<bar>x\<bar>
      in if 10 ^ 21 \<le> a then s @ numToString a
         else
           (let n = nat \<lfloor>a * 10 ^ f + 1 / 2\<rfloor>;
                m = digits n;
                m' = (if f \<noteq> 0
                      then (let z = (if length m \<le> f
                                     then replicate (f + 1 - length m) (CHR ''0'') @ m else m);
                                k = length z
                            in take (k - f) z @ ''.'' @ drop (k - f) z)
                      else m)
            in s @ m'))"

section \<open>Positional exporter (generateBVH, src/services/bvhExporter.ts)\<close>

record Joint =
  joint_name :: string
  joint_parent :: "string option"
  mpIndex :: int

definition joint :: "string \<Rightarrow> string option \<Rightarrow> int \<Rightarrow> Joint" where
  "joint n p i = \<lparr> joint_name = n, joint_parent = p, mpIndex = i \<rparr>"

definition joints :: "Joint list" where
  "joints =
    [ joint ''Hips'' None (- 1),
      joint ''Spine'' (Some ''Hips'') (- 1),
      joint ''Head'' (Some ''Spine'') NOSE,
      joint ''LeftShoulder'' (Some ''Spine'') LEFT_SHOULDER,
      joint ''LeftElbow'' (Some ''LeftShoulder'') LEFT_ELBOW,
      joint ''LeftWrist'' (Some ''LeftElbow'') LEFT_WRIST,
      joint ''RightShoulder'' (Some ''Spine'') RIGHT_SHOULDER,
      joint ''RightElbow'' (Some ''RightShoulder'') RIGHT_ELBOW,
      joint ''RightWrist'' (Some ''RightElbow'') RIGHT_WRIST,
      joint ''LeftHip'' (Some ''Hips'') LEFT_HIP,
      joint ''LeftKnee'' (Some ''LeftHip'') LEFT_KNEE,
      joint ''LeftAnkle'' (Some ''LeftKnee'') LEFT_ANKLE,
      joint ''RightHip'' (Some ''Hips'') RIGHT_HIP,
      joint ''RightKnee'' (Some ''RightHip'') RIGHT_KNEE,
      joint ''RightAnkle'' (Some ''RightKnee'') RIGHT_ANKLE ]"

text \<open>\<^verbatim>\<open>joints.filter(j => j.parent === jointName)\<close>\<close>

definition childrenOf :: "string \<Rightarrow> Joint list" where
  "childrenOf jointName = filter (\<lambda>j. joint_parent j = Some jointName) joints"

text \<open>The position of a name in the table (the length of the table for a name not in it).\<close>

definition jointIndex :: "string \<Rightarrow> nat" where
  "jointIndex n = length (takeWhile (\<lambda>j. joint_name j \<noteq> n) joints)"

lemma joints_parent_earlier:
  "\<forall>c \<in> set joints. \<forall>n. joint_parent c = Some n \<longrightarrow> jointIndex n < jointIndex (joint_name c)"
  by (simp add: jointIndex_def joints_def joint_def)

lemma childrenOf_later:
  "c \<in> set (childrenOf n) \<Longrightarrow> jointIndex n < jointIndex (joint_name c)"
  using joints_parent_earlier by (simp add: childrenOf_def)

lemma childrenOf_measure:
  assumes "c \<in> set (childrenOf n)"
  shows "length joints - jointIndex (joint_name c) < length joints - jointIndex n"
proof -
  have "jointIndex (joint_name c) \<le> length joints"
    by (simp add: jointIndex_def length_takeWhile_le)
  with childrenOf_later [OF assms] show ?thesis by simp
qed

definition indentStr :: "nat \<Rightarrow> string" where
  "indentStr indentation = concat (replicate indentation ''  '')"

text \<open>
  \<^verbatim>\<open>writeJoint\<close> appends to \<^verbatim>\<open>bvh\<close> and leaves \<^verbatim>\<open>indentation\<close> as it found it: the
  model takes the indentation and returns the text appended.
\<close>

function writeJoint :: "nat \<Rightarrow> string \<Rightarrow> string" where
  "writeJoint indentation jointName =
     (case find (\<lambda>j. joint_name j = jointName) joints of
        None \<Rightarrow> []
      | Some jnt \<Rightarrow>
          (if joint_parent jnt = None
           then ''ROOT '' @ joint_name jnt @ ''\<newline>{\<newline>''
           else indentStr indentation @ ''JOINT '' @ joint_name jnt @ ''\<newline>''
                @ indentStr indentation @ ''{\<newline>'')
          @ indentStr (indentation + 1) @ ''OFFSET 0.00 0.00 0.00\<newline>''
          @ indentStr (indentation + 1)
          @ ''CHANNELS 6 Xposition Yposition Zposition Zrotation Xrotation Yrotation\<newline>''
          @ (if childrenOf jointName \<noteq> []
             then concat (map (\<lambda>c. writeJoint (indentation + 1) (joint_name c))
                            (childrenOf jointName))
             else indentStr (indentation + 1) @ ''End Site\<newline>''
                  @ indentStr (indentation + 1) @ ''{\<newline>''
                  @ indentStr (indentation + 2) @ ''OFFSET 0.00 0.00 0.00\<newline>''
                  @ indentStr (indentation + 1) @ ''}\<newline>'')
          @ indentStr indentation @ ''}\<newline>'')"
  by pat_completeness auto
termination
  by (relation "measure (\<lambda>(indentation, jointName). length joints - jointIndex jointName)")
     (simp_all add: childrenOf_measure)

declare writeJoint.simps [simp del]

text \<open>
  \<^verbatim>\<open>getPos\<close> checks the index: a landmark index outside the frame gives the zero vector.
\<close>

definition getPos :: "Landmark3D list \<Rightarrow> int \<Rightarrow> Vector3" where
  "getPos lm idx =
     (if idx < 0 \<or> idx \<ge> int (length lm) then vec3 0 0 0
      else vec3 (lm_x (lm ! nat idx) * - scale)
                (lm_y (lm ! nat idx) * - scale)
                (lm_z (lm ! nat idx) * scale))"

definition bvhPositions :: "Landmark3D list \<Rightarrow> (string \<rightharpoonup> Vector3)" where
  "bvhPositions lm =
     (let lHip = getPos lm LEFT_HIP;
          rHip = getPos lm RIGHT_HIP;
          lShoulder = getPos lm LEFT_SHOULDER;
          rShoulder = getPos lm RIGHT_SHOULDER;
          hips = vec3 ((vx lHip + vx rHip) / 2) ((vy lHip + vy rHip) / 2) ((vz lHip + vz rHip) / 2);
          spine = vec3 ((vx lShoulder + vx rShoulder) / 2) ((vy lShoulder + vy rShoulder) / 2)
                       ((vz lShoulder + vz rShoulder) / 2)
      in map_of
        [ (''Hips'', hips),
          (''Spine'', spine),
          (''Head'', getPos lm NOSE),
          (''LeftShoulder'', lShoulder),
          (''LeftElbow'', getPos lm LEFT_ELBOW),
          (''LeftWrist'', getPos lm LEFT_WRIST),
          (''RightShoulder'', rShoulder),
          (''RightElbow'', getPos lm RIGHT_ELBOW),
          (''RightWrist'', getPos lm RIGHT_WRIST),
          (''LeftHip'', lHip),
          (''LeftKnee'', getPos lm LEFT_KNEE),
          (''LeftAnkle'', getPos lm LEFT_ANKLE),
          (''RightHip'', rHip),
          (''RightKnee'', getPos lm RIGHT_KNEE),
          (''RightAnkle'', getPos lm RIGHT_ANKLE) ])"

text \<open>\<^verbatim>\<open>writeData\<close> appends to \<^verbatim>\<open>line\<close>; the model returns the text appended.\<close>

function writeData :: "(real \<Rightarrow> string) \<Rightarrow> (string \<rightharpoonup> Vector3) \<Rightarrow> string \<Rightarrow> string" where
  "writeData numToString positions jointName =
     (let p = (case positions jointName of Some v \<Rightarrow> v | None \<Rightarrow> vec3 0 0 0) in
      toFixed numToString 4 (vx p) @ '' '' @ toFixed numToString 4 (vy p) @ '' ''
      @ toFixed numToString 4 (vz p) @ '' 0.00 0.00 0.00 ''
      @ concat (map (\<lambda>c. writeData numToString positions (joint_name c)) (childrenOf jointName)))"
  by pat_completeness auto
termination
  by (relation "measure (\<lambda>(numToString, positions, jointName).
                   length joints - jointIndex jointName)")
     (simp_all add: childrenOf_measure)

declare writeData.simps [simp del]

text \<open>\<^verbatim>\<open>String.prototype.trim\<close> on the characters that can occur here.\<close>

definition isWhiteSpace :: "char \<Rightarrow> bool" where
  "isWhiteSpace c = (c \<in> set [CHR '' '', CHR 0x09, CHR 0x0A, CHR 0x0B, CHR 0x0C, CHR 0x0D, CHR 0xA0])"

definition trim :: "string \<Rightarrow> string" where
  "trim s = rev (dropWhile isWhiteSpace (rev (dropWhile isWhiteSpace s)))"

definition motionLine :: "(real \<Rightarrow> string) \<Rightarrow> MocapFrame \<Rightarrow> string" where
  "motionLine numToString frame =
     trim (writeData numToString (bvhPositions (landmarks frame)) ''Hips'')"

definition hierarchyBlock :: string where
  "hierarchyBlock = ''HIERARCHY\<newline>'' @ writeJoint 0 ''Hips''"

definition motionBlock :: "(real \<Rightarrow> string) \<Rightarrow> MocapFrame list \<Rightarrow> string" where
  "motionBlock numToString frames =
     ''MOTION\<newline>''
     @ ''Frames: '' @ digits (length frames) @ ''\<newline>''
     @ ''Frame Time: '' @ toFixed numToString 6 (1 / 30) @ ''\<newline>''
     @ concat (map (\<lambda>frame. motionLine numToString frame @ ''\<newline>'') frames)"

text \<open>
  \<^verbatim>\<open>generateBVH\<close> raises nowhere; its result is a sum all the same, so that "fails" and
  "returns" can be told apart in the statements.
\<close>

definition generateBVH :: "(real \<Rightarrow> string) \<Rightarrow> MocapFrame list \<Rightarrow> error + string" where
  "generateBVH numToString frames =
     (if frames = [] then Inr ''''
      else Inr (hierarchyBlock @ motionBlock numToString frames))"

section \<open>Auxiliary notions used in the statements\<close>

definition rootPush :: "(string \<rightharpoonup> Vector3) \<Rightarrow> real list" where
  "rootPush positions =
     (case positions ''mixamorig:Hips'' of Some p \<Rightarrow> [vx p, vy p + 100, vz p] | None \<Rightarrow> [])"

definition quatValues :: "Quaternion \<Rightarrow> real list" where
  "quatValues q = [qx q, qy q, qz q, qw q]"

definition filled :: "nat \<Rightarrow> tracks_data \<Rightarrow> bool" where
  "filled k td = (\<forall>b \<in> set boneMap. \<exists>d. td (bone_name b) = Some d
      \<and> length (td_rot d) = 4 * k
      \<and> length (td_pos d) = (if bone_name b = ''mixamorig:Hips'' then 3 * k else 0))"

definition boneTracks :: "real list \<Rightarrow> tracks_data \<Rightarrow> BoneSpec \<Rightarrow> KeyframeTrack list" where
  "boneTracks tms td b =
     (case td (bone_name b) of
        None \<Rightarrow> []
      | Some d \<Rightarrow>
          (if td_rot d \<noteq> []
           then [QuaternionKeyframeTrack (bone_name b @ ''.quaternion'')
                   (Float32Array_from tms) (Float32Array_from (td_rot d))] else [])
          @ (if td_pos d \<noteq> []
             then [VectorKeyframeTrack (bone_name b @ ''.position'')
                     (Float32Array_from tms) (Float32Array_from (td_pos d))] else []))"

definition trackNames :: "BoneSpec \<Rightarrow> string list" where
  "trackNames b =
     (bone_name b @ ''.quaternion'')
     # (if bone_name b = ''mixamorig:Hips'' then [bone_name b @ ''.position''] else [])"

definition bonesWithPrimaryChild :: "BoneSpec list" where
  "bonesWithPrimaryChild = filter (\<lambda>b. primaryChild (bone_name b) \<noteq> None) boneMap"

definition zeroFrame :: "real \<Rightarrow> MocapFrame" where
  "zeroFrame t = \<lparr> timestamp = t,
     landmarks = replicate 33 \<lparr> lm_x = 0, lm_y = 0, lm_z = 0, visibility = None \<rparr> \<rparr>"

definition applyQuaternion :: "Vector3 \<Rightarrow> Quaternion \<Rightarrow> Vector3" where
  "applyQuaternion v q =
     (let tx = 2 * (qy q * vz v - qz q * vy v);
          ty = 2 * (qz q * vx v - qx q * vz v);
          tz = 2 * (qx q * vy v - qy q * vx v)
      in vec3 (vx v + qw q * tx + qy q * tz - qz q * ty)
              (vy v + qw q * ty + qz q * tx - qx q * tz)
              (vz v + qw q * tz + qx q * ty - qy q * tx))"

definition unit_q :: "Quaternion \<Rightarrow> bool" where
  "unit_q q = (qx q * qx q + qy q * qy q + qz q * qz q + qw q * qw q = 1)"

text \<open>
  The product and the inverse of quaternions as algebra defines them, written without the
  library's code, for the claim about \<open>inverse(parentGlobal) * global\<close>: with a quaternion
  read as a scalar and a vector, \<open>(s, u) (t, v) = (s t - u \<sqdot> v, s v + t u + u \<times> v)\<close>, and
  the inverse is the conjugate divided by the squared norm (the zero quaternion has none).
\<close>

definition cross_v3 :: "Vector3 \<Rightarrow> Vector3 \<Rightarrow> Vector3" where
  "cross_v3 u v =
     vec3 (vy u * vz v - vz u * vy v) (vz u * vx v - vx u * vz v) (vx u * vy v - vy u * vx v)"

definition vector_part :: "Quaternion \<Rightarrow> Vector3" where
  "vector_part q = vec3 (qx q) (qy q) (qz q)"

definition hamilton :: "Quaternion \<Rightarrow> Quaternion \<Rightarrow> Quaternion" where
  "hamilton p q =
     (let s = qw p; u = vector_part p; t = qw q; v = vector_part q;
          w = addVectors (addVectors (multiplyScalar v s) (multiplyScalar u t)) (cross_v3 u v)
      in quat (vx w) (vy w) (vz w) (s * t - dot_v3 u v))"

definition norm_squared :: "Quaternion \<Rightarrow> real" where
  "norm_squared q = qx q * qx q + qy q * qy q + qz q * qz q + qw q * qw q"

definition inverse_q :: "Quaternion \<Rightarrow> Quaternion" where
  "inverse_q q =
     quat (- qx q / norm_squared q) (- qy q / norm_squared q) (- qz q / norm_squared q)
          (qw q / norm_squared q)"

definition unit_v3 :: "Vector3 \<Rightarrow> bool" where
  "unit_v3 v = (dot_v3 v v = 1)"

definition negate_v3 :: "Vector3 \<Rightarrow> Vector3" where
  "negate_v3 v = vec3 (- vx v) (- vy v) (- vz v)"

definition distanceToSquared :: "Vector3 \<Rightarrow> Vector3 \<Rightarrow> real" where
  "distanceToSquared a b = dot_v3 (subVectors a b) (subVectors a b)"

definition midpoint_v3 :: "Vector3 \<Rightarrow> Vector3 \<Rightarrow> Vector3" where
  "midpoint_v3 a b = vec3 ((vx a + vx b) / 2) ((vy a + vy b) / 2) ((vz a + vz b) / 2)"

definition interpolate_v3 :: "Vector3 \<Rightarrow> Vector3 \<Rightarrow> real \<Rightarrow> Vector3" where
  "interpolate_v3 a b t =
     vec3 ((1 - t) * vx a + t * vx b) ((1 - t) * vy a + t * vy b) ((1 - t) * vz a + t * vz b)"

definition restDirection :: "string \<Rightarrow> Vector3" where
  "restDirection boneName =
     (case tPoseDirections boneName of Some v \<Rightarrow> v | None \<Rightarrow> vec3 0 1 0)"

text \<open>The value of \<^verbatim>\<open>Number.EPSILON\<close>, for the concrete instances.\<close>

definition Number_EPSILON :: real where
  "Number_EPSILON = 1 / 2 ^ 52"

definition zeroLandmark :: Landmark3D where
  "zeroLandmark = \<lparr> lm_x = 0, lm_y = 0, lm_z = 0, visibility = None \<rparr>"

definition landmarkAt :: "real \<Rightarrow> real \<Rightarrow> real \<Rightarrow> Landmark3D" where
  "landmarkAt a b c = \<lparr> lm_x = a, lm_y = b, lm_z = c, visibility = None \<rparr>"

text \<open>A frame whose left wrist is one metre above the left elbow (the capture's y axis points down).\<close>

definition raisedArmFrame :: MocapFrame where
  "raisedArmFrame = \<lparr> timestamp = 0,
     landmarks = (replicate 33 zeroLandmark)[15 := landmarkAt 0 (- 1) 0] \<rparr>"

text \<open>
  A frame with the trunk leaning sideways and the head tilted forward: both shoulders at
  \<open>(240, 70, 0)\<close> cm over hips at the origin, the nose at \<open>(240, 77, 24)\<close> cm.
\<close>

definition leaningFrame :: MocapFrame where
  "leaningFrame = \<lparr> timestamp = 0,
     landmarks = (replicate 33 zeroLandmark)
       [0 := landmarkAt (- 2.4) (- 0.77) 0.24,
        11 := landmarkAt (- 2.4) (- 0.7) 0, 12 := landmarkAt (- 2.4) (- 0.7) 0] \<rparr>"

text \<open>The static pose of the end-to-end scenario.\<close>

definition staticPoseFrame :: "real \<Rightarrow> MocapFrame" where
  "staticPoseFrame t = \<lparr> timestamp = t,
     landmarks = (replicate 33 zeroLandmark)
       [11 := landmarkAt (- 0.1) 0.5 0, 12 := landmarkAt 0.1 0.5 0,
        23 := landmarkAt (- 0.1) 0 0, 24 := landmarkAt 0.1 0 0] \<rparr>"

section \<open>Auxiliary notions for the positional exporter\<close>

definition isDigit :: "char \<Rightarrow> bool" where
  "isDigit c = (c \<in> set ''0123456789'')"

text \<open>A decimal numeral with exactly \<open>f\<close> digits after the point, with or without a sign.\<close>

definition isFixed :: "nat \<Rightarrow> string \<Rightarrow> bool" where
  "isFixed f s =
     (let t = (if s \<noteq> [] \<and> hd s = CHR ''-'' then tl s else s);
          ip = takeWhile isDigit t;
          rest = dropWhile isDigit t
      in ip \<noteq> [] \<and> rest \<noteq> [] \<and> hd rest = CHR ''.''
         \<and> length (tl rest) = f \<and> list_all isDigit (tl rest))"

text \<open>\<^verbatim>\<open>s.split(c)\<close>: the pieces of \<open>s\<close> between the occurrences of \<open>c\<close>.\<close>

fun splitOn :: "char \<Rightarrow> string \<Rightarrow> string list" where
  "splitOn c [] = [[]]"
| "splitOn c (x # xs) =
     (if x = c then [] # splitOn c xs
      else (case splitOn c xs of w # ws \<Rightarrow> (x # w) # ws | [] \<Rightarrow> [[x]]))"

definition plainToken :: "string \<Rightarrow> bool" where
  "plainToken t = (t \<noteq> [] \<and> list_all (\<lambda>c. \<not> isWhiteSpace c) t)"

definition joinTokens :: "string list \<Rightarrow> string" where
  "joinTokens ts = concat (map (\<lambda>t. t @ '' '') ts)"

text \<open>Pre-order traversal of the positional hierarchy: a joint, then its children in table order.\<close>

function preorder :: "string \<Rightarrow> string list" where
  "preorder jointName =
     jointName # concat (map (\<lambda>c. preorder (joint_name c)) (childrenOf jointName))"
  by pat_completeness auto
termination
  by (relation "measure (\<lambda>jointName. length joints - jointIndex jointName)")
     (simp_all add: childrenOf_measure)

declare preorder.simps [simp del]

definition jointPosition :: "(string \<rightharpoonup> Vector3) \<Rightarrow> string \<Rightarrow> Vector3" where
  "jointPosition positions jointName =
     (case positions jointName of Some v \<Rightarrow> v | None \<Rightarrow> vec3 0 0 0)"

definition jointTokens :: "(real \<Rightarrow> string) \<Rightarrow> (string \<rightharpoonup> Vector3) \<Rightarrow> string \<Rightarrow> string list" where
  "jointTokens numToString positions jointName =
     [ toFixed numToString 4 (vx (jointPosition positions jointName)),
       toFixed numToString 4 (vy (jointPosition positions jointName)),
       toFixed numToString 4 (vz (jointPosition positions jointName)),
       ''0.00'', ''0.00'', ''0.00'' ]"

definition inRange :: "MocapFrame \<Rightarrow> bool" where
  "inRange frame =
     list_all (\<lambda>l. \<bar>lm_x l\<bar> < 10 ^ 19 \<and> \<bar>lm_y l\<bar> < 10 ^ 19 \<and> \<bar>lm_z l\<bar> < 10 ^ 19)
       (landmarks frame)"

definition smallVec :: "Vector3 \<Rightarrow> bool" where
  "smallVec v = (\<bar>vx v\<bar> < 10 ^ 21 \<and> \<bar>vy v\<bar> < 10 ^ 21 \<and> \<bar>vz v\<bar> < 10 ^ 21)"

definition frameTokens :: "(real \<Rightarrow> string) \<Rightarrow> MocapFrame \<Rightarrow> string list" where
  "frameTokens numToString frame =
     concat (map (jointTokens numToString (bvhPositions (landmarks frame))) (preorder ''Hips''))"

definition staticPoseTokens :: "string list" where
  "staticPoseTokens =
    [''0.0000'', ''0.0000'', ''0.0000'', ''0.00'', ''0.00'', ''0.00'',
     ''0.0000'', ''-50.0000'', ''0.0000'', ''0.00'', ''0.00'', ''0.00'',
     ''0.0000'', ''0.0000'', ''0.0000'', ''0.00'', ''0.00'', ''0.00'',
     ''10.0000'', ''-50.0000'', ''0.0000'', ''0.00'', ''0.00'', ''0.00'',
     ''0.0000'', ''0.0000'', ''0.0000'', ''0.00'', ''0.00'', ''0.00'',
     ''0.0000'', ''0.0000'', ''0.0000'', ''0.00'', ''0.00'', ''0.00'',
     ''-10.0000'', ''-50.0000'', ''0.0000'', ''0.00'', ''0.00'', ''0.00'',
     ''0.0000'', ''0.0000'', ''0.0000'', ''0.00'', ''0.00'', ''0.00'',
     ''0.0000'', ''0.0000'', ''0.0000'', ''0.00'', ''0.00'', ''0.00'',
     ''10.0000'', ''0.0000'', ''0.0000'', ''0.00'', ''0.00'', ''0.00'',
     ''0.0000'', ''0.0000'', ''0.0000'', ''0.00'', ''0.00'', ''0.00'',
     ''0.0000'', ''0.0000'', ''0.0000'', ''0.00'', ''0.00'', ''0.00'',
     ''-10.0000'', ''0.0000'', ''0.0000'', ''0.00'', ''0.00'', ''0.00'',
     ''0.0000'', ''0.0000'', ''0.0000'', ''0.00'', ''0.00'', ''0.00'',
     ''0.0000'', ''0.0000'', ''0.0000'', ''0.00'', ''0.00'', ''0.00'']"

definition vectorTokens :: "(real \<Rightarrow> string) \<Rightarrow> Vector3 \<Rightarrow> string list" where
  "vectorTokens numToString v =
     [toFixed numToString 4 (vx v), toFixed numToString 4 (vy v), toFixed numToString 4 (vz v),
      ''0.00'', ''0.00'', ''0.00'']"

section \<open>The smoother: helper lemmas\<close>

lemma smoothedLandmarks_ok:
  "length cs \<le> length ps \<Longrightarrow>
   smoothedLandmarks alpha cs ps = Inr (map2 (smoothLandmark alpha) cs ps)"
  by (induction alpha cs ps rule: smoothedLandmarks.induct) auto

lemma smoothedLandmarks_raises:
  "length ps < length cs \<Longrightarrow> smoothedLandmarks alpha cs ps = Inl TypeError"
  by (induction alpha cs ps rule: smoothedLandmarks.induct) auto

lemma smoothLoop_uniform:
  assumes "\<forall>f \<in> set fs. length (landmarks f) = n" and "length prev = n"
  shows "\<exists>rest. smoothLoop alpha prev fs = Inr rest \<and> length rest = length fs
           \<and> map timestamp rest = map timestamp fs
           \<and> (\<forall>i < length fs. landmarks (rest ! i) =
                 map2 (smoothLandmark alpha) (landmarks (fs ! i))
                   (if i = 0 then prev else landmarks (rest ! (i - 1))))"
  using assms
proof (induction fs arbitrary: prev)
  case Nil
  then show ?case by simp
next
  case (Cons f fs)
  let ?sl = "map2 (smoothLandmark alpha) (landmarks f) prev"
  have sl: "smoothedLandmarks alpha (landmarks f) prev = Inr ?sl"
    using Cons.prems by (simp add: smoothedLandmarks_ok)
  have len: "length ?sl = n" using Cons.prems by simp
  from Cons.IH [of ?sl] Cons.prems len
  obtain rest where r: "smoothLoop alpha ?sl fs = Inr rest" "length rest = length fs"
      "map timestamp rest = map timestamp fs"
      "\<forall>i < length fs. landmarks (rest ! i) =
          map2 (smoothLandmark alpha) (landmarks (fs ! i))
            (if i = 0 then ?sl else landmarks (rest ! (i - 1)))"
    by auto
  let ?out = "\<lparr> timestamp = timestamp f, landmarks = ?sl \<rparr> # rest"
  have "smoothLoop alpha prev (f # fs) = Inr ?out" using sl r(1) by simp
  moreover have "length ?out = length (f # fs)" using r(2) by simp
  moreover have "map timestamp ?out = map timestamp (f # fs)" using r(3) by simp
  moreover have "\<forall>i < length (f # fs). landmarks (?out ! i) =
                 map2 (smoothLandmark alpha) (landmarks ((f # fs) ! i))
                   (if i = 0 then prev else landmarks (?out ! (i - 1)))"
  proof (intro allI impI)
    fix i assume "i < length (f # fs)"
    show "landmarks (?out ! i) =
                 map2 (smoothLandmark alpha) (landmarks ((f # fs) ! i))
                   (if i = 0 then prev else landmarks (?out ! (i - 1)))"
    proof (cases i)
      case 0 then show ?thesis by simp
    next
      case (Suc k)
      then have "k < length fs" using \<open>i < length (f # fs)\<close> by simp
      with r(4) Suc show ?thesis by (cases k) auto
    qed
  qed
  ultimately show ?case by blast
qed

lemma smoothFrames_uniform:
  assumes "frames \<noteq> []" and "\<forall>f \<in> set frames. length (landmarks f) = n"
  shows "\<exists>out. smoothFrames frames alpha = Inr out
           \<and> length out = length frames
           \<and> map timestamp out = map timestamp frames
           \<and> out ! 0 = frames ! 0
           \<and> (\<forall>i < length frames. length (landmarks (out ! i)) = n)
           \<and> (\<forall>i j. 0 < i \<and> i < length frames \<and> j < n \<longrightarrow>
                 lm_x (landmarks (out ! i) ! j) =
                   alpha * lm_x (landmarks (frames ! i) ! j)
                   + (1 - alpha) * lm_x (landmarks (out ! (i - 1)) ! j)
               \<and> lm_y (landmarks (out ! i) ! j) =
                   alpha * lm_y (landmarks (frames ! i) ! j)
                   + (1 - alpha) * lm_y (landmarks (out ! (i - 1)) ! j)
               \<and> lm_z (landmarks (out ! i) ! j) =
                   alpha * lm_z (landmarks (frames ! i) ! j)
                   + (1 - alpha) * lm_z (landmarks (out ! (i - 1)) ! j)
               \<and> visibility (landmarks (out ! i) ! j) =
                   visibility (landmarks (frames ! i) ! j))"
proof -
  obtain f0 fs where fr: "frames = f0 # fs" using assms(1) by (cases frames) auto
  have u: "\<forall>f \<in> set fs. length (landmarks f) = n" and l0: "length (landmarks f0) = n"
    using assms(2) fr by auto
  from smoothLoop_uniform [OF u l0, of alpha]
  obtain rest where r: "smoothLoop alpha (landmarks f0) fs = Inr rest" "length rest = length fs"
      "map timestamp rest = map timestamp fs"
      "\<forall>i < length fs. landmarks (rest ! i) =
          map2 (smoothLandmark alpha) (landmarks (fs ! i))
            (if i = 0 then landmarks f0 else landmarks (rest ! (i - 1)))"
    by auto
  let ?out = "f0 # rest"
  have res: "smoothFrames frames alpha = Inr ?out"
    using r(1) fr by (simp add: smoothFrames_def)
  have step: "landmarks (?out ! i) =
       map2 (smoothLandmark alpha) (landmarks (frames ! i)) (landmarks (?out ! (i - 1)))"
    if "0 < i" "i < length frames" for i
  proof -
    from that(1) obtain k where k: "i = Suc k" by (cases i) auto
    then have "k < length fs" using that(2) fr by simp
    with r(4) k fr show ?thesis by (cases k) auto
  qed
  have lens: "length (landmarks (?out ! i)) = n" if "i < length frames" for i
    using that
  proof (induction i)
    case 0 then show ?case using l0 by simp
  next
    case (Suc k)
    then have "length (landmarks (?out ! k)) = n" by simp
    moreover have "length (landmarks (frames ! Suc k)) = n"
      using assms(2) Suc.prems by (metis nth_mem)
    ultimately show ?case using step [of "Suc k"] Suc.prems by simp
  qed
  have coords: "lm_x (landmarks (?out ! i) ! j) =
                   alpha * lm_x (landmarks (frames ! i) ! j)
                   + (1 - alpha) * lm_x (landmarks (?out ! (i - 1)) ! j)
               \<and> lm_y (landmarks (?out ! i) ! j) =
                   alpha * lm_y (landmarks (frames ! i) ! j)
                   + (1 - alpha) * lm_y (landmarks (?out ! (i - 1)) ! j)
               \<and> lm_z (landmarks (?out ! i) ! j) =
                   alpha * lm_z (landmarks (frames ! i) ! j)
                   + (1 - alpha) * lm_z (landmarks (?out ! (i - 1)) ! j)
               \<and> visibility (landmarks (?out ! i) ! j) =
                   visibility (landmarks (frames ! i) ! j)"
    if "0 < i" "i < length frames" "j < n" for i j
  proof -
    have a: "length (landmarks (frames ! i)) = n" using assms(2) that(2) by (metis nth_mem)
    have b: "length (landmarks (?out ! (i - 1))) = n" using lens [of "i - 1"] that by simp
    show ?thesis using step [OF that(1,2)] a b that(3) by (simp add: smoothLandmark_def)
  qed
  have "length ?out = length frames" using r(2) fr by simp
  moreover have "map timestamp ?out = map timestamp frames" using r(3) fr by simp
  moreover have "?out ! 0 = frames ! 0" using fr by simp
  ultimately show ?thesis using res lens coords by blast
qed

section \<open>The rotation exporter: helper lemmas\<close>

lemma bindE_Inr [simp]: "bindE (Inr v) f = f v"
  by (simp add: bindE_def)

lemma bindE_Inl [simp]: "bindE (Inl e) f = Inl e"
  by (simp add: bindE_def)

lemma bindE_eq_Inr: "bindE m f = Inr r \<longleftrightarrow> (\<exists>v. m = Inr v \<and> f v = Inr r)"
  by (cases m) auto

lemma lookupE_eq_Inr: "lookupE m k = Inr v \<longleftrightarrow> m k = Some v"
  by (simp add: lookupE_def split: option.splits)

lemma distinct_bone_names: "distinct (map bone_name boneMap)"
  by (simp add: boneMap_def bone_def)

lemma buildScene_ok: "\<exists>scene. buildScene = Inr scene \<and> map fst scene = map bone_name boneMap
   \<and> map snd scene = map bone_parent boneMap"
  by (simp add: buildScene_def boneMap_def bone_def addBone_def)

lemma primaryChild_in: "primaryChild n = Some c \<Longrightarrow> c \<in> set boneMap \<and> bone_parent c = Some n"
  unfolding primaryChild_def by (auto simp: find_Some_iff)

lemma framePositions_ok:
  assumes "29 \<le> length lm"
  shows "\<exists>positions. framePositions lm = Inr positions
            \<and> (\<forall>b \<in> set boneMap. positions (bone_name b) \<noteq> None)"
proof -
  have "lm \<noteq> []" using assms by auto
  then show ?thesis using assms
    by (simp add: framePositions_def getVec_def MP_POSE_defs Let_def boneMap_def bone_def)
qed

lemma framePositions_raises:
  assumes "length lm < 29"
  shows "framePositions lm = Inl TypeError"
  using assms
  by (simp add: framePositions_def getVec_def MP_POSE_defs Let_def bindE_def)

text \<open>The second loop: the table of global quaternions.\<close>

lemma globalQuatStep_loop:
  "forEachE (globalQuatStep eps positions) bs m = Inr gq \<Longrightarrow>
     (\<forall>b \<in> set bs. \<exists>q. globalQuat eps positions (bone_name b) = Inr q
                           \<and> gq (bone_name b) = Some q)
     \<and> (\<forall>n. n \<notin> bone_name ` set bs \<longrightarrow> gq n = m n)"
proof (induction bs arbitrary: m)
  case Nil
  then show ?case by simp
next
  case (Cons b bs)
  from Cons.prems obtain m1 where s: "globalQuatStep eps positions b m = Inr m1"
    and rest0: "forEachE (globalQuatStep eps positions) bs m1 = Inr gq"
    by (auto split: sum.splits)
  from s obtain q where q: "globalQuat eps positions (bone_name b) = Inr q"
    and m1: "m1 = m(bone_name b \<mapsto> q)"
    by (auto simp: globalQuatStep_def bindE_eq_Inr)
  from rest0 m1
  have rest: "forEachE (globalQuatStep eps positions) bs (m(bone_name b \<mapsto> q)) = Inr gq"
    by simp
  note IH = Cons.IH [OF rest]
  have "gq (bone_name b) = Some q"
  proof (cases "bone_name b \<in> bone_name ` set bs")
    case True
    then obtain b' where "b' \<in> set bs" "bone_name b' = bone_name b" by auto
    with IH q show ?thesis by fastforce
  next
    case False
    with IH show ?thesis by simp
  qed
  with IH q show ?case by auto
qed

lemma globalQuat_ok:
  assumes "\<forall>b \<in> set boneMap. positions (bone_name b) \<noteq> None" and "b \<in> set boneMap"
  shows "\<exists>q. globalQuat eps positions (bone_name b) = Inr q"
proof (cases "primaryChild (bone_name b)")
  case None
  then show ?thesis by (simp add: globalQuat_def)
next
  case (Some c)
  then have "c \<in> set boneMap" using primaryChild_in by blast
  with assms obtain pc pb where "positions (bone_name c) = Some pc" "positions (bone_name b) = Some pb"
    by blast
  with Some show ?thesis by (simp add: globalQuat_def lookupE_def Let_def)
qed

lemma globalQuatStep_loop_ok:
  assumes "\<forall>b \<in> set boneMap. positions (bone_name b) \<noteq> None" and "set bs \<subseteq> set boneMap"
  shows "\<exists>gq. forEachE (globalQuatStep eps positions) bs m = Inr gq"
  using assms(2)
proof (induction bs arbitrary: m)
  case Nil
  then show ?case by simp
next
  case (Cons b bs)
  then have "b \<in> set boneMap" by simp
  from globalQuat_ok [OF assms(1) this, of eps] obtain q
    where "globalQuat eps positions (bone_name b) = Inr q" by blast
  with Cons show ?case by (simp add: globalQuatStep_def)
qed

text \<open>The third loop: every bone's rotation array grows by the four numbers of its local quaternion.\<close>

lemma localRotationStep_loop:
  assumes "distinct (map bone_name bs)"
      and "forEachE (localRotationStep gq) bs td = Inr td'"
  shows "(\<forall>b \<in> set bs. \<exists>q d. localQuat gq b = Inr q \<and> td (bone_name b) = Some d
              \<and> td' (bone_name b) = Some (d\<lparr> td_rot := td_rot d @ quatValues q \<rparr>))
         \<and> (\<forall>n. n \<notin> bone_name ` set bs \<longrightarrow> td' n = td n)"
  using assms
proof (induction bs arbitrary: td)
  case Nil
  then show ?case by simp
next
  case (Cons b bs)
  from Cons.prems(2) obtain td1 where s: "localRotationStep gq b td = Inr td1"
    and rest: "forEachE (localRotationStep gq) bs td1 = Inr td'"
    by (auto split: sum.splits)
  from s obtain q d where q: "localQuat gq b = Inr q" and d: "td (bone_name b) = Some d"
    and td1: "td1 = td(bone_name b \<mapsto> d\<lparr> td_rot := td_rot d @ quatValues q \<rparr>)"
    by (auto simp: localRotationStep_def bindE_eq_Inr lookupE_eq_Inr quatValues_def)
  have dist: "distinct (map bone_name bs)" and notin: "bone_name b \<notin> bone_name ` set bs"
    using Cons.prems(1) by auto
  note IH = Cons.IH [OF dist rest]
  have head: "td' (bone_name b) = Some (d\<lparr> td_rot := td_rot d @ quatValues q \<rparr>)"
    using IH notin td1 by simp
  have tail: "\<exists>q d. localQuat gq c = Inr q \<and> td (bone_name c) = Some d
              \<and> td' (bone_name c) = Some (d\<lparr> td_rot := td_rot d @ quatValues q \<rparr>)"
    if "c \<in> set bs" for c
  proof -
    from that notin have "bone_name c \<noteq> bone_name b" by (metis imageI)
    with IH that td1 show ?thesis by fastforce
  qed
  have other: "td' n = td n" if "n \<notin> bone_name ` set (b # bs)" for n
    using IH that td1 by simp
  from q d head tail other show ?case by auto
qed

lemma localQuat_ok:
  assumes "\<forall>b \<in> set boneMap. gq (bone_name b) \<noteq> None" and "b \<in> set boneMap"
  shows "\<exists>q. localQuat gq b = Inr q"
proof -
  from assms obtain g where g: "gq (bone_name b) = Some g" by blast
  show ?thesis
  proof (cases "bone_parent b")
    case None
    with g show ?thesis by (simp add: localQuat_def lookupE_def)
  next
    case (Some p)
    have "p \<in> bone_name ` set boneMap"
      using assms(2) Some by (auto simp: boneMap_def bone_def)
    with assms(1) obtain gp where "gq p = Some gp" by auto
    with g Some show ?thesis by (simp add: localQuat_def lookupE_def Let_def)
  qed
qed

text \<open>The first loop: only the root's position array grows.\<close>

lemma rootPositionStep_other:
  assumes "bone_name b \<noteq> ''mixamorig:Hips''" and "rootPositionStep positions b td = Inr td1"
  shows "td1 = td"
  using assms
  by (auto simp: rootPositionStep_def Let_def bindE_eq_Inr split: option.splits)

lemma rootPositionStep_loop_other:
  assumes "''mixamorig:Hips'' \<notin> bone_name ` set bs"
      and "forEachE (rootPositionStep positions) bs td = Inr td'"
  shows "td' = td"
  using assms
proof (induction bs arbitrary: td)
  case Nil
  then show ?case by simp
next
  case (Cons b bs)
  from Cons.prems(2) obtain td1 where s: "rootPositionStep positions b td = Inr td1"
    and rest: "forEachE (rootPositionStep positions) bs td1 = Inr td'"
    by (auto split: sum.splits)
  have "td1 = td" using rootPositionStep_other [OF _ s] Cons.prems(1) by auto
  with Cons.IH [OF _ rest] Cons.prems(1) show ?case by simp
qed

lemma rootPositionStep_hips:
  assumes "rootPositionStep positions (bone ''mixamorig:Hips'' None ''Hips'') td = Inr td1"
  shows "\<exists>p d. positions ''mixamorig:Hips'' = Some p \<and> td ''mixamorig:Hips'' = Some d
           \<and> td1 = td(''mixamorig:Hips'' \<mapsto> d\<lparr> td_pos := td_pos d @ [vx p, vy p + 100, vz p] \<rparr>)"
  using assms
  by (auto simp: rootPositionStep_def Let_def bone_def bindE_eq_Inr lookupE_eq_Inr
           split: option.splits)

lemma boneMap_root:
  "\<exists>rest. boneMap = bone ''mixamorig:Hips'' None ''Hips'' # rest
           \<and> ''mixamorig:Hips'' \<notin> bone_name ` set rest"
  by (simp add: boneMap_def bone_def)

lemma rootPosition_loop:
  assumes "forEachE (rootPositionStep positions) boneMap td = Inr td1"
  shows "\<exists>p d. positions ''mixamorig:Hips'' = Some p \<and> td ''mixamorig:Hips'' = Some d
           \<and> td1 = td(''mixamorig:Hips'' \<mapsto> d\<lparr> td_pos := td_pos d @ [vx p, vy p + 100, vz p] \<rparr>)"
proof -
  from boneMap_root obtain rest where bm: "boneMap = bone ''mixamorig:Hips'' None ''Hips'' # rest"
    and nr: "''mixamorig:Hips'' \<notin> bone_name ` set rest" by blast
  from assms have "forEachE (rootPositionStep positions)
                     (bone ''mixamorig:Hips'' None ''Hips'' # rest) td = Inr td1"
    unfolding bm .
  then obtain t where
    h: "rootPositionStep positions (bone ''mixamorig:Hips'' None ''Hips'') td = Inr t"
    and r: "forEachE (rootPositionStep positions) rest t = Inr td1"
    by (auto split: sum.splits)
  from rootPositionStep_loop_other [OF nr r] have "td1 = t" .
  with rootPositionStep_hips [OF h] show ?thesis by simp
qed

lemma rootPositionStep_ok:
  assumes "\<forall>b \<in> set boneMap. positions (bone_name b) \<noteq> None"
      and "\<forall>b \<in> set boneMap. td (bone_name b) \<noteq> None" and "b \<in> set boneMap"
  shows "\<exists>td1. rootPositionStep positions b td = Inr td1
           \<and> (\<forall>c \<in> set boneMap. td1 (bone_name c) \<noteq> None)"
proof -
  from assms obtain p d where p: "positions (bone_name b) = Some p"
    and d: "td (bone_name b) = Some d" by blast
  have child: "\<exists>pc. positions (bone_name c) = Some pc" if "primaryChild (bone_name b) = Some c" for c
    using primaryChild_in [OF that] assms(1) by auto
  show ?thesis
    using p d child assms(2)
    by (cases "primaryChild (bone_name b)")
       (auto simp: rootPositionStep_def Let_def lookupE_def)
qed

lemma rootPosition_loop_ok:
  assumes "\<forall>b \<in> set boneMap. positions (bone_name b) \<noteq> None"
      and "\<forall>b \<in> set boneMap. td (bone_name b) \<noteq> None" and "set bs \<subseteq> set boneMap"
  shows "\<exists>td1. forEachE (rootPositionStep positions) bs td = Inr td1"
  using assms(2,3)
proof (induction bs arbitrary: td)
  case Nil
  then show ?case by simp
next
  case (Cons b bs)
  then have "b \<in> set boneMap" by simp
  from rootPositionStep_ok [OF assms(1) Cons.prems(1) this] obtain t
    where t: "rootPositionStep positions b td = Inr t"
      "\<forall>c \<in> set boneMap. t (bone_name c) \<noteq> None" by blast
  from Cons.IH [OF t(2)] Cons.prems(2) t(1) show ?case by simp
qed

lemma localRotation_loop_ok:
  assumes "\<forall>b \<in> set boneMap. gq (bone_name b) \<noteq> None"
      and "\<forall>b \<in> set boneMap. td (bone_name b) \<noteq> None" and "set bs \<subseteq> set boneMap"
  shows "\<exists>td'. forEachE (localRotationStep gq) bs td = Inr td'"
  using assms(2,3)
proof (induction bs arbitrary: td)
  case Nil
  then show ?case by simp
next
  case (Cons b bs)
  then have b: "b \<in> set boneMap" by simp
  from localQuat_ok [OF assms(1) b] obtain q where q: "localQuat gq b = Inr q" by blast
  from Cons.prems(1) b obtain d where d: "td (bone_name b) = Some d" by blast
  let ?t = "td(bone_name b \<mapsto> d\<lparr> td_rot := td_rot d @ [qx q, qy q, qz q, qw q] \<rparr>)"
  have s: "localRotationStep gq b td = Inr ?t"
    using q d by (simp add: localRotationStep_def lookupE_def)
  have inv: "\<forall>c \<in> set boneMap. ?t (bone_name c) \<noteq> None" using Cons.prems(1) by simp
  have sub: "set bs \<subseteq> set boneMap" using Cons.prems(2) by simp
  have "\<exists>td'. forEachE (localRotationStep gq) bs ?t = Inr td'"
    by (rule Cons.IH [OF inv sub])
  with s show ?case by simp
qed

text \<open>One frame, put together.\<close>

lemma processFrame_ok:
  assumes "29 \<le> length (landmarks frame)" and "\<forall>b \<in> set boneMap. td (bone_name b) \<noteq> None"
  shows "\<exists>td'. processFrame eps frame td = Inr td'"
proof -
  from framePositions_ok [OF assms(1)] obtain positions
    where p: "framePositions (landmarks frame) = Inr positions"
      and pd: "\<forall>b \<in> set boneMap. positions (bone_name b) \<noteq> None" by blast
  from rootPosition_loop_ok [OF pd assms(2) subset_refl] obtain td1
    where t1: "forEachE (rootPositionStep positions) boneMap td = Inr td1" by blast
  from rootPosition_loop [OF t1] assms(2)
  have td1: "\<forall>b \<in> set boneMap. td1 (bone_name b) \<noteq> None" by auto
  from globalQuatStep_loop_ok [OF pd subset_refl] obtain gq
    where g: "forEachE (globalQuatStep eps positions) boneMap Map.empty = Inr gq" by blast
  from globalQuatStep_loop [OF g] have gd: "\<forall>b \<in> set boneMap. gq (bone_name b) \<noteq> None" by auto
  from localRotation_loop_ok [OF gd td1 subset_refl] obtain td'
    where "forEachE (localRotationStep gq) boneMap td1 = Inr td'" by blast
  with p t1 g show ?thesis by (simp add: processFrame_def frameGlobalQuats_def)
qed

lemma processFrame_result:
  assumes "processFrame eps frame td = Inr td'"
  shows "\<exists>positions gq. framePositions (landmarks frame) = Inr positions
           \<and> frameGlobalQuats eps positions = Inr gq
           \<and> (\<forall>b \<in> set boneMap. \<exists>q d. localQuat gq b = Inr q \<and> td (bone_name b) = Some d
                 \<and> td' (bone_name b) =
                     Some \<lparr> td_pos = td_pos d @ (if bone_name b = ''mixamorig:Hips''
                                                 then rootPush positions else []),
                            td_rot = td_rot d @ quatValues q \<rparr>)"
proof -
  from assms obtain positions td1 gq where
    p: "framePositions (landmarks frame) = Inr positions"
    and t1: "forEachE (rootPositionStep positions) boneMap td = Inr td1"
    and g: "frameGlobalQuats eps positions = Inr gq"
    and l: "forEachE (localRotationStep gq) boneMap td1 = Inr td'"
    by (auto simp: processFrame_def bindE_eq_Inr)
  from rootPosition_loop [OF t1] obtain p0 d0 where
    h: "positions ''mixamorig:Hips'' = Some p0" "td ''mixamorig:Hips'' = Some d0"
       "td1 = td(''mixamorig:Hips'' \<mapsto> d0\<lparr> td_pos := td_pos d0 @ [vx p0, vy p0 + 100, vz p0] \<rparr>)"
    by blast
  have "\<exists>q d. localQuat gq b = Inr q \<and> td (bone_name b) = Some d
                 \<and> td' (bone_name b) =
                     Some \<lparr> td_pos = td_pos d @ (if bone_name b = ''mixamorig:Hips''
                                                 then rootPush positions else []),
                            td_rot = td_rot d @ quatValues q \<rparr>"
    if b: "b \<in> set boneMap" for b
  proof -
    from localRotationStep_loop [OF distinct_bone_names l] b obtain q d1 where
      q: "localQuat gq b = Inr q" and d1: "td1 (bone_name b) = Some d1"
      and r: "td' (bone_name b) = Some (d1\<lparr> td_rot := td_rot d1 @ quatValues q \<rparr>)"
      by blast
    show ?thesis
    proof (cases "bone_name b = ''mixamorig:Hips''")
      case True
      with d1 h have "d1 = d0\<lparr> td_pos := td_pos d0 @ [vx p0, vy p0 + 100, vz p0] \<rparr>" by simp
      with q r True h show ?thesis by (simp add: rootPush_def)
    next
      case False
      with d1 h have "td (bone_name b) = Some d1" by simp
      with q r False show ?thesis by simp
    qed
  qed
  with p g show ?thesis by blast
qed

lemma rootPush_length:
  "positions ''mixamorig:Hips'' \<noteq> None \<Longrightarrow> length (rootPush positions) = 3"
  by (auto simp: rootPush_def)

lemma filled_init: "filled 0 initTracksData"
  by (simp add: filled_def initTracksData_def boneMap_def bone_def)

lemma hips_in_boneMap: "\<exists>b \<in> set boneMap. bone_name b = ''mixamorig:Hips''"
  by (simp add: boneMap_def bone_def)

lemma processFrame_filled:
  assumes "29 \<le> length (landmarks frame)" and "filled k td"
  shows "\<exists>td'. processFrame eps frame td = Inr td' \<and> filled (Suc k) td'"
proof -
  have "\<forall>b \<in> set boneMap. td (bone_name b) \<noteq> None"
    using assms(2) unfolding filled_def by fastforce
  from processFrame_ok [OF assms(1) this] obtain td'
    where r: "processFrame eps frame td = Inr td'" by blast
  from processFrame_result [OF r] obtain positions gq where
    p: "framePositions (landmarks frame) = Inr positions"
    and step: "\<forall>b \<in> set boneMap. \<exists>q d. localQuat gq b = Inr q \<and> td (bone_name b) = Some d
                 \<and> td' (bone_name b) =
                     Some \<lparr> td_pos = td_pos d @ (if bone_name b = ''mixamorig:Hips''
                                                 then rootPush positions else []),
                            td_rot = td_rot d @ quatValues q \<rparr>"
    by blast
  from framePositions_ok [OF assms(1)] p hips_in_boneMap
  have "positions ''mixamorig:Hips'' \<noteq> None" by auto
  then have l3: "length (rootPush positions) = 3" by (rule rootPush_length)
  have "filled (Suc k) td'"
    unfolding filled_def
  proof
    fix b assume b: "b \<in> set boneMap"
    from step b obtain q d where d: "td (bone_name b) = Some d"
      and d': "td' (bone_name b) =
                     Some \<lparr> td_pos = td_pos d @ (if bone_name b = ''mixamorig:Hips''
                                                 then rootPush positions else []),
                            td_rot = td_rot d @ quatValues q \<rparr>" by blast
    from assms(2) b d have "length (td_rot d) = 4 * k"
      and "length (td_pos d) = (if bone_name b = ''mixamorig:Hips'' then 3 * k else 0)"
      unfolding filled_def by fastforce+
    with d' l3 show "\<exists>d. td' (bone_name b) = Some d \<and> length (td_rot d) = 4 * Suc k
      \<and> length (td_pos d) = (if bone_name b = ''mixamorig:Hips'' then 3 * Suc k else 0)"
      by (simp add: quatValues_def)
  qed
  with r show ?thesis by blast
qed

lemma processFrames_filled:
  assumes "\<forall>f \<in> set frames. 29 \<le> length (landmarks f)" and "filled k td"
  shows "\<exists>td'. forEachE (processFrame eps) frames td = Inr td' \<and> filled (k + length frames) td'"
  using assms
proof (induction frames arbitrary: k td)
  case Nil
  then show ?case by simp
next
  case (Cons f fs)
  from processFrame_filled [of f k td eps] Cons.prems obtain t
    where t: "processFrame eps f td = Inr t" "filled (Suc k) t" by auto
  from Cons.IH [OF _ t(2)] Cons.prems(1) obtain td'
    where "forEachE (processFrame eps) fs t = Inr td'" "filled (Suc k + length fs) td'" by auto
  with t(1) show ?case by simp
qed

lemma trackStep_loop:
  assumes "tms \<noteq> []" and "\<forall>b \<in> set bs. td (bone_name b) \<noteq> None"
  shows "forEachE (trackStep tms td) bs acc = Inr (acc @ concat (map (boneTracks tms td) bs))"
  using assms(2)
proof (induction bs arbitrary: acc)
  case Nil
  then show ?case by simp
next
  case (Cons b bs)
  from Cons.prems obtain d where d: "td (bone_name b) = Some d" by auto
  have "trackStep tms td b acc = Inr (acc @ boneTracks tms td b)"
    using d assms(1) by (simp add: trackStep_def boneTracks_def lookupE_def newTrack_def)
  with Cons show ?case by simp
qed

lemma filled_tracks:
  assumes "filled k td" and "0 < k" and "b \<in> set boneMap"
  shows "\<exists>rs ps. length rs = 4 * k \<and> length ps = 3 * k \<and> boneTracks tms td b =
           QuaternionKeyframeTrack (bone_name b @ ''.quaternion'')
             (Float32Array_from tms) (Float32Array_from rs)
           # (if bone_name b = ''mixamorig:Hips''
              then [VectorKeyframeTrack (bone_name b @ ''.position'')
                      (Float32Array_from tms) (Float32Array_from ps)] else [])"
proof -
  from assms(1,3) obtain d where d: "td (bone_name b) = Some d" "length (td_rot d) = 4 * k"
    "length (td_pos d) = (if bone_name b = ''mixamorig:Hips'' then 3 * k else 0)"
    unfolding filled_def by blast
  show ?thesis
  proof (cases "bone_name b = ''mixamorig:Hips''")
    case True
    with d assms(2) have "td_rot d \<noteq> []" "td_pos d \<noteq> []" by auto
    with d True show ?thesis by (simp add: boneTracks_def)
  next
    case False
    with d assms(2) have "td_rot d \<noteq> []" "td_pos d = []" by auto
    with d False show ?thesis
      by (simp add: boneTracks_def) (metis Ex_list_of_length)
  qed
qed

lemma sum_trackNames: "length (concat (map trackNames boneMap)) = 21"
  by (simp add: trackNames_def boneMap_def bone_def)

lemma exportRequest_tracks:
  assumes "frames \<noteq> []" and "\<forall>f \<in> set frames. 29 \<le> length (landmarks f)"
  shows "\<exists>scene clip. exportRequest eps frames = Inr (scene, clip)
           \<and> map track_name (clip_tracks clip) = concat (map trackNames boneMap)
           \<and> (\<forall>t \<in> set (clip_tracks clip). length_f32 (track_times t) = length frames)
           \<and> (\<forall>t \<in> set (clip_tracks clip).
                 length_f32 (track_values t) = (case t of QuaternionKeyframeTrack n ts vs \<Rightarrow> 4
                                                    | VectorKeyframeTrack n ts vs \<Rightarrow> 3)
                                           * length frames)"
proof -
  let ?tms = "map timestamp frames"
  from buildScene_ok obtain scene where sc: "buildScene = Inr scene" by blast
  from processFrames_filled [OF assms(2) filled_init, of eps] obtain td
    where td: "forEachE (processFrame eps) frames initTracksData = Inr td"
      and f: "filled (length frames) td" by auto
  have pos: "0 < length frames" using assms(1) by simp
  have tn: "?tms \<noteq> []" using assms(1) by simp
  have "\<forall>b \<in> set boneMap. td (bone_name b) \<noteq> None" using f unfolding filled_def by fastforce
  from trackStep_loop [OF tn this, of "[]"]
  have tr: "forEachE (trackStep ?tms td) boneMap [] = Inr (concat (map (boneTracks ?tms td) boneMap))"
    by simp
  let ?clip = "\<lparr> clip_name = ''MixamoMotion'', clip_duration = - 1,
                 clip_tracks = concat (map (boneTracks ?tms td) boneMap) \<rparr>"
  have res: "exportRequest eps frames = Inr (scene, ?clip)"
    using assms(1) by (simp add: exportRequest_def sc td tr)
  have names: "map track_name (boneTracks ?tms td b) = trackNames b" if "b \<in> set boneMap" for b
    using filled_tracks [OF f pos that, of ?tms] by (auto simp: trackNames_def)
  have "map track_name (concat (map (boneTracks ?tms td) boneMap))
          = concat (map (\<lambda>b. map track_name (boneTracks ?tms td b)) boneMap)"
    by (simp add: map_concat comp_def)
  also have "\<dots> = concat (map trackNames boneMap)"
    using names by (simp cong: map_cong)
  finally have n: "map track_name (clip_tracks ?clip) = concat (map trackNames boneMap)" by simp
  have t: "length_f32 (track_times t) = length frames \<and>
        length_f32 (track_values t) = (case t of QuaternionKeyframeTrack n ts vs \<Rightarrow> 4
                                           | VectorKeyframeTrack n ts vs \<Rightarrow> 3) * length frames"
    if "t \<in> set (clip_tracks ?clip)" for t
  proof -
    from that obtain b where b: "b \<in> set boneMap" and tb: "t \<in> set (boneTracks ?tms td b)"
      by auto
    from filled_tracks [OF f pos b, of ?tms] tb show ?thesis
      by (auto split: if_splits)
  qed
  from res n t show ?thesis by blast
qed

lemma length_bonesWithPrimaryChild: "length bonesWithPrimaryChild = 15"
  by (simp add: bonesWithPrimaryChild_def primaryChild_def boneMap_def bone_def)

section \<open>Quaternions and the rotation solver: helper lemmas\<close>

lemma vec3_sel [simp]: "vx (vec3 a b c) = a" "vy (vec3 a b c) = b" "vz (vec3 a b c) = c"
  by (simp_all add: vec3_def)

lemma quat_sel [simp]: "qx (quat a b c d) = a" "qy (quat a b c d) = b" "qz (quat a b c d) = c"
  "qw (quat a b c d) = d"
  by (simp_all add: quat_def)

lemma vec3_eq_iff: "(vec3 a b c = vec3 a' b' c') = (a = a' \<and> b = b' \<and> c = c')"
  by (simp add: vec3_def)

lemma vec3_eta: "vec3 (vx v) (vy v) (vz v) = v"
  by (simp add: vec3_def)

lemma normalize_q_unit: "unit_q (normalize_q q)"
proof (cases "length_q q = 0")
  case True
  then show ?thesis by (simp add: normalize_q_def unit_q_def)
next
  case False
  let ?S = "qx q * qx q + qy q * qy q + qz q * qz q + qw q * qw q"
  have S0: "0 \<le> ?S" by simp
  have l2: "length_q q * length_q q = ?S"
    unfolding length_q_def using S0 by (metis real_sqrt_mult_self abs_of_nonneg)
  have "?S \<noteq> 0" using False l2 by auto
  have "qx q * (1 / length_q q) * (qx q * (1 / length_q q))
      + qy q * (1 / length_q q) * (qy q * (1 / length_q q))
      + qz q * (1 / length_q q) * (qz q * (1 / length_q q))
      + qw q * (1 / length_q q) * (qw q * (1 / length_q q))
      = ?S / (length_q q * length_q q)"
    by (simp add: add_divide_distrib)
  also have "\<dots> = 1" using l2 \<open>?S \<noteq> 0\<close> by simp
  finally show ?thesis using False by (simp add: normalize_q_def unit_q_def Let_def)
qed

lemma normalize_q_scaled:
  assumes "0 < l" and "l * l = a * a + b * b + c * c + d * d"
  shows "normalize_q (quat a b c d) = quat (a * (1 / l)) (b * (1 / l)) (c * (1 / l)) (d * (1 / l))"
proof -
  have "length_q (quat a b c d) = sqrt (l * l)" using assms(2) by (simp add: length_q_def)
  also have "\<dots> = l" using assms(1) by simp
  finally show ?thesis using assms(1) by (simp add: normalize_q_def Let_def)
qed

lemma rotation_identities:
  fixes a1 a2 a3 b1 b2 b3 k :: real
  assumes "a1*a1 + a2*a2 + a3*a3 = 1" and "b1*b1 + b2*b2 + b3*b3 = 1"
      and "2 * (k * k) * (a1*b1 + a2*b2 + a3*b3 + 1) = 1"
  shows "a1 + ((a1*b1 + a2*b2 + a3*b3 + 1) * k) * (2 * (((a3*b1 - a1*b3) * k) * a3 - ((a1*b2 - a2*b1) * k) * a2))
            + ((a3*b1 - a1*b3) * k) * (2 * (((a2*b3 - a3*b2) * k) * a2 - ((a3*b1 - a1*b3) * k) * a1))
            - ((a1*b2 - a2*b1) * k) * (2 * (((a1*b2 - a2*b1) * k) * a1 - ((a2*b3 - a3*b2) * k) * a3))
         = b1"
    and "a2 + ((a1*b1 + a2*b2 + a3*b3 + 1) * k) * (2 * (((a1*b2 - a2*b1) * k) * a1 - ((a2*b3 - a3*b2) * k) * a3))
            + ((a1*b2 - a2*b1) * k) * (2 * (((a3*b1 - a1*b3) * k) * a3 - ((a1*b2 - a2*b1) * k) * a2))
            - ((a2*b3 - a3*b2) * k) * (2 * (((a2*b3 - a3*b2) * k) * a2 - ((a3*b1 - a1*b3) * k) * a1))
         = b2"
    and "a3 + ((a1*b1 + a2*b2 + a3*b3 + 1) * k) * (2 * (((a2*b3 - a3*b2) * k) * a2 - ((a3*b1 - a1*b3) * k) * a1))
            + ((a2*b3 - a3*b2) * k) * (2 * (((a1*b2 - a2*b1) * k) * a1 - ((a2*b3 - a3*b2) * k) * a3))
            - ((a3*b1 - a1*b3) * k) * (2 * (((a3*b1 - a1*b3) * k) * a3 - ((a1*b2 - a2*b1) * k) * a2))
         = b3"
  using assms by algebra+

lemma cross_norm:
  fixes a1 a2 a3 b1 b2 b3 :: real
  assumes "a1*a1 + a2*a2 + a3*a3 = 1" and "b1*b1 + b2*b2 + b3*b3 = 1"
  shows "(a2*b3 - a3*b2) * (a2*b3 - a3*b2) + (a3*b1 - a1*b3) * (a3*b1 - a1*b3)
         + (a1*b2 - a2*b1) * (a1*b2 - a2*b1)
         + (a1*b1 + a2*b2 + a3*b3 + 1) * (a1*b1 + a2*b2 + a3*b3 + 1)
         = 2 * (a1*b1 + a2*b2 + a3*b3 + 1)"
  using assms by algebra

lemma scaled_dot_zero:
  fixes c1 c2 c3 a1 a2 a3 k :: real
  assumes "c1 * a1 + c2 * a2 + c3 * a3 = 0"
  shows "c1 * k * a1 + c2 * k * a2 + c3 * k * a3 = 0"
  using assms by algebra

lemma setFromUnitVectors_far:
  assumes ua: "unit_v3 a" and ub: "unit_v3 b" and e: "0 < eps" and r: "eps \<le> dot_v3 a b + 1"
  shows "applyQuaternion a (setFromUnitVectors eps a b) = b"
    and "0 < qw (setFromUnitVectors eps a b)"
    and "dot_v3 (vec3 (qx (setFromUnitVectors eps a b)) (qy (setFromUnitVectors eps a b))
                      (qz (setFromUnitVectors eps a b))) a = 0"
    and "dot_v3 (vec3 (qx (setFromUnitVectors eps a b)) (qy (setFromUnitVectors eps a b))
                      (qz (setFromUnitVectors eps a b))) b = 0"
proof -
  let ?r = "vx a * vx b + vy a * vy b + vz a * vz b + 1"
  let ?l = "sqrt (2 * ?r)"
  let ?k = "1 / ?l"
  let ?c1 = "vy a * vz b - vz a * vy b" and ?c2 = "vz a * vx b - vx a * vz b"
    and ?c3 = "vx a * vy b - vy a * vx b"
  have a1: "vx a * vx a + vy a * vy a + vz a * vz a = 1" using ua by (simp add: unit_v3_def dot_v3_def)
  have b1: "vx b * vx b + vy b * vy b + vz b * vz b = 1" using ub by (simp add: unit_v3_def dot_v3_def)
  have rpos: "0 < ?r" using e r by (simp add: dot_v3_def)
  have lpos: "0 < ?l" using rpos by simp
  have ll: "?l * ?l = 2 * ?r" using rpos by simp
  have n: "?l * ?l = ?c1 * ?c1 + ?c2 * ?c2 + ?c3 * ?c3 + ?r * ?r"
    using cross_norm [OF a1 b1] ll by (simp add: algebra_simps)
  have q: "setFromUnitVectors eps a b = quat (?c1 * ?k) (?c2 * ?k) (?c3 * ?k) (?r * ?k)"
    using r normalize_q_scaled [OF lpos n]
    by (simp add: setFromUnitVectors_def Let_def dot_v3_def)
  have kk: "2 * (?k * ?k) * ?r = 1"
  proof -
    have "?k * ?k = 1 / (?l * ?l)" by simp
    then show ?thesis using ll rpos by simp
  qed
  have c1: "?c1 = - (vz a * vy b - vy a * vz b)" by simp
  from rotation_identities [OF a1 b1 kk]
  show "applyQuaternion a (setFromUnitVectors eps a b) = b"
    unfolding q applyQuaternion_def Let_def quat_sel
    by (subst vec3_eta [of b, symmetric]) (simp only: vec3_eq_iff, simp add: algebra_simps)
  show "0 < qw (setFromUnitVectors eps a b)"
    unfolding q using rpos lpos by simp
  have "?c1 * vx a + ?c2 * vy a + ?c3 * vz a = 0" by (simp add: algebra_simps)
  from scaled_dot_zero [OF this, of ?k]
  show "dot_v3 (vec3 (qx (setFromUnitVectors eps a b)) (qy (setFromUnitVectors eps a b))
                      (qz (setFromUnitVectors eps a b))) a = 0"
    unfolding q dot_v3_def quat_sel vec3_sel .
  have "?c1 * vx b + ?c2 * vy b + ?c3 * vz b = 0" by (simp add: algebra_simps)
  from scaled_dot_zero [OF this, of ?k]
  show "dot_v3 (vec3 (qx (setFromUnitVectors eps a b)) (qy (setFromUnitVectors eps a b))
                      (qz (setFromUnitVectors eps a b))) b = 0"
    unfolding q dot_v3_def quat_sel vec3_sel .
qed

lemma half_turn_identities:
  fixes a1 a2 a3 k :: real
  assumes "k * k * (a1 * a1 + a2 * a2) = 1"
  shows "a1 + 0 * (2 * (a1 * k * a3 - 0 * a2)) + a1 * k * (2 * (- a2 * k * a2 - a1 * k * a1))
            - 0 * (2 * (0 * a1 - - a2 * k * a3)) = - a1"
    and "a2 + 0 * (2 * (0 * a1 - - a2 * k * a3)) + 0 * (2 * (a1 * k * a3 - 0 * a2))
            - - a2 * k * (2 * (- a2 * k * a2 - a1 * k * a1)) = - a2"
    and "a3 + 0 * (2 * (- a2 * k * a2 - a1 * k * a1)) + - a2 * k * (2 * (0 * a1 - - a2 * k * a3))
            - a1 * k * (2 * (a1 * k * a3 - 0 * a2)) = - a3"
  using assms by algebra+

lemma half_turn_identities':
  fixes a1 a2 a3 k :: real
  assumes "k * k * (a3 * a3 + a2 * a2) = 1"
  shows "a1 + 0 * (2 * (- a3 * k * a3 - a2 * k * a2)) + - a3 * k * (2 * (0 * a2 - - a3 * k * a1))
            - a2 * k * (2 * (a2 * k * a1 - 0 * a3)) = - a1"
    and "a2 + 0 * (2 * (a2 * k * a1 - 0 * a3)) + a2 * k * (2 * (- a3 * k * a3 - a2 * k * a2))
            - 0 * (2 * (0 * a2 - - a3 * k * a1)) = - a2"
    and "a3 + 0 * (2 * (0 * a2 - - a3 * k * a1)) + 0 * (2 * (a2 * k * a1 - 0 * a3))
            - - a3 * k * (2 * (- a3 * k * a3 - a2 * k * a2)) = - a3"
  using assms by algebra+

lemma inverse_square:
  fixes l :: real
  assumes "0 < l" and "l * l = s"
  shows "1 / l * (1 / l) * s = 1"
proof -
  have "l \<noteq> 0" using assms(1) by simp
  then show ?thesis unfolding assms(2) [symmetric] by simp
qed

lemma setFromUnitVectors_near:
  assumes ua: "unit_v3 a" and r: "dot_v3 a b + 1 < eps"
  shows "applyQuaternion a (setFromUnitVectors eps a b) = negate_v3 a"
    and "qw (setFromUnitVectors eps a b) = 0"
    and "dot_v3 (vec3 (qx (setFromUnitVectors eps a b)) (qy (setFromUnitVectors eps a b))
                      (qz (setFromUnitVectors eps a b))) a = 0"
proof -
  have a1: "vx a * vx a + vy a * vy a + vz a * vz a = 1" using ua by (simp add: unit_v3_def dot_v3_def)
  let ?P = "applyQuaternion a (setFromUnitVectors eps a b) = negate_v3 a
    \<and> qw (setFromUnitVectors eps a b) = 0
    \<and> dot_v3 (vec3 (qx (setFromUnitVectors eps a b)) (qy (setFromUnitVectors eps a b))
                      (qz (setFromUnitVectors eps a b))) a = 0"
  have ?P
  proof (cases "\<bar>vx a\<bar> > \<bar>vz a\<bar>")
    case True
    let ?l = "sqrt (vx a * vx a + vy a * vy a)"
    let ?k = "1 / ?l"
    have "vx a \<noteq> 0" using True by auto
    then have "0 < vx a * vx a" using not_real_square_gt_zero by blast
    moreover have "0 \<le> vy a * vy a" by simp
    ultimately have spos: "0 < vx a * vx a + vy a * vy a" by linarith
    then have lpos: "0 < ?l" by simp
    have ll: "?l * ?l = vx a * vx a + vy a * vy a" using spos by simp
    have n: "?l * ?l = (- vy a) * (- vy a) + vx a * vx a + 0 * 0 + 0 * 0" using ll by simp
    have q: "setFromUnitVectors eps a b = quat (- vy a * ?k) (vx a * ?k) (0 * ?k) (0 * ?k)"
      using r True normalize_q_scaled [OF lpos n]
      by (simp add: setFromUnitVectors_def Let_def)
    have kk: "?k * ?k * (vx a * vx a + vy a * vy a) = 1" by (rule inverse_square [OF lpos ll])
    have rot: "applyQuaternion a (setFromUnitVectors eps a b) = negate_v3 a"
      unfolding q applyQuaternion_def Let_def quat_sel negate_v3_def vec3_eq_iff mult_zero_left
      using half_turn_identities [OF kk, of "vz a"] by (simp only: mult_zero_left) 
    have "- vy a * ?k * vx a + vx a * ?k * vy a + 0 * ?k * vz a = 0" by simp
    then have "dot_v3 (vec3 (qx (setFromUnitVectors eps a b)) (qy (setFromUnitVectors eps a b))
                      (qz (setFromUnitVectors eps a b))) a = 0"
      unfolding q dot_v3_def quat_sel vec3_sel .
    with rot show ?thesis unfolding q by simp
  next
    case False
    let ?l = "sqrt (vz a * vz a + vy a * vy a)"
    let ?k = "1 / ?l"
    have spos: "0 < vz a * vz a + vy a * vy a"
    proof (cases "vz a = 0")
      case True
      with False have "vx a = 0" by auto
      with True a1 show ?thesis by simp
    next
      case False
      then have "0 < vz a * vz a" using not_real_square_gt_zero by blast
      moreover have "0 \<le> vy a * vy a" by simp
      ultimately show ?thesis by linarith
    qed
    then have lpos: "0 < ?l" by simp
    have ll: "?l * ?l = vz a * vz a + vy a * vy a" using spos by simp
    have n: "?l * ?l = 0 * 0 + (- vz a) * (- vz a) + vy a * vy a + 0 * 0" using ll by simp
    have q: "setFromUnitVectors eps a b = quat (0 * ?k) (- vz a * ?k) (vy a * ?k) (0 * ?k)"
      using r False normalize_q_scaled [OF lpos n]
      by (simp add: setFromUnitVectors_def Let_def)
    have kk: "?k * ?k * (vz a * vz a + vy a * vy a) = 1" by (rule inverse_square [OF lpos ll])
    have rot: "applyQuaternion a (setFromUnitVectors eps a b) = negate_v3 a"
      unfolding q applyQuaternion_def Let_def quat_sel negate_v3_def vec3_eq_iff mult_zero_left
      using half_turn_identities' [OF kk, of "vx a"] by (simp only: mult_zero_left)
    have "0 * ?k * vx a + - vz a * ?k * vy a + vy a * ?k * vz a = 0" by simp
    then have "dot_v3 (vec3 (qx (setFromUnitVectors eps a b)) (qy (setFromUnitVectors eps a b))
                      (qz (setFromUnitVectors eps a b))) a = 0"
      unfolding q dot_v3_def quat_sel vec3_sel .
    with rot show ?thesis unfolding q by simp
  qed
  then show "applyQuaternion a (setFromUnitVectors eps a b) = negate_v3 a"
    and "qw (setFromUnitVectors eps a b) = 0"
    and "dot_v3 (vec3 (qx (setFromUnitVectors eps a b)) (qy (setFromUnitVectors eps a b))
                      (qz (setFromUnitVectors eps a b))) a = 0"
    by simp_all
qed

lemma distance_negated:
  assumes "unit_v3 a" and "unit_v3 b"
  shows "distanceToSquared (negate_v3 a) b = 2 * (dot_v3 a b + 1)"
  using assms
  by (simp add: distanceToSquared_def negate_v3_def subVectors_def dot_v3_def unit_v3_def
                algebra_simps)

lemma sum_squares_zero:
  fixes a b c :: real
  shows "a * a + b * b + c * c = 0 \<longleftrightarrow> a = 0 \<and> b = 0 \<and> c = 0"
proof
  assume h: "a * a + b * b + c * c = 0"
  have "0 \<le> a * a" "0 \<le> b * b" "0 \<le> c * c" by simp_all
  with h have "a * a = 0" "b * b = 0" "c * c = 0" by linarith+
  then show "a = 0 \<and> b = 0 \<and> c = 0" by simp
qed simp

lemma normalize_v3_unit:
  assumes "vx v \<noteq> 0 \<or> vy v \<noteq> 0 \<or> vz v \<noteq> 0"
  shows "unit_v3 (normalize_v3 v)"
proof -
  let ?S = "vx v * vx v + vy v * vy v + vz v * vz v"
  have "?S \<noteq> 0" using assms sum_squares_zero [of "vx v" "vy v" "vz v"] by blast
  moreover have "0 \<le> ?S" by simp
  ultimately have spos: "0 < ?S" by linarith
  then have lpos: "0 < length_v3 v" by (simp add: length_v3_def)
  have ll: "length_v3 v * length_v3 v = ?S" using spos by (simp add: length_v3_def)
  have n: "normalize_v3 v = vec3 (vx v * (1 / length_v3 v)) (vy v * (1 / length_v3 v))
                                 (vz v * (1 / length_v3 v))"
    using lpos by (simp add: normalize_v3_def divideScalar_def multiplyScalar_def)
  have "vx v * (1 / length_v3 v) * (vx v * (1 / length_v3 v))
      + vy v * (1 / length_v3 v) * (vy v * (1 / length_v3 v))
      + vz v * (1 / length_v3 v) * (vz v * (1 / length_v3 v))
      = ?S / (length_v3 v * length_v3 v)"
    by (simp add: add_divide_distrib)
  also have "\<dots> = 1" using ll spos by simp
  finally show ?thesis unfolding n unit_v3_def dot_v3_def vec3_sel .
qed

lemma subVectors_nonzero:
  assumes "c \<noteq> (p :: Vector3)"
  shows "vx (subVectors c p) \<noteq> 0 \<or> vy (subVectors c p) \<noteq> 0 \<or> vz (subVectors c p) \<noteq> 0"
  using assms by (auto simp: subVectors_def)

lemma tPose_unit:
  assumes "tPoseDirections n = Some v"
  shows "unit_v3 v"
proof -
  have plain: "unit_v3 (vec3 0 1 0)" "unit_v3 (vec3 1 0 0)" "unit_v3 (vec3 (- 1) 0 0)"
    "unit_v3 (vec3 0 (- 1) 0)" "unit_v3 (vec3 0 0 1)"
    by (simp_all add: unit_v3_def dot_v3_def)
  have diag: "unit_v3 (normalize_v3 (vec3 1 1 0))" "unit_v3 (normalize_v3 (vec3 (- 1) 1 0))"
    "unit_v3 (normalize_v3 (vec3 1 (- 1) 0))" "unit_v3 (normalize_v3 (vec3 (- 1) (- 1) 0))"
    by (rule normalize_v3_unit, simp)+
  from assms have "(n, v) \<in> set
    [ (''mixamorig:Spine'', vec3 0 1 0),
      (''mixamorig:Spine1'', vec3 0 1 0),
      (''mixamorig:Spine2'', vec3 0 1 0),
      (''mixamorig:Neck'', vec3 0 1 0),
      (''mixamorig:Head'', vec3 0 1 0),
      (''mixamorig:LeftShoulder'', normalize_v3 (vec3 1 1 0)),
      (''mixamorig:LeftArm'', vec3 1 0 0),
      (''mixamorig:LeftForeArm'', vec3 1 0 0),
      (''mixamorig:LeftHand'', vec3 1 0 0),
      (''mixamorig:RightShoulder'', normalize_v3 (vec3 (-1) 1 0)),
      (''mixamorig:RightArm'', vec3 (-1) 0 0),
      (''mixamorig:RightForeArm'', vec3 (-1) 0 0),
      (''mixamorig:RightHand'', vec3 (-1) 0 0),
      (''mixamorig:LeftUpLeg'', normalize_v3 (vec3 1 (-1) 0)),
      (''mixamorig:LeftLeg'', vec3 0 (-1) 0),
      (''mixamorig:LeftFoot'', vec3 0 0 1),
      (''mixamorig:RightUpLeg'', normalize_v3 (vec3 (-1) (-1) 0)),
      (''mixamorig:RightLeg'', vec3 0 (-1) 0),
      (''mixamorig:RightFoot'', vec3 0 0 1) ]"
    unfolding tPoseDirections_def by (rule map_of_SomeD)
  then have "v \<in> {vec3 0 1 0, vec3 1 0 0, vec3 (- 1) 0 0, vec3 0 (- 1) 0, vec3 0 0 1,
      normalize_v3 (vec3 1 1 0), normalize_v3 (vec3 (- 1) 1 0), normalize_v3 (vec3 1 (- 1) 0),
      normalize_v3 (vec3 (- 1) (- 1) 0)}" by auto
  with plain diag show ?thesis by auto
qed

lemma restDirection_unit:
  "unit_v3 (case tPoseDirections n of Some v \<Rightarrow> v | None \<Rightarrow> vec3 0 1 0)"
  using tPose_unit by (cases "tPoseDirections n") (simp_all add: unit_v3_def dot_v3_def)

lemma parents_are_bones:
  "\<forall>c \<in> set boneMap. \<forall>p. bone_parent c = Some p \<longrightarrow> p \<in> bone_name ` set boneMap"
  by (simp add: boneMap_def bone_def)

lemma setFromUnitVectors_unit: "unit_q (setFromUnitVectors eps a b)"
  by (simp add: setFromUnitVectors_def Let_def normalize_q_unit)

lemma globalQuat_unit:
  assumes "globalQuat eps positions n = Inr q"
  shows "unit_q q"
proof (cases "primaryChild n")
  case None
  with assms show ?thesis by (auto simp: globalQuat_def identity_q_def unit_q_def)
next
  case (Some c)
  with assms show ?thesis
    by (auto simp: globalQuat_def bindE_eq_Inr Let_def setFromUnitVectors_unit)
qed

lemma shortest_arc:
  assumes ua: "unit_v3 a" and ub: "unit_v3 b" and e: "0 < eps"
  shows "unit_q (setFromUnitVectors eps a b)
       \<and> 0 \<le> qw (setFromUnitVectors eps a b)
       \<and> dot_v3 (vec3 (qx (setFromUnitVectors eps a b)) (qy (setFromUnitVectors eps a b))
                       (qz (setFromUnitVectors eps a b))) a = 0
       \<and> distanceToSquared (applyQuaternion a (setFromUnitVectors eps a b)) b < 2 * eps
       \<and> (eps \<le> dot_v3 a b + 1 \<longrightarrow>
             applyQuaternion a (setFromUnitVectors eps a b) = b
             \<and> 0 < qw (setFromUnitVectors eps a b)
             \<and> dot_v3 (vec3 (qx (setFromUnitVectors eps a b)) (qy (setFromUnitVectors eps a b))
                             (qz (setFromUnitVectors eps a b))) b = 0)
       \<and> (dot_v3 a b + 1 < eps \<longrightarrow>
             applyQuaternion a (setFromUnitVectors eps a b) = negate_v3 a
             \<and> qw (setFromUnitVectors eps a b) = 0)"
proof (cases "eps \<le> dot_v3 a b + 1")
  case True
  have "distanceToSquared b b = 0"
    by (simp add: distanceToSquared_def subVectors_def dot_v3_def)
  with setFromUnitVectors_far [OF ua ub e True] True e setFromUnitVectors_unit [of eps a b]
  show ?thesis by simp
next
  case False
  then have r: "dot_v3 a b + 1 < eps" by simp
  from distance_negated [OF ua ub] r
  have "distanceToSquared (negate_v3 a) b < 2 * eps" by simp
  with setFromUnitVectors_near [OF ua r] r setFromUnitVectors_unit [of eps a b]
  show ?thesis by simp
qed

lemma framePositions_Inr:
  assumes "framePositions lm = Inr positions"
  shows "\<exists>lShoulder rShoulder lHip rHip headPos leftArm leftWrist rightArm rightWrist
            leftLeg leftFoot rightLeg rightFoot.
          getVec lm LEFT_SHOULDER = Inr lShoulder \<and> getVec lm RIGHT_SHOULDER = Inr rShoulder
        \<and> getVec lm LEFT_HIP = Inr lHip \<and> getVec lm RIGHT_HIP = Inr rHip
        \<and> getVec lm NOSE = Inr headPos
        \<and> getVec lm LEFT_ELBOW = Inr leftArm \<and> getVec lm LEFT_WRIST = Inr leftWrist
        \<and> getVec lm RIGHT_ELBOW = Inr rightArm \<and> getVec lm RIGHT_WRIST = Inr rightWrist
        \<and> getVec lm LEFT_KNEE = Inr leftLeg \<and> getVec lm LEFT_ANKLE = Inr leftFoot
        \<and> getVec lm RIGHT_KNEE = Inr rightLeg \<and> getVec lm RIGHT_ANKLE = Inr rightFoot
        \<and> positions = map_of
       [ (''mixamorig:Hips'', multiplyScalar (addVectors lHip rHip) 0.5),
         (''mixamorig:Spine'', lerpVectors (multiplyScalar (addVectors lHip rHip) 0.5)
                                  (multiplyScalar (addVectors lShoulder rShoulder) 0.5) 0.3),
         (''mixamorig:Spine1'', lerpVectors (multiplyScalar (addVectors lHip rHip) 0.5)
                                  (multiplyScalar (addVectors lShoulder rShoulder) 0.5) 0.6),
         (''mixamorig:Spine2'', lerpVectors (multiplyScalar (addVectors lHip rHip) 0.5)
                                  (multiplyScalar (addVectors lShoulder rShoulder) 0.5) 0.9),
         (''mixamorig:Neck'', multiplyScalar (addVectors lShoulder rShoulder) 0.5),
         (''mixamorig:Head'', headPos),
         (''mixamorig:LeftShoulder'', lShoulder),
         (''mixamorig:LeftArm'', leftArm),
         (''mixamorig:LeftForeArm'', leftWrist),
         (''mixamorig:LeftHand'', addVectors leftWrist (vec3 5 0 0)),
         (''mixamorig:RightShoulder'', rShoulder),
         (''mixamorig:RightArm'', rightArm),
         (''mixamorig:RightForeArm'', rightWrist),
         (''mixamorig:RightHand'', addVectors rightWrist (vec3 (-5) 0 0)),
         (''mixamorig:LeftUpLeg'', lHip),
         (''mixamorig:LeftLeg'', leftLeg),
         (''mixamorig:LeftFoot'', leftFoot),
         (''mixamorig:RightUpLeg'', rHip),
         (''mixamorig:RightLeg'', rightLeg),
         (''mixamorig:RightFoot'', rightFoot) ]"
  using assms unfolding framePositions_def Let_def bindE_eq_Inr
  by (elim exE conjE) (simp only: sum.inject, blast)

lemma sqrt_25: "sqrt 25 = 5"
  using real_sqrt_abs2 [of 5] by simp

lemma normalize_5: "normalize_v3 (vec3 5 0 0) = vec3 1 0 0"
  "normalize_v3 (vec3 (- 5) 0 0) = vec3 (- 1) 0 0"
  by (simp_all add: normalize_v3_def length_v3_def divideScalar_def multiplyScalar_def sqrt_25)

lemma setFromUnitVectors_same:
  assumes "eps \<le> 2"
  shows "setFromUnitVectors eps (vec3 1 0 0) (vec3 1 0 0) = identity_q"
    and "setFromUnitVectors eps (vec3 (- 1) 0 0) (vec3 (- 1) 0 0) = identity_q"
  using assms
  by (simp_all add: setFromUnitVectors_def dot_v3_def Let_def normalize_q_def length_q_def
                    identity_q_def)

lemma primaryChild_forearm:
  "primaryChild ''mixamorig:LeftForeArm''
     = Some (bone ''mixamorig:LeftHand'' (Some ''mixamorig:LeftForeArm'') ''LeftHand'')"
  "primaryChild ''mixamorig:RightForeArm''
     = Some (bone ''mixamorig:RightHand'' (Some ''mixamorig:RightForeArm'') ''RightHand'')"
  by (simp_all add: primaryChild_def boneMap_def bone_def)

lemma forearm_in_boneMap:
  "bone ''mixamorig:LeftForeArm'' (Some ''mixamorig:LeftArm'') ''LeftForeArm'' \<in> set boneMap"
  "bone ''mixamorig:RightForeArm'' (Some ''mixamorig:RightArm'') ''RightForeArm'' \<in> set boneMap"
  by (simp_all add: boneMap_def)

lemma forearm_globalQuat:
  assumes "eps \<le> 2" and "framePositions lm = Inr positions"
  shows "globalQuat eps positions ''mixamorig:LeftForeArm'' = Inr identity_q"
    and "globalQuat eps positions ''mixamorig:RightForeArm'' = Inr identity_q"
    and "\<exists>wrist hand. positions ''mixamorig:LeftForeArm'' = Some wrist
            \<and> positions ''mixamorig:LeftHand'' = Some hand
            \<and> hand = addVectors wrist (vec3 5 0 0)
            \<and> normalize_v3 (subVectors hand wrist) = vec3 1 0 0"
    and "\<exists>wrist hand. positions ''mixamorig:RightForeArm'' = Some wrist
            \<and> positions ''mixamorig:RightHand'' = Some hand
            \<and> hand = addVectors wrist (vec3 (- 5) 0 0)
            \<and> normalize_v3 (subVectors hand wrist) = vec3 (- 1) 0 0"
proof -
  from framePositions_Inr [OF assms(2)] obtain leftWrist rightWrist where
    l: "positions ''mixamorig:LeftForeArm'' = Some leftWrist"
       "positions ''mixamorig:LeftHand'' = Some (addVectors leftWrist (vec3 5 0 0))"
    and r: "positions ''mixamorig:RightForeArm'' = Some rightWrist"
       "positions ''mixamorig:RightHand'' = Some (addVectors rightWrist (vec3 (- 5) 0 0))"
    by auto
  have dl: "subVectors (addVectors leftWrist (vec3 5 0 0)) leftWrist = vec3 5 0 0"
    and dr: "subVectors (addVectors rightWrist (vec3 (- 5) 0 0)) rightWrist = vec3 (- 5) 0 0"
    by (simp_all add: subVectors_def addVectors_def)
  have tl: "tPoseDirections ''mixamorig:LeftForeArm'' = Some (vec3 1 0 0)"
    and tr: "tPoseDirections ''mixamorig:RightForeArm'' = Some (vec3 (- 1) 0 0)"
    by (simp_all add: tPoseDirections_def)
  show "globalQuat eps positions ''mixamorig:LeftForeArm'' = Inr identity_q"
    by (simp add: globalQuat_def primaryChild_forearm bone_def lookupE_def l dl tl normalize_5
                  setFromUnitVectors_same [OF assms(1)])
  show "globalQuat eps positions ''mixamorig:RightForeArm'' = Inr identity_q"
    by (simp add: globalQuat_def primaryChild_forearm bone_def lookupE_def r dr tr normalize_5
                  setFromUnitVectors_same [OF assms(1)])
  show "\<exists>wrist hand. positions ''mixamorig:LeftForeArm'' = Some wrist
            \<and> positions ''mixamorig:LeftHand'' = Some hand
            \<and> hand = addVectors wrist (vec3 5 0 0)
            \<and> normalize_v3 (subVectors hand wrist) = vec3 1 0 0"
    using l dl normalize_5 by simp
  show "\<exists>wrist hand. positions ''mixamorig:RightForeArm'' = Some wrist
            \<and> positions ''mixamorig:RightHand'' = Some hand
            \<and> hand = addVectors wrist (vec3 (- 5) 0 0)
            \<and> normalize_v3 (subVectors hand wrist) = vec3 (- 1) 0 0"
    using r dr normalize_5 by simp
qed

lemma Number_EPSILON_bounds: "0 < Number_EPSILON" "Number_EPSILON \<le> 1" "Number_EPSILON \<le> 2"
  by (simp_all add: Number_EPSILON_def)

lemma zeroFrame_complete: "29 \<le> length (landmarks (zeroFrame t))"
  by (simp add: zeroFrame_def)

lemma frameGlobalQuats_ok:
  assumes "29 \<le> length (landmarks frame)"
  shows "\<exists>positions globalQuats. framePositions (landmarks frame) = Inr positions
           \<and> frameGlobalQuats eps positions = Inr globalQuats"
proof -
  from framePositions_ok [OF assms] obtain positions
    where p: "framePositions (landmarks frame) = Inr positions"
      and pd: "\<forall>b \<in> set boneMap. positions (bone_name b) \<noteq> None" by blast
  from globalQuatStep_loop_ok [OF pd subset_refl, of eps Map.empty] p
  show ?thesis by (auto simp: frameGlobalQuats_def)
qed

lemma sqrt_10000: "sqrt 10000 = 100"
  using real_sqrt_abs2 [of 100] by simp

lemma primaryChild_leftArm:
  "primaryChild ''mixamorig:LeftArm''
     = Some (bone ''mixamorig:LeftForeArm'' (Some ''mixamorig:LeftArm'') ''LeftForeArm'')"
  by (simp add: primaryChild_def boneMap_def bone_def)

lemma restDirection_leftArm: "restDirection ''mixamorig:LeftArm'' = vec3 1 0 0"
  by (simp add: restDirection_def tPoseDirections_def)

lemma getPos_absent:
  "idx < 0 \<or> int (length lm) \<le> idx \<Longrightarrow> getPos lm idx = vec3 0 0 0"
  by (auto simp: getPos_def)

lemma getVec_absent:
  "idx < 0 \<or> int (length lm) \<le> idx \<Longrightarrow> getVec lm idx = Inl TypeError"
  by (auto simp: getVec_def)

section \<open>Local orientations: helper lemmas\<close>

lemma quat_eq_iff: "(quat a b c d = quat a' b' c' d') = (a = a' \<and> b = b' \<and> c = c' \<and> d = d')"
  by (simp add: quat_def)

lemma quat_eta: "quat (qx q) (qy q) (qz q) (qw q) = q"
  by (simp add: quat_def)

lemma multiplyQuaternions_hamilton: "multiplyQuaternions a b = hamilton a b"
  by (simp add: multiplyQuaternions_def hamilton_def vector_part_def cross_v3_def dot_v3_def
                addVectors_def multiplyScalar_def Let_def quat_eq_iff algebra_simps)

lemma invert_inverse:
  assumes "unit_q q"
  shows "invert q = inverse_q q"
  using assms by (simp add: invert_def inverse_q_def norm_squared_def unit_q_def)

lemma invert_is_unit:
  assumes "unit_q q"
  shows "unit_q (invert q)"
  using assms by (simp add: invert_def unit_q_def)

lemma hamilton_unit:
  assumes "unit_q p" and "unit_q q"
  shows "unit_q (hamilton p q)"
proof -
  have "(p1 * p1 + p2 * p2 + p3 * p3 + p0 * p0) * (q1 * q1 + q2 * q2 + q3 * q3 + q0 * q0) =
        (q1 * p0 + p1 * q0 + (p2 * q3 - p3 * q2)) * (q1 * p0 + p1 * q0 + (p2 * q3 - p3 * q2))
      + (q2 * p0 + p2 * q0 + (p3 * q1 - p1 * q3)) * (q2 * p0 + p2 * q0 + (p3 * q1 - p1 * q3))
      + (q3 * p0 + p3 * q0 + (p1 * q2 - p2 * q1)) * (q3 * p0 + p3 * q0 + (p1 * q2 - p2 * q1))
      + (p0 * q0 - (p1 * q1 + p2 * q2 + p3 * q3)) * (p0 * q0 - (p1 * q1 + p2 * q2 + p3 * q3))"
    for p1 p2 p3 p0 q1 q2 q3 q0 :: real
    by algebra
  from this [of "qx p" "qy p" "qz p" "qw p" "qx q" "qy q" "qz q" "qw q"] assms
  show ?thesis
    by (simp add: unit_q_def hamilton_def vector_part_def cross_v3_def dot_v3_def
                  addVectors_def multiplyScalar_def Let_def)
qed

lemma hamilton_cancel:
  assumes "unit_q p"
  shows "hamilton p (hamilton (inverse_q p) q) = q"
proof -
  have n: "norm_squared p = 1" using assms by (simp add: norm_squared_def unit_q_def)
  have u: "qx p * qx p + qy p * qy p + qz p * qz p + qw p * qw p = 1"
    using assms by (simp add: unit_q_def)
  have "hamilton p (hamilton (inverse_q p) q) = quat (qx q) (qy q) (qz q) (qw q)"
    unfolding hamilton_def inverse_q_def n vector_part_def cross_v3_def dot_v3_def
              addVectors_def multiplyScalar_def Let_def quat_sel vec3_sel quat_eq_iff
    using u by (intro conjI) algebra+
  then show ?thesis by (simp add: quat_eta)
qed

lemma applyQuaternion_hamilton:
  assumes "unit_q p" and "unit_q q"
  shows "applyQuaternion (applyQuaternion v q) p = applyQuaternion v (hamilton p q)"
proof -
  have up: "qx p * qx p + qy p * qy p + qz p * qz p + qw p * qw p = 1"
    using assms(1) by (simp add: unit_q_def)
  have uq: "qx q * qx q + qy q * qy q + qz q * qz q + qw q * qw q = 1"
    using assms(2) by (simp add: unit_q_def)
  show ?thesis
    unfolding applyQuaternion_def hamilton_def vector_part_def cross_v3_def dot_v3_def
              addVectors_def multiplyScalar_def Let_def quat_sel vec3_sel vec3_eq_iff
    using up uq by (intro conjI) algebra+
qed

lemma relative_rotation:
  assumes "unit_q gp" and "unit_q g"
  shows "applyQuaternion (applyQuaternion v (hamilton (inverse_q gp) g)) gp = applyQuaternion v g"
proof -
  have "unit_q (inverse_q gp)"
    using invert_is_unit [OF assms(1)] invert_inverse [OF assms(1)] by simp
  then have "unit_q (hamilton (inverse_q gp) g)" using assms(2) by (rule hamilton_unit)
  from applyQuaternion_hamilton [OF assms(1) this, of v] hamilton_cancel [OF assms(1), of g]
  show ?thesis by simp
qed

lemma sqrt_625: "sqrt 625 = 25"
  using real_sqrt_abs2 [of 25] by simp

lemma sqrt_5625: "sqrt 5625 = 75"
  using real_sqrt_abs2 [of 75] by simp

lemma leaningFrame_complete: "29 \<le> length (landmarks leaningFrame)"
  by (simp add: leaningFrame_def)

lemma leaning_positions:
  assumes "framePositions (landmarks leaningFrame) = Inr positions"
  shows "positions ''mixamorig:Hips'' = Some (vec3 0 0 0)"
    and "positions ''mixamorig:Spine'' = Some (vec3 72 21 0)"
    and "positions ''mixamorig:Spine2'' = Some (vec3 216 63 0)"
    and "positions ''mixamorig:Neck'' = Some (vec3 240 70 0)"
    and "positions ''mixamorig:Head'' = Some (vec3 240 77 24)"
proof -
  have gv: "getVec (landmarks leaningFrame) LEFT_SHOULDER = Inr (vec3 240 70 0)"
    "getVec (landmarks leaningFrame) RIGHT_SHOULDER = Inr (vec3 240 70 0)"
    "getVec (landmarks leaningFrame) LEFT_HIP = Inr (vec3 0 0 0)"
    "getVec (landmarks leaningFrame) RIGHT_HIP = Inr (vec3 0 0 0)"
    "getVec (landmarks leaningFrame) NOSE = Inr (vec3 240 77 24)"
    by (simp_all add: getVec_def leaningFrame_def MP_POSE_defs zeroLandmark_def landmarkAt_def
                      scale_def)
  have m: "multiplyScalar (addVectors (vec3 a b c) (vec3 a b c)) (1 / 2) = vec3 a b c"
    for a b c :: real
    by (simp add: multiplyScalar_def addVectors_def)
  have l: "lerpVectors (vec3 0 0 0) (vec3 240 70 0) t = vec3 (240 * t) (70 * t) 0" for t
    by (simp add: lerpVectors_def)
  from framePositions_Inr [OF assms] have
    "positions ''mixamorig:Hips'' = Some (vec3 0 0 0)
     \<and> positions ''mixamorig:Spine'' = Some (vec3 72 21 0)
     \<and> positions ''mixamorig:Spine2'' = Some (vec3 216 63 0)
     \<and> positions ''mixamorig:Neck'' = Some (vec3 240 70 0)
     \<and> positions ''mixamorig:Head'' = Some (vec3 240 77 24)"
    unfolding gv by (auto simp: m l)
  then show "positions ''mixamorig:Hips'' = Some (vec3 0 0 0)"
    and "positions ''mixamorig:Spine'' = Some (vec3 72 21 0)"
    and "positions ''mixamorig:Spine2'' = Some (vec3 216 63 0)"
    and "positions ''mixamorig:Neck'' = Some (vec3 240 70 0)"
    and "positions ''mixamorig:Head'' = Some (vec3 240 77 24)"
    by simp_all
qed

lemma leaning_directions:
  "normalize_v3 (subVectors (vec3 72 21 0) (vec3 0 0 0)) = vec3 (24 / 25) (7 / 25) 0"
  "normalize_v3 (subVectors (vec3 240 70 0) (vec3 216 63 0)) = vec3 (24 / 25) (7 / 25) 0"
  "normalize_v3 (subVectors (vec3 240 77 24) (vec3 240 70 0)) = vec3 0 (7 / 25) (24 / 25)"
  by (simp_all add: normalize_v3_def subVectors_def length_v3_def divideScalar_def
                    multiplyScalar_def sqrt_625 sqrt_5625)

lemma leaning_arcs:
  "setFromUnitVectors Number_EPSILON (vec3 0 1 0) (vec3 (24 / 25) (7 / 25) 0)
     = quat 0 0 (- (3 / 5)) (4 / 5)"
  "setFromUnitVectors Number_EPSILON (vec3 0 1 0) (vec3 0 (7 / 25) (24 / 25))
     = quat (3 / 5) 0 0 (4 / 5)"
proof -
  have e: "\<not> (32 / 25 < Number_EPSILON)" using Number_EPSILON_bounds(2) by simp
  have a: "normalize_q (quat 0 0 (- (24 / 25)) (32 / 25)) = quat 0 0 (- (3 / 5)) (4 / 5)"
    using normalize_q_scaled [of "8 / 5" 0 0 "- (24 / 25)" "32 / 25"] by simp
  have b: "normalize_q (quat (24 / 25) 0 0 (32 / 25)) = quat (3 / 5) 0 0 (4 / 5)"
    using normalize_q_scaled [of "8 / 5" "24 / 25" 0 0 "32 / 25"] by simp
  show "setFromUnitVectors Number_EPSILON (vec3 0 1 0) (vec3 (24 / 25) (7 / 25) 0)
     = quat 0 0 (- (3 / 5)) (4 / 5)"
    using e a by (simp add: setFromUnitVectors_def dot_v3_def Let_def)
  show "setFromUnitVectors Number_EPSILON (vec3 0 1 0) (vec3 0 (7 / 25) (24 / 25))
     = quat (3 / 5) 0 0 (4 / 5)"
    using e b by (simp add: setFromUnitVectors_def dot_v3_def Let_def)
qed

lemma leaning_globalQuats:
  assumes "framePositions (landmarks leaningFrame) = Inr positions"
  shows "globalQuat Number_EPSILON positions ''mixamorig:Hips'' = Inr (quat 0 0 (- (3 / 5)) (4 / 5))"
    and "globalQuat Number_EPSILON positions ''mixamorig:Spine2''
           = Inr (quat 0 0 (- (3 / 5)) (4 / 5))"
    and "globalQuat Number_EPSILON positions ''mixamorig:Neck'' = Inr (quat (3 / 5) 0 0 (4 / 5))"
proof -
  note p = leaning_positions [OF assms]
  have c: "primaryChild ''mixamorig:Hips''
             = Some (bone ''mixamorig:Spine'' (Some ''mixamorig:Hips'') ''Spine'')"
    "primaryChild ''mixamorig:Spine2''
             = Some (bone ''mixamorig:Neck'' (Some ''mixamorig:Spine2'') ''Neck'')"
    "primaryChild ''mixamorig:Neck''
             = Some (bone ''mixamorig:Head'' (Some ''mixamorig:Neck'') ''Head'')"
    by (simp_all add: primaryChild_def boneMap_def bone_def)
  have t: "tPoseDirections ''mixamorig:Hips'' = None"
    "tPoseDirections ''mixamorig:Spine2'' = Some (vec3 0 1 0)"
    "tPoseDirections ''mixamorig:Neck'' = Some (vec3 0 1 0)"
    by (simp_all add: tPoseDirections_def)
  show "globalQuat Number_EPSILON positions ''mixamorig:Hips'' = Inr (quat 0 0 (- (3 / 5)) (4 / 5))"
    by (simp add: globalQuat_def c bone_def lookupE_def p t leaning_directions leaning_arcs)
  show "globalQuat Number_EPSILON positions ''mixamorig:Spine2''
           = Inr (quat 0 0 (- (3 / 5)) (4 / 5))"
    by (simp add: globalQuat_def c bone_def lookupE_def p t leaning_directions leaning_arcs)
  show "globalQuat Number_EPSILON positions ''mixamorig:Neck'' = Inr (quat (3 / 5) 0 0 (4 / 5))"
    by (simp add: globalQuat_def c bone_def lookupE_def p t leaning_directions leaning_arcs)
qed

lemma leaning_products:
  "hamilton (inverse_q (quat 0 0 (- (3 / 5)) (4 / 5))) (quat (3 / 5) 0 0 (4 / 5))
     = quat (12 / 25) (9 / 25) (12 / 25) (16 / 25)"
  "hamilton (quat (3 / 5) 0 0 (4 / 5)) (inverse_q (quat 0 0 (- (3 / 5)) (4 / 5)))
     = quat (12 / 25) (- (9 / 25)) (12 / 25) (16 / 25)"
  by (simp_all add: hamilton_def inverse_q_def norm_squared_def vector_part_def cross_v3_def
                    dot_v3_def addVectors_def multiplyScalar_def Let_def quat_eq_iff)

section \<open>The positional exporter: helper lemmas\<close>

lemma digitChar_isDigit: "d < 10 \<Longrightarrow> isDigit (digitChar d)"
proof -
  assume "d < 10"
  then have "d \<in> {0, 1, 2, 3, 4, 5, 6, 7, 8, 9}" by auto
  then show ?thesis by (auto simp: digitChar_def isDigit_def)
qed

lemma digits_nonempty: "digits n \<noteq> []"
  by (subst digits.simps) simp

lemma digits_small: "n < 10 \<Longrightarrow> digits n = [digitChar n]"
  by (subst digits.simps) simp

lemma digits_large: "10 \<le> n \<Longrightarrow> digits n = digits (n div 10) @ [digitChar (n mod 10)]"
  by (subst digits.simps) simp

lemma digits_isDigit: "list_all isDigit (digits n)"
proof (induction n rule: digits.induct)
  case (1 n)
  show ?case
  proof (cases "n < 10")
    case True
    then show ?thesis by (subst digits.simps) (simp add: digitChar_isDigit)
  next
    case False
    with 1 have "list_all isDigit (digits (n div 10))" by simp
    moreover have "isDigit (digitChar (n mod 10))" by (simp add: digitChar_isDigit)
    ultimately show ?thesis using False by (subst digits.simps) simp
  qed
qed

lemma isFixed_shape:
  assumes "ip \<noteq> []" and "list_all isDigit ip" and "list_all isDigit fp" and "length fp = f"
  shows "isFixed f (ip @ ''.'' @ fp)" and "isFixed f (''-'' @ ip @ ''.'' @ fp)"
proof -
  have nd: "\<not> isDigit CHR ''.''" "\<not> isDigit CHR ''-''" by (simp_all add: isDigit_def)
  have h: "hd ip \<noteq> CHR ''-''" using assms(1,2) nd by (cases ip) auto
  have all: "\<forall>c \<in> set ip. isDigit c" using assms(2) by (simp add: list_all_iff)
  have tw: "takeWhile isDigit (ip @ CHR ''.'' # fp) = ip"
    using all nd by (simp add: takeWhile_append2)
  have dw: "dropWhile isDigit (ip @ CHR ''.'' # fp) = CHR ''.'' # fp"
    using all nd by (simp add: dropWhile_append2)
  have shp: "isFixed f (ip @ CHR ''.'' # fp)"
    unfolding isFixed_def Let_def using assms(1,3,4) h by (simp add: tw dw hd_append)
  then show "isFixed f (ip @ ''.'' @ fp)" by simp
  have "isFixed f (CHR ''-'' # ip @ CHR ''.'' # fp)"
    unfolding isFixed_def Let_def using assms(1,3,4) by (simp add: tw dw)
  then show "isFixed f (''-'' @ ip @ ''.'' @ fp)" by simp
qed

lemma pad_split:
  assumes "list_all isDigit m"
      and "z = (if length m \<le> f then replicate (f + 1 - length m) (CHR ''0'') @ m else m)"
  shows "take (length z - f) z \<noteq> []" and "length (drop (length z - f) z) = f"
    and "list_all isDigit (take (length z - f) z)" and "list_all isDigit (drop (length z - f) z)"
proof -
  have d0: "isDigit CHR ''0''" by (simp add: isDigit_def)
  have zd: "list_all isDigit z" using assms d0 by (simp add: list_all_iff)
  have kf: "f < length z" using assms(2) by auto
  then have "0 < length z - f" by simp
  moreover have "z \<noteq> []" using kf by auto
  ultimately show "take (length z - f) z \<noteq> []" by (cases z) auto
  show "length (drop (length z - f) z) = f" using kf by simp
  have "list_all isDigit (take (length z - f) z @ drop (length z - f) z)" using zd by simp
  then show "list_all isDigit (take (length z - f) z)"
    and "list_all isDigit (drop (length z - f) z)"
    unfolding list_all_append by simp_all
qed

lemma toFixed_small:
  assumes "\<bar>x\<bar> < 10 ^ 21" and "0 < f"
  shows "\<exists>ip fp. ip \<noteq> [] \<and> list_all isDigit ip \<and> list_all isDigit fp \<and> length fp = f
           \<and> toFixed numToString f x = (if x < 0 then ''-'' else []) @ ip @ ''.'' @ fp"
proof -
  define m where "m = digits (nat \<lfloor>\<bar>x\<bar> * 10 ^ f + 1 / 2\<rfloor>)"
  define z where "z = (if length m \<le> f then replicate (f + 1 - length m) (CHR ''0'') @ m else m)"
  have md: "list_all isDigit m" unfolding m_def by (rule digits_isDigit)
  note ps = pad_split [OF md z_def]
  have "toFixed numToString f x =
      (if x < 0 then ''-'' else []) @ take (length z - f) z @ ''.'' @ drop (length z - f) z"
    using assms unfolding toFixed_def Let_def m_def [symmetric] z_def [symmetric] by simp
  with ps show ?thesis by blast
qed

lemma toFixed_isFixed:
  assumes "\<bar>x\<bar> < 10 ^ 21" and "0 < f"
  shows "isFixed f (toFixed numToString f x)"
proof -
  from toFixed_small [OF assms, of numToString] obtain ip fp where
    s: "ip \<noteq> []" "list_all isDigit ip" "list_all isDigit fp" "length fp = f"
    and t: "toFixed numToString f x = (if x < 0 then ''-'' else []) @ ip @ ''.'' @ fp" by blast
  show ?thesis unfolding t using isFixed_shape [OF s] by simp
qed

lemma splitOn_nonempty: "splitOn c s \<noteq> []"
  by (induction s) (auto split: list.splits)

lemma splitOn_plain: "c \<notin> set t \<Longrightarrow> splitOn c t = [t]"
  by (induction t) auto

lemma splitOn_append: "c \<notin> set t \<Longrightarrow> splitOn c (t @ c # rest) = t # splitOn c rest"
  by (induction t) auto

lemma splitOn_lines:
  assumes "\<forall>l \<in> set ls. c \<notin> set l"
  shows "splitOn c (concat (map (\<lambda>l. l @ [c]) ls)) = ls @ [[]]"
  using assms by (induction ls) (simp_all add: splitOn_append)

lemma space_isWhiteSpace: "isWhiteSpace CHR '' ''"
  by (simp add: isWhiteSpace_def)

lemma newline_isWhiteSpace: "isWhiteSpace CHR ''\<newline>''"
  by (simp add: isWhiteSpace_def)

lemma plainToken_no_ws: "plainToken t \<Longrightarrow> isWhiteSpace c \<Longrightarrow> c \<notin> set t"
  by (auto simp: plainToken_def list_all_iff)

lemma joinTokens_snoc: "joinTokens (ts @ [t]) = joinTokens ts @ t @ '' ''"
  by (simp add: joinTokens_def)

lemma trim_joinTokens:
  assumes "ts \<noteq> []" and "\<forall>t \<in> set ts. plainToken t"
  shows "trim (joinTokens ts) = butlast (joinTokens ts)"
proof -
  obtain t0 ts0 where ts0: "ts = t0 # ts0" using assms(1) by (cases ts) auto
  obtain us u where us: "ts = us @ [u]" using assms(1) by (metis rev_exhaust)
  have p0: "plainToken t0" using assms(2) ts0 by simp
  have pu: "plainToken u" using assms(2) unfolding us by simp
  from p0 obtain c0 r0 where t0: "t0 = c0 # r0" "\<not> isWhiteSpace c0"
    by (cases t0) (auto simp: plainToken_def)
  from pu obtain v cu where u: "u = v @ [cu]" "\<not> isWhiteSpace cu"
    by (cases u rule: rev_cases) (auto simp: plainToken_def)
  have front: "dropWhile isWhiteSpace (joinTokens ts) = joinTokens ts"
    using t0 ts0 by (simp add: joinTokens_def)
  have shape: "joinTokens ts = (joinTokens us @ v @ [cu]) @ '' ''"
    using us u by (simp add: joinTokens_snoc)
  have "rev (joinTokens ts) = CHR '' '' # cu # rev (joinTokens us @ v)"
    unfolding shape by simp
  then have "dropWhile isWhiteSpace (rev (joinTokens ts)) = cu # rev (joinTokens us @ v)"
    using u(2) space_isWhiteSpace by simp
  then have "trim (joinTokens ts) = joinTokens us @ v @ [cu]"
    unfolding trim_def front by simp
  moreover have "butlast (joinTokens ts) = joinTokens us @ v @ [cu]"
    unfolding shape by (simp add: butlast_append)
  ultimately show ?thesis by simp
qed

lemma split_joinTokens:
  assumes "\<forall>t \<in> set ts. plainToken t"
  shows "splitOn CHR '' '' (joinTokens ts @ rest) = ts @ splitOn CHR '' '' rest"
  using assms
proof (induction ts)
  case Nil
  then show ?case by (simp add: joinTokens_def)
next
  case (Cons t ts)
  then have "CHR '' '' \<notin> set t" using plainToken_no_ws space_isWhiteSpace by auto
  from splitOn_append [OF this] Cons show ?case by (simp add: joinTokens_def)
qed

lemma split_trimmed:
  assumes "ts \<noteq> []" and "\<forall>t \<in> set ts. plainToken t"
  shows "splitOn CHR '' '' (trim (joinTokens ts)) = ts"
proof -
  obtain us u where us: "ts = us @ [u]" using assms(1) by (metis rev_exhaust)
  have "butlast (joinTokens ts) = joinTokens us @ u"
    unfolding us joinTokens_snoc by (simp add: butlast_append)
  moreover have "CHR '' '' \<notin> set u"
    using assms(2) us plainToken_no_ws space_isWhiteSpace by auto
  moreover have "\<forall>t \<in> set us. plainToken t" using assms(2) us by simp
  ultimately show ?thesis
    using trim_joinTokens [OF assms] split_joinTokens [of us u] us
    by (simp add: splitOn_plain)
qed

lemma trimmed_no_newline:
  assumes "ts \<noteq> []" and "\<forall>t \<in> set ts. plainToken t"
  shows "CHR ''\<newline>'' \<notin> set (trim (joinTokens ts))"
proof -
  have "CHR ''\<newline>'' \<notin> set (joinTokens ts)"
    using assms(2) plainToken_no_ws newline_isWhiteSpace
    by (auto simp: joinTokens_def)
  then show ?thesis
    unfolding trim_joinTokens [OF assms] by (meson in_set_butlastD)
qed

lemma childrenOf_table:
  "childrenOf ''Hips'' = [joint ''Spine'' (Some ''Hips'') (- 1),
                          joint ''LeftHip'' (Some ''Hips'') LEFT_HIP,
                          joint ''RightHip'' (Some ''Hips'') RIGHT_HIP]"
  "childrenOf ''Spine'' = [joint ''Head'' (Some ''Spine'') NOSE,
                           joint ''LeftShoulder'' (Some ''Spine'') LEFT_SHOULDER,
                           joint ''RightShoulder'' (Some ''Spine'') RIGHT_SHOULDER]"
  "childrenOf ''Head'' = []"
  "childrenOf ''LeftShoulder'' = [joint ''LeftElbow'' (Some ''LeftShoulder'') LEFT_ELBOW]"
  "childrenOf ''LeftElbow'' = [joint ''LeftWrist'' (Some ''LeftElbow'') LEFT_WRIST]"
  "childrenOf ''LeftWrist'' = []"
  "childrenOf ''RightShoulder'' = [joint ''RightElbow'' (Some ''RightShoulder'') RIGHT_ELBOW]"
  "childrenOf ''RightElbow'' = [joint ''RightWrist'' (Some ''RightElbow'') RIGHT_WRIST]"
  "childrenOf ''RightWrist'' = []"
  "childrenOf ''LeftHip'' = [joint ''LeftKnee'' (Some ''LeftHip'') LEFT_KNEE]"
  "childrenOf ''LeftKnee'' = [joint ''LeftAnkle'' (Some ''LeftKnee'') LEFT_ANKLE]"
  "childrenOf ''LeftAnkle'' = []"
  "childrenOf ''RightHip'' = [joint ''RightKnee'' (Some ''RightHip'') RIGHT_KNEE]"
  "childrenOf ''RightKnee'' = [joint ''RightAnkle'' (Some ''RightKnee'') RIGHT_ANKLE]"
  "childrenOf ''RightAnkle'' = []"
  by (simp_all add: childrenOf_def joints_def joint_def)

lemma preorder_Hips:
  "preorder ''Hips'' =
     [''Hips'', ''Spine'', ''Head'', ''LeftShoulder'', ''LeftElbow'', ''LeftWrist'',
      ''RightShoulder'', ''RightElbow'', ''RightWrist'', ''LeftHip'', ''LeftKnee'',
      ''LeftAnkle'', ''RightHip'', ''RightKnee'', ''RightAnkle'']"
  by (simp add: preorder.simps [of "''Hips''"] preorder.simps [of "''Spine''"]
        preorder.simps [of "''Head''"] preorder.simps [of "''LeftShoulder''"]
        preorder.simps [of "''LeftElbow''"] preorder.simps [of "''LeftWrist''"]
        preorder.simps [of "''RightShoulder''"] preorder.simps [of "''RightElbow''"]
        preorder.simps [of "''RightWrist''"] preorder.simps [of "''LeftHip''"]
        preorder.simps [of "''LeftKnee''"] preorder.simps [of "''LeftAnkle''"]
        preorder.simps [of "''RightHip''"] preorder.simps [of "''RightKnee''"]
        preorder.simps [of "''RightAnkle''"] childrenOf_table joint_def)

lemma preorder_is_table: "preorder ''Hips'' = map joint_name joints"
  by (simp add: preorder_Hips joints_def joint_def)

lemma concat_map_concat:
  "concat (map (\<lambda>c. concat (map g (P c))) cs) = concat (map g (concat (map P cs)))"
  by (induction cs) simp_all

lemma joinTokens_concat: "joinTokens (concat xss) = concat (map joinTokens xss)"
  by (induction xss) (simp_all add: joinTokens_def)

lemma writeData_chunks:
  "writeData numToString positions jointName =
     concat (map (\<lambda>n. joinTokens (jointTokens numToString positions n)) (preorder jointName))"
proof (induction numToString positions jointName rule: writeData.induct)
  case (1 numToString positions jointName)
  let ?g = "\<lambda>n. joinTokens (jointTokens numToString positions n)"
  have rec: "concat (map (\<lambda>c. writeData numToString positions (joint_name c)) (childrenOf jointName))
      = concat (map (\<lambda>c. concat (map ?g (preorder (joint_name c)))) (childrenOf jointName))"
    using 1 by (simp cong: map_cong)
  have own: "toFixed numToString 4 (vx (jointPosition positions jointName)) @ '' ''
      @ toFixed numToString 4 (vy (jointPosition positions jointName)) @ '' ''
      @ toFixed numToString 4 (vz (jointPosition positions jointName)) @ '' 0.00 0.00 0.00 ''
      = ?g jointName"
    by (simp add: joinTokens_def jointTokens_def)
  have "writeData numToString positions jointName
      = ?g jointName
        @ concat (map (\<lambda>c. writeData numToString positions (joint_name c)) (childrenOf jointName))"
    by (subst writeData.simps) (simp add: Let_def own [symmetric] jointPosition_def)
  also have "\<dots> = ?g jointName
        @ concat (map ?g (concat (map (\<lambda>c. preorder (joint_name c)) (childrenOf jointName))))"
    unfolding rec concat_map_concat ..
  also have "\<dots> = concat (map ?g (preorder jointName))"
    by (subst (2) preorder.simps) simp
  finally show ?case .
qed

lemma writeData_preorder:
  "writeData numToString positions jointName =
     joinTokens (concat (map (jointTokens numToString positions) (preorder jointName)))"
  by (simp add: writeData_chunks joinTokens_concat comp_def)

lemma smallVec_zero: "smallVec (vec3 0 0 0)"
  by (simp add: smallVec_def)

lemma getPos_small:
  assumes "inRange frame"
  shows "smallVec (getPos (landmarks frame) idx)"
proof (cases "idx < 0 \<or> int (length (landmarks frame)) \<le> idx")
  case True
  then show ?thesis by (simp add: getPos_absent smallVec_zero)
next
  case False
  then have "nat idx < length (landmarks frame)" by auto
  with assms have b: "\<bar>lm_x (landmarks frame ! nat idx)\<bar> < 10 ^ 19"
    "\<bar>lm_y (landmarks frame ! nat idx)\<bar> < 10 ^ 19" "\<bar>lm_z (landmarks frame ! nat idx)\<bar> < 10 ^ 19"
    by (simp_all add: inRange_def list_all_length)
  have "\<bar>a * - scale\<bar> < 10 ^ 21 \<and> \<bar>a * scale\<bar> < 10 ^ 21" if "\<bar>a\<bar> < 10 ^ 19" for a :: real
    using that by (simp add: scale_def abs_mult)
  with b False show ?thesis by (simp add: getPos_def smallVec_def)
qed

lemma midpoint_small:
  assumes "smallVec a" and "smallVec b"
  shows "smallVec (vec3 ((vx a + vx b) / 2) ((vy a + vy b) / 2) ((vz a + vz b) / 2))"
  using assms by (simp add: smallVec_def) linarith

lemma bvhPositions_small:
  assumes "inRange frame"
  shows "smallVec (jointPosition (bvhPositions (landmarks frame)) n)"
proof (cases "bvhPositions (landmarks frame) n")
  case None
  then show ?thesis by (simp add: jointPosition_def smallVec_zero)
next
  case (Some v)
  note g = getPos_small [OF assms]
  let ?lm = "landmarks frame"
  let ?hips = "vec3 ((vx (getPos ?lm LEFT_HIP) + vx (getPos ?lm RIGHT_HIP)) / 2)
                    ((vy (getPos ?lm LEFT_HIP) + vy (getPos ?lm RIGHT_HIP)) / 2)
                    ((vz (getPos ?lm LEFT_HIP) + vz (getPos ?lm RIGHT_HIP)) / 2)"
  let ?spine = "vec3 ((vx (getPos ?lm LEFT_SHOULDER) + vx (getPos ?lm RIGHT_SHOULDER)) / 2)
                    ((vy (getPos ?lm LEFT_SHOULDER) + vy (getPos ?lm RIGHT_SHOULDER)) / 2)
                    ((vz (getPos ?lm LEFT_SHOULDER) + vz (getPos ?lm RIGHT_SHOULDER)) / 2)"
  have m: "smallVec ?hips" "smallVec ?spine" by (rule midpoint_small [OF g g])+
  from Some have "(n, v) \<in> set
        [ (''Hips'', ?hips), (''Spine'', ?spine),
          (''Head'', getPos ?lm NOSE),
          (''LeftShoulder'', getPos ?lm LEFT_SHOULDER),
          (''LeftElbow'', getPos ?lm LEFT_ELBOW),
          (''LeftWrist'', getPos ?lm LEFT_WRIST),
          (''RightShoulder'', getPos ?lm RIGHT_SHOULDER),
          (''RightElbow'', getPos ?lm RIGHT_ELBOW),
          (''RightWrist'', getPos ?lm RIGHT_WRIST),
          (''LeftHip'', getPos ?lm LEFT_HIP),
          (''LeftKnee'', getPos ?lm LEFT_KNEE),
          (''LeftAnkle'', getPos ?lm LEFT_ANKLE),
          (''RightHip'', getPos ?lm RIGHT_HIP),
          (''RightKnee'', getPos ?lm RIGHT_KNEE),
          (''RightAnkle'', getPos ?lm RIGHT_ANKLE) ]"
    unfolding bvhPositions_def Let_def by (rule map_of_SomeD)
  then have "v = ?hips \<or> v = ?spine \<or> (\<exists>i. v = getPos ?lm i)" by auto
  with m g have "smallVec v" by auto
  with Some show ?thesis by (simp add: jointPosition_def)
qed

lemma isDigit_not_ws: "isDigit c \<Longrightarrow> \<not> isWhiteSpace c"
  by (auto simp: isDigit_def isWhiteSpace_def)

lemma toFixed_plain:
  assumes "\<bar>x\<bar> < 10 ^ 21" and "0 < f"
  shows "plainToken (toFixed numToString f x)"
proof -
  from toFixed_small [OF assms, of numToString] obtain ip fp where
    s: "ip \<noteq> []" "list_all isDigit ip" "list_all isDigit fp"
    and t: "toFixed numToString f x = (if x < 0 then ''-'' else []) @ ip @ ''.'' @ fp" by blast
  have "\<not> isWhiteSpace CHR ''-''" "\<not> isWhiteSpace CHR ''.''" by (simp_all add: isWhiteSpace_def)
  with s show ?thesis
    unfolding t plainToken_def using isDigit_not_ws by (auto simp: list_all_iff)
qed

lemma zero_token_plain: "plainToken ''0.00''"
  by (simp add: plainToken_def isWhiteSpace_def)

lemma jointTokens_plain:
  assumes "inRange frame"
  shows "\<forall>t \<in> set (jointTokens numToString (bvhPositions (landmarks frame)) n). plainToken t"
  using bvhPositions_small [OF assms, of n]
  by (simp add: jointTokens_def smallVec_def toFixed_plain zero_token_plain)

lemma jointTokens_fixed:
  assumes "inRange frame"
  shows "list_all (isFixed 4) (take 3 (jointTokens numToString (bvhPositions (landmarks frame)) n))"
  using bvhPositions_small [OF assms, of n]
  by (simp add: jointTokens_def smallVec_def toFixed_isFixed)

lemma length_joints: "length joints = 15"
  by (simp add: joints_def)

lemma length_frameTokens: "length (frameTokens numToString frame) = 6 * length joints"
  by (simp add: frameTokens_def preorder_Hips jointTokens_def length_joints)

lemma frameTokens_plain:
  assumes "inRange frame"
  shows "\<forall>t \<in> set (frameTokens numToString frame). plainToken t"
  using jointTokens_plain [OF assms] by (auto simp: frameTokens_def)

lemma motionLine_tokens:
  assumes "inRange frame"
  shows "splitOn CHR '' '' (motionLine numToString frame) = frameTokens numToString frame"
    and "CHR ''\<newline>'' \<notin> set (motionLine numToString frame)"
proof -
  have ne: "frameTokens numToString frame \<noteq> []"
    using length_frameTokens [of numToString frame] length_joints by auto
  have ml: "motionLine numToString frame = trim (joinTokens (frameTokens numToString frame))"
    by (simp add: motionLine_def writeData_preorder frameTokens_def)
  show "splitOn CHR '' '' (motionLine numToString frame) = frameTokens numToString frame"
    unfolding ml by (rule split_trimmed [OF ne frameTokens_plain [OF assms]])
  show "CHR ''\<newline>'' \<notin> set (motionLine numToString frame)"
    unfolding ml by (rule trimmed_no_newline [OF ne frameTokens_plain [OF assms]])
qed

lemma frameTime: "toFixed numToString 6 (1 / 30) = ''0.033333''"
proof -
  have n: "nat \<lfloor>\<bar>1 / 30 :: real\<bar> * 10 ^ 6 + 1 / 2\<rfloor> = 33333" by simp
  have d: "digits 33333 = ''33333''" by (simp add: digits_small digits_large digitChar_def)
  show ?thesis unfolding toFixed_def Let_def n d by simp
qed

lemma digits_no_newline: "CHR ''\<newline>'' \<notin> set (digits n)"
proof
  assume "CHR ''\<newline>'' \<in> set (digits n)"
  with digits_isDigit [of n] have "isDigit CHR ''\<newline>''" by (simp add: list_all_iff)
  with isDigit_not_ws newline_isWhiteSpace show False by blast
qed

lemma motionBlock_lines:
  assumes "\<forall>f \<in> set frames. inRange f"
  shows "splitOn CHR ''\<newline>'' (motionBlock numToString frames) =
           [''MOTION'', ''Frames: '' @ digits (length frames), ''Frame Time: 0.033333'']
           @ map (motionLine numToString) frames @ [[]]"
proof -
  let ?ls = "[''MOTION'', ''Frames: '' @ digits (length frames), ''Frame Time: 0.033333'']
             @ map (motionLine numToString) frames"
  have mb: "motionBlock numToString frames = concat (map (\<lambda>l. l @ [CHR ''\<newline>'']) ?ls)"
    by (simp add: motionBlock_def frameTime comp_def)
  have "\<forall>l \<in> set ?ls. CHR ''\<newline>'' \<notin> set l"
    using assms motionLine_tokens(2) digits_no_newline by auto
  from splitOn_lines [OF this] show ?thesis unfolding mb by simp
qed

lemma staticPose_inRange: "inRange (staticPoseFrame t)"
  by (simp add: inRange_def staticPoseFrame_def zeroLandmark_def landmarkAt_def list_all_length
                nth_list_update)

lemma replicate_small: "replicate 3 c = [c, c, c]" "replicate 4 c = [c, c, c, c]"
  by (simp_all add: eval_nat_numeral)

lemma toFixed_examples:
  "toFixed numToString 4 0 = ''0.0000''"
  "toFixed numToString 4 10 = ''10.0000''"
  "toFixed numToString 4 (- 10) = ''-10.0000''"
  "toFixed numToString 4 (- 50) = ''-50.0000''"
  by (simp_all add: toFixed_def Let_def digits_small digits_large digitChar_def replicate_small)

lemma staticPose_positions:
  "map (jointPosition (bvhPositions (landmarks (staticPoseFrame t)))) (preorder ''Hips'') =
     [vec3 0 0 0, vec3 0 (- 50) 0, vec3 0 0 0,
      vec3 10 (- 50) 0, vec3 0 0 0, vec3 0 0 0,
      vec3 (- 10) (- 50) 0, vec3 0 0 0, vec3 0 0 0,
      vec3 10 0 0, vec3 0 0 0, vec3 0 0 0,
      vec3 (- 10) 0 0, vec3 0 0 0, vec3 0 0 0]"
  by (simp add: preorder_Hips jointPosition_def bvhPositions_def getPos_def staticPoseFrame_def
                MP_POSE_defs zeroLandmark_def landmarkAt_def scale_def Let_def)

lemma staticPose_tokens:
  "concat (map (jointTokens numToString (bvhPositions (landmarks (staticPoseFrame t))))
             (preorder ''Hips'')) = staticPoseTokens"
proof -
  have "concat (map (jointTokens numToString (bvhPositions (landmarks (staticPoseFrame t))))
             (preorder ''Hips''))
      = concat (map (vectorTokens numToString)
          (map (jointPosition (bvhPositions (landmarks (staticPoseFrame t)))) (preorder ''Hips'')))"
  proof -
    have "jointTokens numToString (bvhPositions (landmarks (staticPoseFrame t)))
        = (\<lambda>n. vectorTokens numToString
                  (jointPosition (bvhPositions (landmarks (staticPoseFrame t))) n))"
      by (rule ext) (simp add: jointTokens_def vectorTokens_def)
    then show ?thesis by (simp add: comp_def)
  qed
  also have "\<dots> = staticPoseTokens"
    unfolding staticPose_positions
    by (simp add: vectorTokens_def toFixed_examples staticPoseTokens_def)
  finally show ?thesis .
qed

section \<open>The claims\<close>

text \<open>
  C2 (as amended). For a non-empty frame sequence in which every frame holds the
  landmarks the exporter reads (indices up to 28), the clip handed to the backend has one
  quaternion track for each of the 20 bones of the hierarchy, in hierarchy order, and the
  position track of the root right after the root's quaternion track: 21 tracks. Every
  track's time sequence has the same length as the input frame count.
\<close>

theorem track_count:
  assumes "frames \<noteq> []" and "\<forall>f \<in> set frames. 29 \<le> length (landmarks f)"
  shows "\<exists>scene clip. exportRequest eps frames = Inr (scene, clip)
           \<and> length (clip_tracks clip) = length boneMap + 1
           \<and> map track_name (clip_tracks clip) = concat (map trackNames boneMap)
           \<and> (\<forall>t \<in> set (clip_tracks clip). length_f32 (track_times t) = length frames)"
proof -
  from exportRequest_tracks [OF assms, of eps] obtain scene clip where
    r: "exportRequest eps frames = Inr (scene, clip)"
    and n: "map track_name (clip_tracks clip) = concat (map trackNames boneMap)"
    and t: "\<forall>t \<in> set (clip_tracks clip). length_f32 (track_times t) = length frames" by blast
  from n have "length (clip_tracks clip) = 21"
    using sum_trackNames by (metis length_map)
  then have "length (clip_tracks clip) = length boneMap + 1" by (simp add: boneMap_def)
  with r n t show ?thesis by auto
qed

theorem track_count_witness:
  "\<exists>scene clip. exportRequest Number_EPSILON [zeroFrame 0, zeroFrame 1] = Inr (scene, clip)
     \<and> length (clip_tracks clip) = 21
     \<and> list_all (\<lambda>t. length_f32 (track_times t) = 2) (clip_tracks clip)"
proof -
  have ne: "[zeroFrame 0, zeroFrame 1] \<noteq> []" by simp
  have h: "\<forall>f \<in> set [zeroFrame 0, zeroFrame 1]. 29 \<le> length (landmarks f)"
    by (simp add: zeroFrame_def)
  have l: "length boneMap + 1 = 21" by (simp add: boneMap_def)
  have n: "length [zeroFrame 0, zeroFrame 1] = 2" by simp
  from track_count [OF ne h, of Number_EPSILON] show ?thesis
    unfolding l n list_all_iff by blast
qed

text \<open>
  C2 as stated asks for one track per bone that has a primary child, plus one: 16. The
  exporter also pushes a rotation for the five bones without a child (the identity
  relative to the parent's frame), so a single complete frame already gives 21 tracks.
\<close>

theorem track_count_counterexample:
  "(case exportRequest Number_EPSILON [zeroFrame 0] of
      Inl e \<Rightarrow> False
    | Inr (scene, clip) \<Rightarrow> length (clip_tracks clip) = 21
        \<and> length (clip_tracks clip) \<noteq> length bonesWithPrimaryChild + 1)"
proof -
  have "\<forall>f \<in> set [zeroFrame 0]. 29 \<le> length (landmarks f)" by (simp add: zeroFrame_def)
  from exportRequest_tracks [OF _ this, of Number_EPSILON] obtain scene clip where
    r: "exportRequest Number_EPSILON [zeroFrame 0] = Inr (scene, clip)"
    and n: "map track_name (clip_tracks clip) = concat (map trackNames boneMap)" by auto
  from n have "length (clip_tracks clip) = 21"
    using sum_trackNames by (metis length_map)
  with r show ?thesis by (simp add: length_bonesWithPrimaryChild)
qed

text \<open>
  C4. For a non-empty frame sequence whose frames hold the same number \<open>n\<close> of landmarks
  (the precondition of the smoother), and any smoothing factor, \<^verbatim>\<open>smoothFrames\<close> returns a
  sequence of the same length with the same timestamps and landmark counts; its first
  frame is the first input frame by value; in every later frame each coordinate is
  \<open>alpha * raw + (1 - alpha) * previous output\<close>, the previous value being the one the
  filter itself emitted for the frame before; the visibility is that of the raw sample.
\<close>

theorem smoothFrames_contract:
  assumes "frames \<noteq> []" and "\<forall>f \<in> set frames. length (landmarks f) = n"
  shows "\<exists>out. smoothFrames frames alpha = Inr out
           \<and> length out = length frames
           \<and> map timestamp out = map timestamp frames
           \<and> out ! 0 = frames ! 0
           \<and> (\<forall>i < length frames. length (landmarks (out ! i)) = n)
           \<and> (\<forall>i j. 0 < i \<and> i < length frames \<and> j < n \<longrightarrow>
                 lm_x (landmarks (out ! i) ! j) =
                   alpha * lm_x (landmarks (frames ! i) ! j)
                   + (1 - alpha) * lm_x (landmarks (out ! (i - 1)) ! j)
               \<and> lm_y (landmarks (out ! i) ! j) =
                   alpha * lm_y (landmarks (frames ! i) ! j)
                   + (1 - alpha) * lm_y (landmarks (out ! (i - 1)) ! j)
               \<and> lm_z (landmarks (out ! i) ! j) =
                   alpha * lm_z (landmarks (frames ! i) ! j)
                   + (1 - alpha) * lm_z (landmarks (out ! (i - 1)) ! j)
               \<and> visibility (landmarks (out ! i) ! j) =
                   visibility (landmarks (frames ! i) ! j))"
  using assms by (rule smoothFrames_uniform)

theorem smoothFrames_contract_witness:
  "\<exists>out. smoothFrames
            [\<lparr> timestamp = 0, landmarks = [\<lparr> lm_x = 0, lm_y = 2, lm_z = 4, visibility = Some 1 \<rparr>] \<rparr>,
             \<lparr> timestamp = 1, landmarks = [\<lparr> lm_x = 1, lm_y = 2, lm_z = 0, visibility = None \<rparr>] \<rparr>]
            (1 / 2) = Inr out
         \<and> length out = 2
         \<and> map timestamp out = [0, 1]
         \<and> out ! 0 = \<lparr> timestamp = 0,
                        landmarks = [\<lparr> lm_x = 0, lm_y = 2, lm_z = 4, visibility = Some 1 \<rparr>] \<rparr>
         \<and> lm_x (landmarks (out ! 1) ! 0) = 1 / 2 * 1 + (1 - 1 / 2) * lm_x (landmarks (out ! 0) ! 0)
         \<and> visibility (landmarks (out ! 1) ! 0) = None"
  using smoothFrames_contract
    [of "[\<lparr> timestamp = 0, landmarks = [\<lparr> lm_x = 0, lm_y = 2, lm_z = 4, visibility = Some 1 \<rparr>] \<rparr>,
          \<lparr> timestamp = 1, landmarks = [\<lparr> lm_x = 1, lm_y = 2, lm_z = 0, visibility = None \<rparr>] \<rparr>]"
        1 "1 / 2"]
  by (simp add: smoothFrames_def smoothLandmark_def Let_def)

text \<open>
  C3 (as amended). Take a frame that holds the landmarks the exporter reads, a bone with a
  primary child whose position in that frame differs from the bone's own, the bone's rest
  direction (the table entry, or the default \<open>(0, 1, 0)\<close> the code falls back to) and the
  current direction \<open>normalize(childPosition - bonePosition)\<close>. The global quaternion \<open>q\<close>
  computed for the bone is a unit quaternion with non-negative scalar part whose axis is
  perpendicular to the rest direction. When the two directions are not opposite up to
  the library's threshold (\<open>eps \<le> 1 + rest \<sqdot> current\<close>), rotating the rest direction by
  \<open>q\<close> gives the current direction exactly (in real arithmetic), with the axis
  perpendicular to the current direction too: the shortest arc. Below the threshold
  \<open>q\<close> is a half turn about an axis perpendicular to the rest direction; the rotated
  rest direction is then the opposite of the rest direction, at a squared distance
  below \<open>2 * eps\<close> from the current direction.
\<close>

theorem rest_to_current:
  assumes "0 < eps"
      and "framePositions (landmarks frame) = Inr positions"
      and "frameGlobalQuats eps positions = Inr globalQuats"
      and "primaryChild boneName = Some childBone"
      and "positions boneName = Some bonePos"
      and "positions (bone_name childBone) = Some childPos"
      and "childPos \<noteq> bonePos"
      and "vCurrent = normalize_v3 (subVectors childPos bonePos)"
      and "vRest = restDirection boneName"
  shows "\<exists>q. globalQuats boneName = Some q
       \<and> unit_q q \<and> 0 \<le> qw q \<and> dot_v3 (vec3 (qx q) (qy q) (qz q)) vRest = 0
       \<and> distanceToSquared (applyQuaternion vRest q) vCurrent < 2 * eps
       \<and> (eps \<le> dot_v3 vRest vCurrent + 1 \<longrightarrow>
             applyQuaternion vRest q = vCurrent \<and> 0 < qw q
             \<and> dot_v3 (vec3 (qx q) (qy q) (qz q)) vCurrent = 0)
       \<and> (dot_v3 vRest vCurrent + 1 < eps \<longrightarrow>
             applyQuaternion vRest q = negate_v3 vRest \<and> qw q = 0)"
proof -
  let ?q = "setFromUnitVectors eps vRest vCurrent"
  have q: "globalQuat eps positions boneName = Inr ?q"
    using assms(4,5,6,8,9)
    by (simp add: globalQuat_def lookupE_def Let_def restDirection_def)
  from primaryChild_in [OF assms(4)] parents_are_bones
  obtain b where b: "b \<in> set boneMap" "bone_name b = boneName" by auto
  from assms(3) have loop: "forEachE (globalQuatStep eps positions) boneMap Map.empty = Inr globalQuats"
    by (simp add: frameGlobalQuats_def)
  from globalQuatStep_loop [OF loop] b q have tab: "globalQuats boneName = Some ?q" by fastforce
  have ur: "unit_v3 vRest" unfolding assms(9) restDirection_def by (rule restDirection_unit)
  have uc: "unit_v3 vCurrent"
    unfolding assms(8) by (rule normalize_v3_unit) (rule subVectors_nonzero [OF assms(7)])
  from shortest_arc [OF ur uc assms(1)] tab show ?thesis by simp
qed

theorem rest_to_current_witness:
  "\<exists>positions globalQuats q.
      framePositions (landmarks raisedArmFrame) = Inr positions
    \<and> frameGlobalQuats Number_EPSILON positions = Inr globalQuats
    \<and> positions ''mixamorig:LeftArm'' = Some (vec3 0 0 0)
    \<and> positions ''mixamorig:LeftForeArm'' = Some (vec3 0 100 0)
    \<and> globalQuats ''mixamorig:LeftArm'' = Some q
    \<and> applyQuaternion (vec3 1 0 0) q = vec3 0 1 0"
proof -
  have c: "29 \<le> length (landmarks raisedArmFrame)" by (simp add: raisedArmFrame_def)
  from frameGlobalQuats_ok [OF c, of Number_EPSILON] obtain positions globalQuats where
    p: "framePositions (landmarks raisedArmFrame) = Inr positions"
    and g: "frameGlobalQuats Number_EPSILON positions = Inr globalQuats" by blast
  have e: "getVec (landmarks raisedArmFrame) LEFT_ELBOW = Inr (vec3 0 0 0)"
    and w: "getVec (landmarks raisedArmFrame) LEFT_WRIST = Inr (vec3 0 100 0)"
    by (simp_all add: getVec_def raisedArmFrame_def MP_POSE_defs zeroLandmark_def landmarkAt_def
                      scale_def)
  from framePositions_Inr [OF p] e w
  have pa: "positions ''mixamorig:LeftArm'' = Some (vec3 0 0 0)"
    and pf: "positions ''mixamorig:LeftForeArm'' = Some (vec3 0 100 0)" by auto
  have pf': "positions (bone_name (bone ''mixamorig:LeftForeArm'' (Some ''mixamorig:LeftArm'')
                ''LeftForeArm'')) = Some (vec3 0 100 0)"
    using pf by (simp add: bone_def)
  have ne: "vec3 0 100 0 \<noteq> vec3 0 0 0" by (simp add: vec3_eq_iff)
  have cur: "vec3 0 1 0 = normalize_v3 (subVectors (vec3 0 100 0) (vec3 0 0 0))"
    by (simp add: normalize_v3_def subVectors_def length_v3_def divideScalar_def
                  multiplyScalar_def sqrt_10000)
  have rest: "vec3 1 0 0 = restDirection ''mixamorig:LeftArm''"
    by (simp add: restDirection_leftArm)
  from rest_to_current [OF Number_EPSILON_bounds(1) p g primaryChild_leftArm pa pf' ne cur rest]
  obtain q where "globalQuats ''mixamorig:LeftArm'' = Some q"
    and "Number_EPSILON \<le> dot_v3 (vec3 1 0 0) (vec3 0 1 0) + 1 \<longrightarrow>
           applyQuaternion (vec3 1 0 0) q = vec3 0 1 0" by blast
  moreover have "Number_EPSILON \<le> dot_v3 (vec3 1 0 0) (vec3 0 1 0) + 1"
    using Number_EPSILON_bounds(2) by (simp add: dot_v3_def)
  ultimately show ?thesis using p g pa pf by blast
qed

text \<open>
  C3 as stated covers every frame. In a frame where a bone and its primary child
  coincide (here: every landmark at the origin, so elbow and wrist coincide), the
  current direction is the zero vector, the computed quaternion is the identity, and the
  rotated rest direction stays at distance 1 from it.
\<close>

theorem rest_to_current_counterexample:
  "(case framePositions (landmarks (zeroFrame 0)) of
      Inl e \<Rightarrow> False
    | Inr positions \<Rightarrow>
        (case frameGlobalQuats Number_EPSILON positions of
           Inl e \<Rightarrow> False
         | Inr globalQuats \<Rightarrow>
             primaryChild ''mixamorig:LeftArm''
               = Some (bone ''mixamorig:LeftForeArm'' (Some ''mixamorig:LeftArm'') ''LeftForeArm'')
           \<and> tPoseDirections ''mixamorig:LeftArm'' = Some (vec3 1 0 0)
           \<and> positions ''mixamorig:LeftArm'' = Some (vec3 0 0 0)
           \<and> positions ''mixamorig:LeftForeArm'' = Some (vec3 0 0 0)
           \<and> normalize_v3 (subVectors (vec3 0 0 0) (vec3 0 0 0)) = vec3 0 0 0
           \<and> globalQuats ''mixamorig:LeftArm'' = Some identity_q
           \<and> applyQuaternion (vec3 1 0 0) identity_q = vec3 1 0 0
           \<and> distanceToSquared (applyQuaternion (vec3 1 0 0) identity_q) (vec3 0 0 0) = 1))"
proof -
  from frameGlobalQuats_ok [OF zeroFrame_complete, of 0 Number_EPSILON] obtain positions globalQuats
    where p: "framePositions (landmarks (zeroFrame 0)) = Inr positions"
    and g: "frameGlobalQuats Number_EPSILON positions = Inr globalQuats" by blast
  have e: "getVec (landmarks (zeroFrame 0)) LEFT_ELBOW = Inr (vec3 0 0 0)"
    and w: "getVec (landmarks (zeroFrame 0)) LEFT_WRIST = Inr (vec3 0 0 0)"
    by (simp_all add: getVec_def zeroFrame_def MP_POSE_defs)
  from framePositions_Inr [OF p] e w
  have pa: "positions ''mixamorig:LeftArm'' = Some (vec3 0 0 0)"
    and pf: "positions ''mixamorig:LeftForeArm'' = Some (vec3 0 0 0)" by auto
  have n0: "normalize_v3 (subVectors (vec3 0 0 0) (vec3 0 0 0)) = vec3 0 0 0"
    by (simp add: normalize_v3_def subVectors_def length_v3_def divideScalar_def
                  multiplyScalar_def)
  have t: "tPoseDirections ''mixamorig:LeftArm'' = Some (vec3 1 0 0)"
    by (simp add: tPoseDirections_def)
  have s: "setFromUnitVectors Number_EPSILON (vec3 1 0 0) (vec3 0 0 0) = identity_q"
    using Number_EPSILON_bounds(2)
    by (simp add: setFromUnitVectors_def dot_v3_def Let_def normalize_q_def length_q_def
                  identity_q_def)
  have q: "globalQuat Number_EPSILON positions ''mixamorig:LeftArm'' = Inr identity_q"
    by (simp add: globalQuat_def primaryChild_leftArm bone_def lookupE_def pa pf n0 t s)
  have "bone ''mixamorig:LeftArm'' (Some ''mixamorig:LeftShoulder'') ''LeftArm'' \<in> set boneMap"
    by (simp add: boneMap_def)
  moreover from g have "forEachE (globalQuatStep Number_EPSILON positions) boneMap Map.empty
      = Inr globalQuats" by (simp add: frameGlobalQuats_def)
  ultimately have tab: "globalQuats ''mixamorig:LeftArm'' = Some identity_q"
    using globalQuatStep_loop q by (fastforce simp: bone_def)
  have a: "applyQuaternion (vec3 1 0 0) identity_q = vec3 1 0 0"
    by (simp add: applyQuaternion_def identity_q_def)
  have d: "distanceToSquared (vec3 1 0 0) (vec3 0 0 0) = 1"
    by (simp add: distanceToSquared_def subVectors_def dot_v3_def)
  show ?thesis
    by (simp add: p g primaryChild_leftArm t pa pf n0 tab a d)
qed

text \<open>
  C5. In every frame the exporter processes, and for every bone of the hierarchy, the four
  numbers appended to the bone's rotation track are the components of its local
  orientation: for the root (no parent) those of its global quaternion; for any other
  bone those of \<open>inverse(parentGlobal) * global\<close>, the product and the inverse being the
  ones of quaternion algebra (\<open>hamilton\<close>, \<open>inverse_q\<close>), not the library functions the
  code calls. That quaternion is the orientation relative to the parent: multiplied on
  the left by the parent's global quaternion it gives the bone's global quaternion, and
  rotating a vector by it and then by the parent's global quaternion is rotating the
  vector by the bone's global quaternion.
\<close>

theorem local_orientation:
  assumes "processFrame eps frame td = Inr td'" and "b \<in> set boneMap"
  shows "\<exists>positions globalQuats g d d'.
           framePositions (landmarks frame) = Inr positions
         \<and> frameGlobalQuats eps positions = Inr globalQuats
         \<and> globalQuat eps positions (bone_name b) = Inr g
         \<and> globalQuats (bone_name b) = Some g
         \<and> td (bone_name b) = Some d \<and> td' (bone_name b) = Some d'
         \<and> (case bone_parent b of
               None \<Rightarrow> td_rot d' = td_rot d @ quatValues g
             | Some parent \<Rightarrow>
                 (\<exists>gp. globalQuat eps positions parent = Inr gp \<and> globalQuats parent = Some gp
                     \<and> td_rot d' = td_rot d @ quatValues (hamilton (inverse_q gp) g)
                     \<and> hamilton gp (hamilton (inverse_q gp) g) = g
                     \<and> (\<forall>v. applyQuaternion (applyQuaternion v (hamilton (inverse_q gp) g)) gp
                              = applyQuaternion v g)))"
proof -
  from processFrame_result [OF assms(1)] assms(2) obtain positions gq q d where
    p: "framePositions (landmarks frame) = Inr positions"
    and g: "frameGlobalQuats eps positions = Inr gq"
    and q: "localQuat gq b = Inr q" and d: "td (bone_name b) = Some d"
    and d': "td' (bone_name b) =
               Some \<lparr> td_pos = td_pos d @ (if bone_name b = ''mixamorig:Hips''
                                           then rootPush positions else []),
                      td_rot = td_rot d @ quatValues q \<rparr>"
    by blast
  from g have loop: "forEachE (globalQuatStep eps positions) boneMap Map.empty = Inr gq"
    by (simp add: frameGlobalQuats_def)
  note tab = globalQuatStep_loop [OF loop]
  from tab assms(2) obtain gb where gb: "globalQuat eps positions (bone_name b) = Inr gb"
    "gq (bone_name b) = Some gb" by blast
  have ub: "unit_q gb" using gb(1) by (rule globalQuat_unit)
  have rel: "(case bone_parent b of
               None \<Rightarrow> q = gb
             | Some parent \<Rightarrow>
                 (\<exists>gp. globalQuat eps positions parent = Inr gp \<and> gq parent = Some gp
                     \<and> q = hamilton (inverse_q gp) gb
                     \<and> hamilton gp (hamilton (inverse_q gp) gb) = gb
                     \<and> (\<forall>v. applyQuaternion (applyQuaternion v (hamilton (inverse_q gp) gb)) gp
                              = applyQuaternion v gb)))"
  proof (cases "bone_parent b")
    case None
    with q gb show ?thesis by (simp add: localQuat_def lookupE_def)
  next
    case (Some parent)
    with parents_are_bones assms(2) obtain c where "c \<in> set boneMap" "bone_name c = parent"
      by auto
    with tab obtain gp where gp: "globalQuat eps positions parent = Inr gp" "gq parent = Some gp"
      by blast
    have up: "unit_q gp" using gp(1) by (rule globalQuat_unit)
    from q gb gp Some have "q = multiplyQuaternions (invert gp) gb"
      by (simp add: localQuat_def lookupE_def Let_def premultiply_def)
    then have "q = hamilton (inverse_q gp) gb"
      by (simp add: multiplyQuaternions_hamilton invert_inverse [OF up])
    moreover have "hamilton gp (hamilton (inverse_q gp) gb) = gb"
      using up by (rule hamilton_cancel)
    moreover have "\<forall>v. applyQuaternion (applyQuaternion v (hamilton (inverse_q gp) gb)) gp
                        = applyQuaternion v gb"
      using relative_rotation [OF up ub] by blast
    ultimately show ?thesis using Some gp by simp
  qed
  have "td_rot (\<lparr> td_pos = td_pos d @ (if bone_name b = ''mixamorig:Hips''
                                           then rootPush positions else []),
                      td_rot = td_rot d @ quatValues q \<rparr>) = td_rot d @ quatValues q" by simp
  with p g gb d d' rel show ?thesis
    by (cases "bone_parent b") auto
qed

theorem local_orientation_witness:
  "\<exists>td' positions globalQuats neck hips.
      processFrame Number_EPSILON leaningFrame initTracksData = Inr td'
    \<and> framePositions (landmarks leaningFrame) = Inr positions
    \<and> frameGlobalQuats Number_EPSILON positions = Inr globalQuats
    \<and> globalQuats ''mixamorig:Hips'' = Some (quat 0 0 (- (3 / 5)) (4 / 5))
    \<and> globalQuats ''mixamorig:Spine2'' = Some (quat 0 0 (- (3 / 5)) (4 / 5))
    \<and> globalQuats ''mixamorig:Neck'' = Some (quat (3 / 5) 0 0 (4 / 5))
    \<and> td' ''mixamorig:Hips'' = Some hips
    \<and> td_rot hips = [0, 0, - (3 / 5), 4 / 5]
    \<and> td' ''mixamorig:Neck'' = Some neck
    \<and> td_rot neck = [12 / 25, 9 / 25, 12 / 25, 16 / 25]
    \<and> hamilton (inverse_q (quat 0 0 (- (3 / 5)) (4 / 5))) (quat (3 / 5) 0 0 (4 / 5))
         = quat (12 / 25) (9 / 25) (12 / 25) (16 / 25)
    \<and> hamilton (quat (3 / 5) 0 0 (4 / 5)) (inverse_q (quat 0 0 (- (3 / 5)) (4 / 5)))
         = quat (12 / 25) (- (9 / 25)) (12 / 25) (16 / 25)"
proof -
  have i: "\<forall>b \<in> set boneMap. initTracksData (bone_name b) \<noteq> None"
    using filled_init unfolding filled_def by fastforce
  from processFrame_ok [OF leaningFrame_complete i, of Number_EPSILON] obtain td'
    where r: "processFrame Number_EPSILON leaningFrame initTracksData = Inr td'" by blast
  have bn: "bone ''mixamorig:Neck'' (Some ''mixamorig:Spine2'') ''Neck'' \<in> set boneMap"
    and bh: "bone ''mixamorig:Hips'' None ''Hips'' \<in> set boneMap"
    by (simp_all add: boneMap_def)
  have e: "initTracksData ''mixamorig:Neck'' = Some \<lparr> td_pos = [], td_rot = [] \<rparr>"
    "initTracksData ''mixamorig:Hips'' = Some \<lparr> td_pos = [], td_rot = [] \<rparr>"
    by (simp_all add: initTracksData_def boneMap_def bone_def)
  from local_orientation [OF r bn] e(1) obtain positions globalQuats g neck gp where
    p: "framePositions (landmarks leaningFrame) = Inr positions"
    and gq: "frameGlobalQuats Number_EPSILON positions = Inr globalQuats"
    and n: "globalQuat Number_EPSILON positions ''mixamorig:Neck'' = Inr g"
      "globalQuats ''mixamorig:Neck'' = Some g"
      "globalQuat Number_EPSILON positions ''mixamorig:Spine2'' = Inr gp"
      "globalQuats ''mixamorig:Spine2'' = Some gp"
      "td' ''mixamorig:Neck'' = Some neck"
      "td_rot neck = quatValues (hamilton (inverse_q gp) g)"
    by (auto simp: bone_def)
  from local_orientation [OF r bh] e(2) p gq obtain h hips where
    h: "globalQuat Number_EPSILON positions ''mixamorig:Hips'' = Inr h"
      "globalQuats ''mixamorig:Hips'' = Some h"
      "td' ''mixamorig:Hips'' = Some hips"
      "td_rot hips = quatValues h"
    by (auto simp: bone_def)
  note v = leaning_globalQuats [OF p]
  from n(1) v(3) have g: "g = quat (3 / 5) 0 0 (4 / 5)" by simp
  from n(3) v(2) have gp: "gp = quat 0 0 (- (3 / 5)) (4 / 5)" by simp
  from h(1) v(1) have hq: "h = quat 0 0 (- (3 / 5)) (4 / 5)" by simp
  have rn: "td_rot neck = [12 / 25, 9 / 25, 12 / 25, 16 / 25]"
    unfolding n(6) g gp leaning_products(1) by (simp add: quatValues_def)
  have rh: "td_rot hips = [0, 0, - (3 / 5), 4 / 5]"
    unfolding h(4) hq by (simp add: quatValues_def)
  from r p gq n(2,4,5) h(2,3) rn rh leaning_products show ?thesis
    unfolding g gp hq by blast
qed

text \<open>
  C8. The positions table of one frame is a function of that frame's landmarks alone,
  and in it: the hip centre is the midpoint of the left and right hip, the neck
  (shoulder centre) the midpoint of the left and right shoulder, and the three spine
  points the linear interpolation between hip centre and neck at 0.3, 0.6 and 0.9. The
  positional exporter derives its two virtual joints (hips, spine) as the same midpoints.
\<close>

theorem virtual_joints:
  assumes "framePositions lm = Inr positions"
  shows "\<exists>lHip rHip lShoulder rShoulder.
           getVec lm LEFT_HIP = Inr lHip \<and> getVec lm RIGHT_HIP = Inr rHip
         \<and> getVec lm LEFT_SHOULDER = Inr lShoulder \<and> getVec lm RIGHT_SHOULDER = Inr rShoulder
         \<and> positions ''mixamorig:Hips'' = Some (midpoint_v3 lHip rHip)
         \<and> positions ''mixamorig:Neck'' = Some (midpoint_v3 lShoulder rShoulder)
         \<and> positions ''mixamorig:Spine''
             = Some (interpolate_v3 (midpoint_v3 lHip rHip) (midpoint_v3 lShoulder rShoulder) 0.3)
         \<and> positions ''mixamorig:Spine1''
             = Some (interpolate_v3 (midpoint_v3 lHip rHip) (midpoint_v3 lShoulder rShoulder) 0.6)
         \<and> positions ''mixamorig:Spine2''
             = Some (interpolate_v3 (midpoint_v3 lHip rHip) (midpoint_v3 lShoulder rShoulder) 0.9)
         \<and> bvhPositions lm ''Hips''
             = Some (midpoint_v3 (getPos lm LEFT_HIP) (getPos lm RIGHT_HIP))
         \<and> bvhPositions lm ''Spine''
             = Some (midpoint_v3 (getPos lm LEFT_SHOULDER) (getPos lm RIGHT_SHOULDER))"
proof -
  have mid: "multiplyScalar (addVectors a b) 0.5 = midpoint_v3 a b" for a b
    by (simp add: multiplyScalar_def addVectors_def midpoint_v3_def)
  have lerp: "lerpVectors a b t = interpolate_v3 a b t" for a b t
    by (simp add: lerpVectors_def interpolate_v3_def vec3_eq_iff algebra_simps)
  have bvh: "bvhPositions lm ''Hips'' = Some (midpoint_v3 (getPos lm LEFT_HIP) (getPos lm RIGHT_HIP))"
    "bvhPositions lm ''Spine''
       = Some (midpoint_v3 (getPos lm LEFT_SHOULDER) (getPos lm RIGHT_SHOULDER))"
    by (simp_all add: bvhPositions_def Let_def midpoint_v3_def)
  from framePositions_Inr [OF assms] obtain lHip rHip lShoulder rShoulder where
    gv: "getVec lm LEFT_HIP = Inr lHip" "getVec lm RIGHT_HIP = Inr rHip"
        "getVec lm LEFT_SHOULDER = Inr lShoulder" "getVec lm RIGHT_SHOULDER = Inr rShoulder"
    and pos: "positions ''mixamorig:Hips'' = Some (multiplyScalar (addVectors lHip rHip) 0.5)"
        "positions ''mixamorig:Neck'' = Some (multiplyScalar (addVectors lShoulder rShoulder) 0.5)"
        "positions ''mixamorig:Spine''
           = Some (lerpVectors (multiplyScalar (addVectors lHip rHip) 0.5)
                     (multiplyScalar (addVectors lShoulder rShoulder) 0.5) 0.3)"
        "positions ''mixamorig:Spine1''
           = Some (lerpVectors (multiplyScalar (addVectors lHip rHip) 0.5)
                     (multiplyScalar (addVectors lShoulder rShoulder) 0.5) 0.6)"
        "positions ''mixamorig:Spine2''
           = Some (lerpVectors (multiplyScalar (addVectors lHip rHip) 0.5)
                     (multiplyScalar (addVectors lShoulder rShoulder) 0.5) 0.9)"
    by auto
  from gv pos [unfolded mid lerp] bvh show ?thesis by blast
qed

theorem virtual_joints_witness:
  "\<exists>positions. framePositions (landmarks (staticPoseFrame 0)) = Inr positions
     \<and> positions ''mixamorig:Hips'' = Some (vec3 0 0 0)
     \<and> positions ''mixamorig:Neck'' = Some (vec3 0 (- 50) 0)
     \<and> positions ''mixamorig:Spine'' = Some (vec3 0 (- 15) 0)
     \<and> positions ''mixamorig:Spine1'' = Some (vec3 0 (- 30) 0)
     \<and> positions ''mixamorig:Spine2'' = Some (vec3 0 (- 45) 0)"
proof -
  have c: "29 \<le> length (landmarks (staticPoseFrame 0))" by (simp add: staticPoseFrame_def)
  from framePositions_ok [OF c] obtain positions
    where p: "framePositions (landmarks (staticPoseFrame 0)) = Inr positions" by blast
  have gv: "getVec (landmarks (staticPoseFrame 0)) LEFT_HIP = Inr (vec3 10 0 0)"
    "getVec (landmarks (staticPoseFrame 0)) RIGHT_HIP = Inr (vec3 (- 10) 0 0)"
    "getVec (landmarks (staticPoseFrame 0)) LEFT_SHOULDER = Inr (vec3 10 (- 50) 0)"
    "getVec (landmarks (staticPoseFrame 0)) RIGHT_SHOULDER = Inr (vec3 (- 10) (- 50) 0)"
    by (simp_all add: getVec_def staticPoseFrame_def MP_POSE_defs zeroLandmark_def landmarkAt_def
                      scale_def)
  have m: "midpoint_v3 (vec3 10 0 0) (vec3 (- 10) 0 0) = vec3 0 0 0"
    "midpoint_v3 (vec3 10 (- 50) 0) (vec3 (- 10) (- 50) 0) = vec3 0 (- 50) 0"
    by (simp_all add: midpoint_v3_def)
  have i: "interpolate_v3 (vec3 0 0 0) (vec3 0 (- 50) 0) t = vec3 0 (- (50 * t)) 0" for t
    by (simp add: interpolate_v3_def)
  from virtual_joints [OF p] p show ?thesis
    unfolding gv by (auto simp: m i)
qed

text \<open>
  C10. In every frame the exporter processes (the threshold of the library being at most
  2), the hand position is the wrist position plus \<open>(5, 0, 0)\<close> on the left and
  \<open>(-5, 0, 0)\<close> on the right, the forearm's current direction is its rest direction
  \<open>(1, 0, 0)\<close> or \<open>(-1, 0, 0)\<close>, and the global quaternion of both forearms is the
  identity, whatever the elbow and wrist landmarks are.
\<close>

theorem forearm_identity:
  assumes "eps \<le> 2" and "framePositions (landmarks frame) = Inr positions"
      and "frameGlobalQuats eps positions = Inr globalQuats"
  shows "globalQuats ''mixamorig:LeftForeArm'' = Some identity_q
       \<and> globalQuats ''mixamorig:RightForeArm'' = Some identity_q
       \<and> (\<exists>wrist hand. positions ''mixamorig:LeftForeArm'' = Some wrist
            \<and> positions ''mixamorig:LeftHand'' = Some hand
            \<and> hand = addVectors wrist (vec3 5 0 0)
            \<and> normalize_v3 (subVectors hand wrist) = vec3 1 0 0
            \<and> tPoseDirections ''mixamorig:LeftForeArm'' = Some (vec3 1 0 0))
       \<and> (\<exists>wrist hand. positions ''mixamorig:RightForeArm'' = Some wrist
            \<and> positions ''mixamorig:RightHand'' = Some hand
            \<and> hand = addVectors wrist (vec3 (- 5) 0 0)
            \<and> normalize_v3 (subVectors hand wrist) = vec3 (- 1) 0 0
            \<and> tPoseDirections ''mixamorig:RightForeArm'' = Some (vec3 (- 1) 0 0))"
proof -
  note fa = forearm_globalQuat [OF assms(1,2)]
  from assms(3) have loop: "forEachE (globalQuatStep eps positions) boneMap Map.empty = Inr globalQuats"
    by (simp add: frameGlobalQuats_def)
  from globalQuatStep_loop [OF loop] forearm_in_boneMap(1) fa(1)
  have l: "globalQuats ''mixamorig:LeftForeArm'' = Some identity_q"
    by (fastforce simp: bone_def)
  from globalQuatStep_loop [OF loop] forearm_in_boneMap(2) fa(2)
  have r: "globalQuats ''mixamorig:RightForeArm'' = Some identity_q"
    by (fastforce simp: bone_def)
  have tl: "tPoseDirections ''mixamorig:LeftForeArm'' = Some (vec3 1 0 0)"
    and tr: "tPoseDirections ''mixamorig:RightForeArm'' = Some (vec3 (- 1) 0 0)"
    by (simp_all add: tPoseDirections_def)
  from l r fa(3,4) tl tr show ?thesis by simp
qed

theorem forearm_identity_witness:
  "\<exists>positions globalQuats.
      framePositions (landmarks raisedArmFrame) = Inr positions
    \<and> frameGlobalQuats Number_EPSILON positions = Inr globalQuats
    \<and> positions ''mixamorig:LeftArm'' = Some (vec3 0 0 0)
    \<and> positions ''mixamorig:LeftForeArm'' = Some (vec3 0 100 0)
    \<and> globalQuats ''mixamorig:LeftForeArm'' = Some identity_q
    \<and> globalQuats ''mixamorig:RightForeArm'' = Some identity_q"
proof -
  have c: "29 \<le> length (landmarks raisedArmFrame)" by (simp add: raisedArmFrame_def)
  from frameGlobalQuats_ok [OF c, of Number_EPSILON] obtain positions globalQuats where
    p: "framePositions (landmarks raisedArmFrame) = Inr positions"
    and g: "frameGlobalQuats Number_EPSILON positions = Inr globalQuats" by blast
  have e: "getVec (landmarks raisedArmFrame) LEFT_ELBOW = Inr (vec3 0 0 0)"
    and w: "getVec (landmarks raisedArmFrame) LEFT_WRIST = Inr (vec3 0 100 0)"
    by (simp_all add: getVec_def raisedArmFrame_def MP_POSE_defs zeroLandmark_def landmarkAt_def
                      scale_def)
  from framePositions_Inr [OF p] e w
  have pa: "positions ''mixamorig:LeftArm'' = Some (vec3 0 0 0)"
    and pf: "positions ''mixamorig:LeftForeArm'' = Some (vec3 0 100 0)" by auto
  from forearm_identity [OF Number_EPSILON_bounds(3) p g] p g pa pf show ?thesis by blast
qed

text \<open>
  C1 (as amended). For an empty frame sequence, \<^verbatim>\<open>generateFBX\<close> fails with the error
  "No frames to export" whatever the backend is, that is, before the backend is called;
  \<^verbatim>\<open>generateBVH\<close> does not fail: it returns the empty string, without a hierarchy or a
  motion block.
\<close>

theorem empty_input:
  "generateFBX eps parse [] = Inl (Error ''No frames to export'')
   \<and> generateBVH numToString [] = Inr ''''"
  by (simp add: generateFBX_def exportRequest_def generateBVH_def)

text \<open>
  C1 as stated has both serializers fail. The guard of \<^verbatim>\<open>generateBVH\<close> returns the
  empty string instead.
\<close>

theorem empty_input_counterexample:
  "generateBVH (\<lambda>a. ''1e+21'') [] = Inr '''' \<and> \<not> isl (generateBVH (\<lambda>a. ''1e+21'') [])"
  by (simp add: generateBVH_def)

text \<open>
  C7. A landmark index absent from a frame is replaced by the zero vector in the
  positional exporter (\<^verbatim>\<open>getPos\<close> checks the range). The rotation exporter's
  \<^verbatim>\<open>getVec\<close> has no such check: on a frame without landmarks the read raises a
  \<^verbatim>\<open>TypeError\<close>, and \<^verbatim>\<open>generateFBX\<close> fails with it.
\<close>

theorem missing_landmark_raises:
  "generateFBX eps parse [\<lparr> timestamp = 0, landmarks = [] \<rparr>] = Inl TypeError
   \<and> getVec [] LEFT_SHOULDER = Inl TypeError
   \<and> getPos [] LEFT_SHOULDER = vec3 0 0 0"
proof -
  from buildScene_ok obtain scene where sc: "buildScene = Inr scene" by blast
  have "processFrame eps \<lparr> timestamp = 0, landmarks = [] \<rparr> initTracksData = Inl TypeError"
    by (simp add: processFrame_def framePositions_raises)
  then show ?thesis
    by (simp add: generateFBX_def exportRequest_def sc getVec_def getPos_def)
qed

text \<open>
  C6. For a non-empty frame sequence whose landmark coordinates are below \<open>10^19\<close> in
  absolute value (so that every position, in centimetres, is below the \<open>10^21\<close> from which
  \<^verbatim>\<open>toFixed\<close> switches to exponent notation), \<^verbatim>\<open>generateBVH\<close> returns the hierarchy
  block followed by the motion block, and the motion block, cut at its line ends, is: the
  keyword line, the frame count line, the frame duration line with \<open>1/30\<close> formatted to 6
  decimals (\<open>0.033333\<close>), then one line per input frame, and nothing after the last line
  end. Cut at single spaces, the line of a frame is exactly its \<open>6 * 15\<close> tokens: for each
  joint in hierarchy pre-order, the three coordinates of its position formatted to 4
  decimals and three times \<open>0.00\<close>; so no token is empty and the line has no leading or
  trailing space.
\<close>

theorem motion_block:
  assumes "frames \<noteq> []" and "\<forall>f \<in> set frames. inRange f"
  shows "generateBVH numToString frames
           = Inr (hierarchyBlock @ motionBlock numToString frames)
       \<and> splitOn CHR ''\<newline>'' (motionBlock numToString frames) =
           [''MOTION'', ''Frames: '' @ digits (length frames),
            ''Frame Time: '' @ toFixed numToString 6 (1 / 30)]
           @ map (motionLine numToString) frames @ ['''']
       \<and> toFixed numToString 6 (1 / 30) = ''0.033333''
       \<and> preorder ''Hips'' = map joint_name joints
       \<and> (\<forall>f \<in> set frames.
             splitOn CHR '' '' (motionLine numToString f)
               = concat (map (jointTokens numToString (bvhPositions (landmarks f)))
                           (preorder ''Hips''))
           \<and> length (splitOn CHR '' '' (motionLine numToString f)) = 6 * 15
           \<and> (\<forall>n \<in> set (preorder ''Hips'').
                 jointTokens numToString (bvhPositions (landmarks f)) n
                   = [toFixed numToString 4 (vx (jointPosition (bvhPositions (landmarks f)) n)),
                      toFixed numToString 4 (vy (jointPosition (bvhPositions (landmarks f)) n)),
                      toFixed numToString 4 (vz (jointPosition (bvhPositions (landmarks f)) n)),
                      ''0.00'', ''0.00'', ''0.00'']
               \<and> isFixed 4 (toFixed numToString 4 (vx (jointPosition (bvhPositions (landmarks f)) n)))
               \<and> isFixed 4 (toFixed numToString 4 (vy (jointPosition (bvhPositions (landmarks f)) n)))
               \<and> isFixed 4 (toFixed numToString 4 (vz (jointPosition (bvhPositions (landmarks f)) n)))))"
proof -
  have g: "generateBVH numToString frames = Inr (hierarchyBlock @ motionBlock numToString frames)"
    using assms(1) by (simp add: generateBVH_def)
  have l: "splitOn CHR ''\<newline>'' (motionBlock numToString frames) =
           [''MOTION'', ''Frames: '' @ digits (length frames),
            ''Frame Time: '' @ toFixed numToString 6 (1 / 30)]
           @ map (motionLine numToString) frames @ ['''']"
    using motionBlock_lines [OF assms(2), of numToString] by (simp add: frameTime)
  have per: "splitOn CHR '' '' (motionLine numToString f)
               = concat (map (jointTokens numToString (bvhPositions (landmarks f)))
                           (preorder ''Hips''))
           \<and> length (splitOn CHR '' '' (motionLine numToString f)) = 6 * 15
           \<and> (\<forall>n \<in> set (preorder ''Hips'').
                 jointTokens numToString (bvhPositions (landmarks f)) n
                   = [toFixed numToString 4 (vx (jointPosition (bvhPositions (landmarks f)) n)),
                      toFixed numToString 4 (vy (jointPosition (bvhPositions (landmarks f)) n)),
                      toFixed numToString 4 (vz (jointPosition (bvhPositions (landmarks f)) n)),
                      ''0.00'', ''0.00'', ''0.00'']
               \<and> isFixed 4 (toFixed numToString 4 (vx (jointPosition (bvhPositions (landmarks f)) n)))
               \<and> isFixed 4 (toFixed numToString 4 (vy (jointPosition (bvhPositions (landmarks f)) n)))
               \<and> isFixed 4 (toFixed numToString 4 (vz (jointPosition (bvhPositions (landmarks f)) n))))"
    if f: "f \<in> set frames" for f
  proof -
    from assms(2) f have r: "inRange f" by blast
    have s: "splitOn CHR '' '' (motionLine numToString f) = frameTokens numToString f"
      by (rule motionLine_tokens(1) [OF r])
    have n: "length (frameTokens numToString f) = 6 * 15"
      using length_frameTokens [of numToString f] by (simp add: length_joints)
    have fx: "isFixed 4 (toFixed numToString 4 (vx (jointPosition (bvhPositions (landmarks f)) n)))
            \<and> isFixed 4 (toFixed numToString 4 (vy (jointPosition (bvhPositions (landmarks f)) n)))
            \<and> isFixed 4 (toFixed numToString 4 (vz (jointPosition (bvhPositions (landmarks f)) n)))"
      for n
      using bvhPositions_small [OF r, of n] by (simp add: smallVec_def toFixed_isFixed)
    show ?thesis
      unfolding s n using fx by (simp add: frameTokens_def jointTokens_def)
  qed
  note ft = frameTime [of numToString]
  show ?thesis
    apply (intro conjI)
        apply (rule g)
       apply (rule l)
      apply (rule ft)
     apply (rule preorder_is_table)
    apply (rule ballI)
    apply (erule per)
    done
qed

theorem motion_block_witness:
  "splitOn CHR ''\<newline>''
     (motionBlock (\<lambda>a. ''1e+21'') [staticPoseFrame 0, staticPoseFrame (1 / 30)])
     = [''MOTION'', ''Frames: 2'', ''Frame Time: 0.033333'',
        motionLine (\<lambda>a. ''1e+21'') (staticPoseFrame 0),
        motionLine (\<lambda>a. ''1e+21'') (staticPoseFrame (1 / 30)), '''']
   \<and> splitOn CHR '' '' (motionLine (\<lambda>a. ''1e+21'') (staticPoseFrame 0)) = staticPoseTokens
   \<and> length staticPoseTokens = 90"
proof -
  have ne: "[staticPoseFrame 0, staticPoseFrame (1 / 30)] \<noteq> []" by simp
  have r: "\<forall>f \<in> set [staticPoseFrame 0, staticPoseFrame (1 / 30)]. inRange f"
    by (simp add: staticPose_inRange)
  have d: "digits (length [staticPoseFrame 0, staticPoseFrame (1 / 30)]) = ''2''"
    by (simp add: digits_small digitChar_def)
  from motion_block [OF ne r, of "\<lambda>a. ''1e+21''"]
  have l: "splitOn CHR ''\<newline>''
     (motionBlock (\<lambda>a. ''1e+21'') [staticPoseFrame 0, staticPoseFrame (1 / 30)])
      = [''MOTION'', ''Frames: '' @ digits (length [staticPoseFrame 0, staticPoseFrame (1 / 30)]),
            ''Frame Time: '' @ toFixed (\<lambda>a. ''1e+21'') 6 (1 / 30)]
           @ map (motionLine (\<lambda>a. ''1e+21'')) [staticPoseFrame 0, staticPoseFrame (1 / 30)] @ ['''']"
    and ft: "toFixed (\<lambda>a. ''1e+21'') 6 (1 / 30) = ''0.033333''"
    and s: "splitOn CHR '' '' (motionLine (\<lambda>a. ''1e+21'') (staticPoseFrame 0))
               = concat (map (jointTokens (\<lambda>a. ''1e+21'') (bvhPositions (landmarks (staticPoseFrame 0))))
                           (preorder ''Hips''))"
    by simp_all
  have n: "length staticPoseTokens = 90" by (simp add: staticPoseTokens_def)
  from l s n show ?thesis unfolding d ft staticPose_tokens by simp
qed


end
